theory Spec2Isabelle
  imports Complex_Main
begin

section \<open>Python values: exceptions, strings, dictionaries\<close>

text \<open>
  The generator is a Python module (\<^verbatim>\<open>gslgen_v10.py\<close>). Its functions are embedded as HOL
  functions of the same names. An exception is a value: a function that can raise returns
  \<open>py_error + 'a\<close>, with \<open>Inl\<close> for the exception. Strings are \<open>char list\<close>s of ASCII
  text; dictionaries are association lists in insertion order with distinct keys. Python
  floats are modelled by real numbers (the decimal literals of the source are taken as exact
  and no binary rounding is modelled); Python's unbounded integers are \<open>int\<close>.
\<close>

datatype py_error = KeyError | ValueError | ZeroDivisionError

fun exception_name :: "py_error \<Rightarrow> string" where
  "exception_name KeyError = ''KeyError''"
| "exception_name ValueError = ''ValueError''"
| "exception_name ZeroDivisionError = ''ZeroDivisionError''"

definition bindE :: "py_error + 'a \<Rightarrow> ('a \<Rightarrow> py_error + 'b) \<Rightarrow> py_error + 'b" where
  "bindE m f = (case m of Inl e \<Rightarrow> Inl e | Inr x \<Rightarrow> f x)"

text \<open>A loop that computes one result per element and stops at the first exception.\<close>

fun traverse :: "('a \<Rightarrow> py_error + 'b) \<Rightarrow> 'a list \<Rightarrow> py_error + 'b list" where
  "traverse f [] = Inr []"
| "traverse f (x # xs) =
     (case f x of
        Inl e \<Rightarrow> Inl e
      | Inr y \<Rightarrow> (case traverse f xs of Inl e \<Rightarrow> Inl e | Inr ys \<Rightarrow> Inr (y # ys)))"

subsection \<open>Characters and strings\<close>

definition isdigit :: "char \<Rightarrow> bool" where
  "isdigit c = (c \<in> set ''0123456789'')"

text \<open>\<^verbatim>\<open>str.isspace\<close> on ASCII: tab, line feed, vertical tab, form feed, carriage return,
  the four separators 0x1C..0x1F and the space.\<close>

definition isspace :: "char \<Rightarrow> bool" where
  "isspace c = (c \<in> set [CHR 0x09, CHR 0x0A, CHR 0x0B, CHR 0x0C, CHR 0x0D,
                            CHR 0x1C, CHR 0x1D, CHR 0x1E, CHR 0x1F, CHR 0x20])"

definition strip :: "string \<Rightarrow> string" where
  "strip s = rev (dropWhile isspace (rev (dropWhile isspace s)))"







fun startswith :: "string \<Rightarrow> string \<Rightarrow> bool" where
  "startswith s [] = True"
| "startswith [] (p # ps) = False"
| "startswith (c # cs) (p # ps) = (c = p \<and> startswith cs ps)"

text \<open>\<open>str_in needle s\<close> is Python's \<^verbatim>\<open>needle in s\<close> on strings.\<close>

fun str_in :: "string \<Rightarrow> string \<Rightarrow> bool" where
  "str_in needle [] = (needle = [])"
| "str_in needle (c # cs) = (startswith (c # cs) needle \<or> str_in needle cs)"

text \<open>\<^verbatim>\<open>s.split(sep)\<close> for a separator of one character: one more part than separators.\<close>

fun py_split :: "char \<Rightarrow> string \<Rightarrow> string list" where
  "py_split sep [] = [[]]"
| "py_split sep (c # cs) =
     (if c = sep then [] # py_split sep cs
      else (case py_split sep cs of [] \<Rightarrow> [[c]] | p # ps \<Rightarrow> (c # p) # ps))"

subsection \<open>Integers and their decimal text\<close>

definition digit_value :: "char \<Rightarrow> nat" where
  "digit_value c =
     (case map_of (zip ''0123456789'' [0, 1, 2, 3, 4, 5, 6, 7, 8, 9]) c of
        Some d \<Rightarrow> d | None \<Rightarrow> 0)"

definition nat_of_digits :: "string \<Rightarrow> nat" where
  "nat_of_digits ds = foldl (\<lambda>a c. 10 * a + digit_value c) 0 ds"

text \<open>The digits of an integer literal: decimal digits, with single underscores allowed
  between two digits.\<close>

fun digits_ok :: "string \<Rightarrow> bool" where
  "digits_ok [] = False"
| "digits_ok [c] = isdigit c"
| "digits_ok (c # d # r) =
     (if isdigit c then (if d = CHR ''_'' then digits_ok r else digits_ok (d # r)) else False)"

text \<open>\<^verbatim>\<open>int(s)\<close> on a string: surrounding whitespace is dropped, one sign is allowed,
  \<open>None\<close> stands for the \<^verbatim>\<open>ValueError\<close>. (The interpreter's limit on the length of
  a decimal text is not modelled.)\<close>

definition py_int :: "string \<Rightarrow> int option" where
  "py_int s =
     (let t = strip s;
          signed = (t \<noteq> [] \<and> (hd t = CHR ''-'' \<or> hd t = CHR ''+''));
          body = (if signed then tl t else t)
      in if digits_ok body
         then Some ((if t \<noteq> [] \<and> hd t = CHR ''-'' then - 1 else 1)
                    * int (nat_of_digits (filter (\<lambda>c. c \<noteq> CHR ''_'') body)))
         else None)"

definition digit_char :: "nat \<Rightarrow> char" where
  "digit_char d = ''0123456789'' ! d"

function str_of_nat :: "nat \<Rightarrow> string" where
  "str_of_nat n = (if n < 10 then [digit_char n] else str_of_nat (n div 10) @ [digit_char (n mod 10)])"
  by pat_completeness auto
termination
  by (relation "measure (\<lambda>n. n)") auto

declare str_of_nat.simps [simp del]

text \<open>\<^verbatim>\<open>str(i)\<close>, also the text an f-string puts for an integer.\<close>

definition str_of_int :: "int \<Rightarrow> string" where
  "str_of_int i = (if i < 0 then CHR ''-'' # str_of_nat (nat (- i)) else str_of_nat (nat i))"

subsection \<open>Dictionaries\<close>

text \<open>\<^verbatim>\<open>d[k] = v\<close>: an existing key keeps its place, a new key goes last.\<close>

fun dict_set :: "('k \<times> 'v) list \<Rightarrow> 'k \<Rightarrow> 'v \<Rightarrow> ('k \<times> 'v) list" where
  "dict_set [] k v = [(k, v)]"
| "dict_set ((k', v') # d) k v = (if k' = k then (k, v) # d else (k', v') # dict_set d k v)"

text \<open>\<^verbatim>\<open>d.get(k, default)\<close> and \<^verbatim>\<open>d[k]\<close>.\<close>

definition dict_get :: "('k \<times> 'v) list \<Rightarrow> 'k \<Rightarrow> 'v \<Rightarrow> 'v" where
  "dict_get d k dflt = (case map_of d k of Some v \<Rightarrow> v | None \<Rightarrow> dflt)"

definition dict_item :: "('k \<times> 'v) list \<Rightarrow> 'k \<Rightarrow> py_error + 'v" where
  "dict_item d k = (case map_of d k of Some v \<Rightarrow> Inr v | None \<Rightarrow> Inl KeyError)"

section \<open>Mass constants\<close>

definition ATOMIC_MASSES :: "(string \<times> real) list" where
  "ATOMIC_MASSES =
     [(''C'', 12.0000000),
      (''H'', 1.00782503223),
      (''N'', 14.0030740048),
      (''O'', 15.9949146223),
      (''P'', 30.9737619985),
      (''S'', 31.9720711744)]"

definition PROTON_MASS :: real where
  "PROTON_MASS = 1.007276466812"


text \<open>\<^verbatim>\<open>round(x, 4)\<close>: the nearest multiple of \<open>1/10000\<close>, a tie going to the even one.\<close>

definition round4 :: "real \<Rightarrow> real" where
  "round4 x =
     (let y = x * 10000; f = \<lfloor>y\<rfloor>; d = y - of_int f
      in of_int (if d < 1 / 2 then f else if 1 / 2 < d then f + 1
                 else if even f then f else f + 1) / 10000)"

section \<open>Isotope labels\<close>





section \<open>Molecular formulas\<close>

text \<open>
  The dataclass \<^verbatim>\<open>MolecularFormula\<close> has one field, \<^verbatim>\<open>elements\<close>. The function
  \<open>MolecularFormula\<close> is its constructor with \<^verbatim>\<open>__post_init__\<close>, which keeps the items
  with a count above zero; \<open>Formula\<close> is the bare object, whose field the code also assigns
  to after construction.
\<close>

datatype MolecularFormula = Formula (elements: "(string \<times> int) list")

definition MolecularFormula :: "(string \<times> int) list \<Rightarrow> MolecularFormula" where
  "MolecularFormula d = Formula (filter (\<lambda>(k, v). 0 < v) d)"

fun mass_sum :: "(string \<times> int) list \<Rightarrow> py_error + real" where
  "mass_sum [] = Inr 0"
| "mass_sum ((element, n) # items) =
     (case map_of ATOMIC_MASSES element of
        None \<Rightarrow> Inl KeyError
      | Some m \<Rightarrow> (case mass_sum items of Inl e \<Rightarrow> Inl e | Inr t \<Rightarrow> Inr (m * of_int n + t)))"

definition mass :: "MolecularFormula \<Rightarrow> py_error + real" where
  "mass f = mass_sum (elements f)"

definition element_str :: "(string \<times> int) list \<Rightarrow> string \<Rightarrow> string" where
  "element_str d element =
     (case map_of d element of
        Some n \<Rightarrow> (if 0 < n then element @ (if 1 < n then str_of_int n else []) else [])
      | None \<Rightarrow> [])"

text \<open>\<^verbatim>\<open>__str__\<close>.\<close>

definition formula_str :: "MolecularFormula \<Rightarrow> string" where
  "formula_str f = concat (map (element_str (elements f)) [''C'', ''H'', ''N'', ''O'', ''P'', ''S''])"

text \<open>The loss computation every \<^verbatim>\<open>get_*_hg_loss_fragments\<close> function repeats: copy the
  precursor, subtract the loss from the copy's \<^verbatim>\<open>elements\<close>, build a new formula from the
  items that stay above zero.\<close>

definition subtract_loss :: "(string \<times> int) list \<Rightarrow> (string \<times> int) list \<Rightarrow> (string \<times> int) list" where
  "subtract_loss d loss_dict =
     fold (\<lambda>(elem, loss_val) e. dict_set e elem (dict_get e elem 0 - loss_val)) loss_dict d"

definition loss_formula :: "MolecularFormula \<Rightarrow> (string \<times> int) list \<Rightarrow> MolecularFormula" where
  "loss_formula precursor_formula loss_dict =
     (let frag_formula = MolecularFormula (elements precursor_formula);
          e = subtract_loss (elements frag_formula) loss_dict
      in MolecularFormula (filter (\<lambda>(k, v). 0 < v) e))"

text \<open>The water loss of \<^verbatim>\<open>generate_transitions\<close>.\<close>

definition h2o_loss_formula :: "MolecularFormula \<Rightarrow> MolecularFormula" where
  "h2o_loss_formula formula =
     (let f0 = MolecularFormula (elements formula);
          e1 = dict_set (elements f0) ''H'' (dict_get (elements f0) ''H'' 0 - 2);
          e2 = dict_set e1 ''O'' (dict_get e1 ''O'' 0 - 1)
      in MolecularFormula (filter (\<lambda>(k, v). 0 < v) e2))"

section \<open>Lipid database\<close>

definition GSL_HEADGROUP_COMPOSITIONS :: "(string \<times> (string \<times> int) list) list" where
  "GSL_HEADGROUP_COMPOSITIONS =
     [(''Hex'', [(''C'', 6), (''H'', 10), (''O'', 5)]),
      (''SM4'', [(''C'', 6), (''H'', 10), (''N'', 0), (''O'', 8), (''S'', 1)]),
      (''Lac'', [(''C'', 12), (''H'', 20), (''O'', 10)]),
      (''LC3'', [(''C'', 20), (''H'', 33), (''N'', 1), (''O'', 15)]),
      (''LC4'', [(''C'', 26), (''H'', 43), (''N'', 1), (''O'', 20)]),
      (''Gb3'', [(''C'', 18), (''H'', 30), (''N'', 0), (''O'', 15)]),
      (''Gb4'', [(''C'', 26), (''H'', 43), (''N'', 1), (''O'', 20)]),
      (''GA2'', [(''C'', 20), (''H'', 33), (''N'', 1), (''O'', 15)]),
      (''GA1'', [(''C'', 26), (''H'', 43), (''N'', 1), (''O'', 20)]),
      (''GM4'', [(''C'', 17), (''H'', 27), (''N'', 1), (''O'', 13)]),
      (''GM3'', [(''C'', 23), (''H'', 37), (''N'', 1), (''O'', 18)]),
      (''GM2'', [(''C'', 31), (''H'', 50), (''N'', 2), (''O'', 23)]),
      (''GM1'', [(''C'', 37), (''H'', 60), (''N'', 2), (''O'', 28)]),
      (''GD3'', [(''C'', 34), (''H'', 54), (''N'', 2), (''O'', 26)]),
      (''GD2'', [(''C'', 42), (''H'', 67), (''N'', 3), (''O'', 31)]),
      (''GD1a'', [(''C'', 48), (''H'', 77), (''N'', 3), (''O'', 36)]),
      (''GD1b'', [(''C'', 48), (''H'', 77), (''N'', 3), (''O'', 36)]),
      (''GT3'', [(''C'', 45), (''H'', 71), (''N'', 3), (''O'', 34)]),
      (''GT2'', [(''C'', 53), (''H'', 84), (''N'', 4), (''O'', 39)]),
      (''GT1a'', [(''C'', 59), (''H'', 94), (''N'', 4), (''O'', 44)]),
      (''GT1b'', [(''C'', 59), (''H'', 94), (''N'', 4), (''O'', 44)]),
      (''GT1c'', [(''C'', 59), (''H'', 94), (''N'', 4), (''O'', 44)]),
      (''GQ1'', [(''C'', 70), (''H'', 111), (''N'', 5), (''O'', 52)]),
      (''GP1'', [(''C'', 81), (''H'', 128), (''N'', 6), (''O'', 60)]),
      (''nLc10'', [(''C'', 68), (''H'', 112), (''N'', 4), (''O'', 50)]),
      (''nLc8'', [(''C'', 54), (''H'', 89), (''N'', 3), (''O'', 40)]),
      (''nLc6'', [(''C'', 40), (''H'', 66), (''N'', 2), (''O'', 30)]),
      (''SHex2'', [(''C'', 12), (''H'', 20), (''O'', 13), (''S'', 1)])]"

definition CERAMIDE_COMPOSITIONS :: "(string \<times> (string \<times> int) list) list" where
  "CERAMIDE_COMPOSITIONS =
     [(''Cer'', [(''C'', 0), (''H'', 0), (''N'', 0), (''O'', 0)]),
      (''doxCer'', [(''C'', 0), (''H'', 0), (''N'', 0), (''O'', 0)])]"

definition SM_COMPOSITIONS :: "(string \<times> (string \<times> int) list) list" where
  "SM_COMPOSITIONS =
     [(''SM'', [(''C'', 5), (''H'', 12), (''N'', 1), (''O'', 3), (''P'', 1)])]"

definition get_lipid_composition :: "string \<Rightarrow> py_error + (string \<times> int) list" where
  "get_lipid_composition lipid_class =
     (case map_of GSL_HEADGROUP_COMPOSITIONS lipid_class of
        Some c \<Rightarrow> Inr c
      | None \<Rightarrow>
          (case map_of CERAMIDE_COMPOSITIONS lipid_class of
             Some c \<Rightarrow> Inr c
           | None \<Rightarrow>
               (case map_of SM_COMPOSITIONS lipid_class of
                  Some c \<Rightarrow> Inr c
                | None \<Rightarrow> Inl ValueError)))"

definition is_ceramide_class :: "string \<Rightarrow> bool" where
  "is_ceramide_class lipid_class = (lipid_class \<in> set (map fst CERAMIDE_COMPOSITIONS))"

definition is_gsl_class :: "string \<Rightarrow> bool" where
  "is_gsl_class lipid_class = (lipid_class \<in> set (map fst GSL_HEADGROUP_COMPOSITIONS))"

text \<open>The keys of the three catalogs (\<^verbatim>\<open>get_all_classes\<close> before sorting).\<close>

definition all_classes :: "string list" where
  "all_classes = map fst GSL_HEADGROUP_COMPOSITIONS @ map fst CERAMIDE_COMPOSITIONS
                 @ map fst SM_COMPOSITIONS"

section \<open>Configuration\<close>

text \<open>
  \<^verbatim>\<open>ConfigManager.load_config\<close> reads the file \<^verbatim>\<open>gsl_config.json\<close> of the working
  directory, or takes \<^verbatim>\<open>DEFAULT_CONFIG\<close>. The configuration it returns is state outside
  the program; the functions that call it take it as the parameter \<open>cfg\<close>.
\<close>

record config =
  lcb_standard :: "string list"
  lcb_doxCer :: "string list"
  min_length :: int
  max_length :: int
  unsaturations :: "int list"
  even_chain_only :: bool
  selected_fatty_acids :: "string list option"

definition DEFAULT_CONFIG :: config where
  "DEFAULT_CONFIG =
     \<lparr>lcb_standard = [''18:0;2'', ''18:1;2'', ''18:2;2''],
      lcb_doxCer = [''18:0;1'', ''18:1;1''],
      min_length = 16,
      max_length = 26,
      unsaturations = [0, 1],
      even_chain_only = False,
      selected_fatty_acids = None\<rparr>"

definition get_lcb_list :: "config \<Rightarrow> string \<Rightarrow> string list" where
  "get_lcb_list cfg lipid_class =
     (if lipid_class = ''doxCer'' then lcb_doxCer cfg else lcb_standard cfg)"

definition fatty_acid_range :: "config \<Rightarrow> string list" where
  "fatty_acid_range cfg =
     concat (map (\<lambda>len.
        if even_chain_only cfg \<and> len mod 2 \<noteq> 0 then []
        else map (\<lambda>unsat. str_of_int len @ '':'' @ str_of_int unsat) (unsaturations cfg))
       [min_length cfg..max_length cfg])"

definition get_fatty_acid_list :: "config \<Rightarrow> string list" where
  "get_fatty_acid_list cfg =
     (case selected_fatty_acids cfg of
        Some fas \<Rightarrow> (if fas \<noteq> [] then fas else fatty_acid_range cfg)
      | None \<Rightarrow> fatty_acid_range cfg)"

section \<open>Species enumeration\<close>

record chain_comp =
  comp_C :: int
  comp_H :: int
  comp_N :: int
  comp_O :: int

text \<open>The body of the loop over \<^verbatim>\<open>lcb_list\<close>: \<open>Inr None\<close> when the token is passed
  over, \<open>Inl ValueError\<close> when \<^verbatim>\<open>int\<close> rejects one of its fields.\<close>

definition parse_lcb :: "string \<Rightarrow> string \<Rightarrow> py_error + chain_comp option" where
  "parse_lcb lipid_class lcb =
     (let parts = py_split CHR '':'' lcb
      in if length parts = 2 then
           (case py_int (parts ! 0) of
              None \<Rightarrow> Inl ValueError
            | Some carbons \<Rightarrow>
                (let unsat_hydox = py_split CHR '';'' (parts ! 1)
                 in case py_int (hd unsat_hydox) of
                      None \<Rightarrow> Inl ValueError
                    | Some unsat \<Rightarrow>
                        (case (if 1 < length unsat_hydox then py_int (unsat_hydox ! 1)
                               else Some (if lipid_class = ''doxCer'' then 1 else 2)) of
                           None \<Rightarrow> Inl ValueError
                         | Some hydroxyls \<Rightarrow>
                             Inr (Some \<lparr>comp_C = carbons,
                                        comp_H = 2 * carbons + 3 - 2 * unsat,
                                        comp_N = 1,
                                        comp_O = hydroxyls\<rparr>))))
         else Inr None)"

text \<open>The body of the loop over \<^verbatim>\<open>fa_list\<close>; the fatty-acid dictionary has no
  \<^verbatim>\<open>'N'\<close> entry, which \<open>comp_N = 0\<close> stands for (the entry is never read).\<close>

definition parse_fa :: "string \<Rightarrow> py_error + chain_comp option" where
  "parse_fa fa =
     (let parts = py_split CHR '':'' fa
      in if length parts = 2 then
           (case py_int (parts ! 0) of
              None \<Rightarrow> Inl ValueError
            | Some carbons \<Rightarrow>
                (case py_int (parts ! 1) of
                   None \<Rightarrow> Inl ValueError
                 | Some unsat \<Rightarrow>
                     Inr (Some \<lparr>comp_C = carbons,
                                comp_H = 2 * carbons - 2 * unsat,
                                comp_N = 0,
                                comp_O = 2\<rparr>)))
         else Inr None)"

fun chain_loop :: "(string \<Rightarrow> py_error + chain_comp option) \<Rightarrow> string list
    \<Rightarrow> (string \<times> chain_comp) list \<Rightarrow> py_error + (string \<times> chain_comp) list" where
  "chain_loop parse [] acc = Inr acc"
| "chain_loop parse (tok # toks) acc =
     (case parse tok of
        Inl e \<Rightarrow> Inl e
      | Inr None \<Rightarrow> chain_loop parse toks acc
      | Inr (Some c) \<Rightarrow> chain_loop parse toks (dict_set acc tok c))"

definition ceramide_backbone :: "chain_comp \<Rightarrow> chain_comp \<Rightarrow> chain_comp" where
  "ceramide_backbone lcb_comp fa_comp =
     \<lparr>comp_C = comp_C lcb_comp + comp_C fa_comp,
      comp_H = comp_H lcb_comp + comp_H fa_comp - 2,
      comp_N = comp_N lcb_comp,
      comp_O = comp_O lcb_comp + comp_O fa_comp - 1\<rparr>"

definition final_formula :: "(string \<times> int) list \<Rightarrow> chain_comp \<Rightarrow> py_error + (string \<times> int) list" where
  "final_formula headgroup_comp backbone =
     bindE (dict_item headgroup_comp ''C'') (\<lambda>hg_C.
     bindE (dict_item headgroup_comp ''H'') (\<lambda>hg_H.
     bindE (dict_item headgroup_comp ''O'') (\<lambda>hg_O.
       Inr [(''C'', comp_C backbone + hg_C),
            (''H'', comp_H backbone + hg_H),
            (''N'', comp_N backbone + dict_get headgroup_comp ''N'' 0),
            (''O'', comp_O backbone + hg_O),
            (''P'', dict_get headgroup_comp ''P'' 0),
            (''S'', dict_get headgroup_comp ''S'' 0)])))"

definition species_name :: "string \<Rightarrow> string \<Rightarrow> string" where
  "species_name lcb_name fa_name = lcb_name @ ''/'' @ fa_name"

fun formulas_loop :: "(string \<times> int) list
    \<Rightarrow> ((string \<times> chain_comp) \<times> (string \<times> chain_comp)) list
    \<Rightarrow> (string \<times> MolecularFormula) list \<Rightarrow> py_error + (string \<times> MolecularFormula) list" where
  "formulas_loop headgroup_comp [] formulas = Inr formulas"
| "formulas_loop headgroup_comp (((lcb_name, lcb_comp), (fa_name, fa_comp)) # pairs) formulas =
     (case final_formula headgroup_comp (ceramide_backbone lcb_comp fa_comp) of
        Inl e \<Rightarrow> Inl e
      | Inr ff \<Rightarrow>
          formulas_loop headgroup_comp pairs
            (dict_set formulas (species_name lcb_name fa_name) (MolecularFormula ff)))"

text \<open>\<open>selection configured selected\<close>: the test \<^verbatim>\<open>if selected:\<close> takes the
  configured list both for \<^verbatim>\<open>None\<close> and for an empty list.\<close>

definition selection :: "string list \<Rightarrow> string list option \<Rightarrow> string list" where
  "selection configured selected =
     (case selected of Some l \<Rightarrow> (if l \<noteq> [] then l else configured) | None \<Rightarrow> configured)"

definition generate_lipid_formulas :: "config \<Rightarrow> string \<Rightarrow> string list option \<Rightarrow> string list option
    \<Rightarrow> py_error + (string \<times> MolecularFormula) list" where
  "generate_lipid_formulas cfg lipid_class selected_lcbs selected_fas =
     bindE (chain_loop (parse_lcb lipid_class)
              (selection (get_lcb_list cfg lipid_class) selected_lcbs) []) (\<lambda>lcb_variations.
     bindE (chain_loop parse_fa
              (selection (get_fatty_acid_list cfg) selected_fas) []) (\<lambda>fatty_acids.
     bindE (get_lipid_composition lipid_class) (\<lambda>headgroup_comp.
       formulas_loop headgroup_comp (List.product lcb_variations fatty_acids) [])))"

section \<open>Fragment rules\<close>

text \<open>
  A fragment is a Python tuple: name, formula text and mass (\<open>Frag3\<close>, what the loss
  generators return), or these with a flag (\<open>Frag4\<close>, the entries of the literal tables).
\<close>

datatype fragment = Frag3 string string real | Frag4 string string real bool

fun frag_name :: "fragment \<Rightarrow> string" where
  "frag_name (Frag3 n f m) = n"
| "frag_name (Frag4 n f m b) = n"

fun frag_formula :: "fragment \<Rightarrow> string" where
  "frag_formula (Frag3 n f m) = f"
| "frag_formula (Frag4 n f m b) = f"

fun frag_mass :: "fragment \<Rightarrow> real" where
  "frag_mass (Frag3 n f m) = m"
| "frag_mass (Frag4 n f m b) = m"

subsection \<open>Headgroup losses\<close>

text \<open>The loop shared by the \<^verbatim>\<open>get_*_hg_loss_fragments\<close> functions, over the items of
  their table of losses.\<close>

definition hg_loss_fragments :: "(string \<times> (string \<times> int) list) list \<Rightarrow> MolecularFormula
    \<Rightarrow> py_error + fragment list" where
  "hg_loss_fragments losses precursor_formula =
     traverse (\<lambda>(frag_name, loss_dict).
        (let frag_formula = loss_formula precursor_formula loss_dict
         in bindE (mass frag_formula) (\<lambda>frag_mass.
              Inr (Frag3 frag_name (formula_str frag_formula) frag_mass)))) losses"

definition HEX_HEADGROUP_LOSSES :: "(string \<times> (string \<times> int) list) list" where
  "HEX_HEADGROUP_LOSSES =
     [(''HG(-Hex,162)'', [(''C'', 6), (''H'', 10), (''O'', 5)]),
      (''HG(-Hex,180)'', [(''C'', 6), (''H'', 12), (''O'', 6)]),
      (''HG(-Hex,198)'', [(''C'', 6), (''H'', 14), (''O'', 7)])]"

definition LAC_HEADGROUP_LOSSES :: "(string \<times> (string \<times> int) list) list" where
  "LAC_HEADGROUP_LOSSES =
     [(''HG(-Hex2,342)'', [(''C'', 12), (''H'', 22), (''O'', 11)]),
      (''HG(-Hex2,360)'', [(''C'', 12), (''H'', 24), (''O'', 12)]),
      (''HG(-Hex2,324)'', [(''C'', 12), (''H'', 20), (''O'', 10)])]"

definition GB3_HEADGROUP_LOSSES :: "(string \<times> (string \<times> int) list) list" where
  "GB3_HEADGROUP_LOSSES =
     [(''HG(-Hex3,504)'', [(''C'', 18), (''H'', 32), (''O'', 16)]),
      (''HG(-Hex3,522)'', [(''C'', 18), (''H'', 34), (''O'', 17)]),
      (''HG(-Hex3,540)'', [(''C'', 18), (''H'', 36), (''O'', 18)]),
      (''HG(-Hex2,342)'', [(''C'', 12), (''H'', 22), (''O'', 11)]),
      (''HG(-Hex,180)'', [(''C'', 6), (''H'', 12), (''O'', 6)])]"

definition GB4_HEADGROUP_LOSSES :: "(string \<times> (string \<times> int) list) list" where
  "GB4_HEADGROUP_LOSSES =
     [(''HG(-HexNAc,221)'', [(''C'', 8), (''H'', 15), (''N'', 1), (''O'', 6)]),
      (''HG(-HexNAcHex,383)'', [(''C'', 14), (''H'', 25), (''N'', 1), (''O'', 11)]),
      (''HG(-HexNAcHex2,545)'', [(''C'', 20), (''H'', 35), (''N'', 1), (''O'', 16)]),
      (''HG(-HexNAcHex3,707)'', [(''C'', 26), (''H'', 45), (''N'', 1), (''O'', 21)]),
      (''HG(-HexNAcHex3,725)'', [(''C'', 26), (''H'', 47), (''N'', 1), (''O'', 22)])]"

definition GA1_HEADGROUP_LOSSES :: "(string \<times> (string \<times> int) list) list" where
  "GA1_HEADGROUP_LOSSES =
     [(''HG(-HexNAc,221)'', [(''C'', 8), (''H'', 15), (''N'', 1), (''O'', 6)]),
      (''HG(-HexNAcHex,383)'', [(''C'', 14), (''H'', 25), (''N'', 1), (''O'', 11)]),
      (''HG(-HexNAc2Hex,586)'', [(''C'', 22), (''H'', 38), (''N'', 2), (''O'', 16)]),
      (''HG(-HexNAc2Hex,604)'', [(''C'', 22), (''H'', 40), (''N'', 2), (''O'', 17)]),
      (''HG(-HexNAc2Hex2,748)'', [(''C'', 28), (''H'', 48), (''N'', 2), (''O'', 21)]),
      (''HG(-HexNAc2Hex2,766)'', [(''C'', 28), (''H'', 50), (''N'', 2), (''O'', 22)]),
      (''HG(-HexNAc2Hex3,910)'', [(''C'', 34), (''H'', 58), (''N'', 2), (''O'', 26)]),
      (''HG(-HexNAc2Hex3,928)'', [(''C'', 34), (''H'', 60), (''N'', 2), (''O'', 27)])]"

definition GA2_HEADGROUP_LOSSES :: "(string \<times> (string \<times> int) list) list" where
  "GA2_HEADGROUP_LOSSES =
     [(''HG(-HexNAc,221)'', [(''C'', 8), (''H'', 15), (''N'', 1), (''O'', 6)]),
      (''HG(-HexNAcHex,383)'', [(''C'', 14), (''H'', 25), (''N'', 1), (''O'', 11)]),
      (''HG(-HexNAcHex2,545)'', [(''C'', 20), (''H'', 35), (''N'', 1), (''O'', 16)]),
      (''HG(-HexNAcHex2,563)'', [(''C'', 20), (''H'', 37), (''N'', 1), (''O'', 17)])]"

definition LC3_HEADGROUP_LOSSES :: "(string \<times> (string \<times> int) list) list" where
  "LC3_HEADGROUP_LOSSES =
     [(''HG(-HexNAc,221)'', [(''C'', 8), (''H'', 15), (''N'', 1), (''O'', 6)]),
      (''HG(-HexNAcHex,383)'', [(''C'', 14), (''H'', 25), (''N'', 1), (''O'', 11)]),
      (''HG(-HexNAcHex,401)'', [(''C'', 14), (''H'', 27), (''N'', 1), (''O'', 12)]),
      (''HG(-HexNAcHex2,545)'', [(''C'', 20), (''H'', 35), (''N'', 1), (''O'', 16)]),
      (''HG(-HexNAcHex2,563)'', [(''C'', 20), (''H'', 37), (''N'', 1), (''O'', 17)])]"

definition LC4_HEADGROUP_LOSSES :: "(string \<times> (string \<times> int) list) list" where
  "LC4_HEADGROUP_LOSSES =
     [(''HG(-HexNAc,221)'', [(''C'', 8), (''H'', 15), (''N'', 1), (''O'', 6)]),
      (''HG(-HexNAc2,442)'', [(''C'', 16), (''H'', 28), (''N'', 2), (''O'', 11)]),
      (''HG(-HexNAc2Hex,586)'', [(''C'', 22), (''H'', 38), (''N'', 2), (''O'', 16)]),
      (''HG(-HexNAc2Hex,604)'', [(''C'', 22), (''H'', 40), (''N'', 2), (''O'', 17)]),
      (''HG(-HexNAc2Hex2,748)'', [(''C'', 28), (''H'', 48), (''N'', 2), (''O'', 21)]),
      (''HG(-HexNAc2Hex2,766)'', [(''C'', 28), (''H'', 50), (''N'', 2), (''O'', 22)]),
      (''HG(-HexNAc2Hex2,784)'', [(''C'', 28), (''H'', 52), (''N'', 2), (''O'', 23)])]"

definition SM4_HEADGROUP_LOSSES :: "(string \<times> (string \<times> int) list) list" where
  "SM4_HEADGROUP_LOSSES =
     [(''HG(-SO4H2,98)'', [(''H'', 2), (''S'', 1), (''O'', 4)]),
      (''HG(-SHex,260)'', [(''C'', 6), (''H'', 12), (''S'', 1), (''O'', 9)]),
      (''HG(-SHex,278)'', [(''C'', 6), (''H'', 14), (''S'', 1), (''O'', 10)]),
      (''HG(-SHex,242)'', [(''C'', 6), (''H'', 10), (''S'', 1), (''O'', 8)])]"

definition SHEX2_HEADGROUP_LOSSES :: "(string \<times> (string \<times> int) list) list" where
  "SHEX2_HEADGROUP_LOSSES =
     [(''HG(-SO3,80)'', [(''S'', 1), (''O'', 3)]),
      (''HG(-HSO3,81)'', [(''H'', 1), (''S'', 1), (''O'', 3)]),
      (''HG(-H2SO4,98)'', [(''H'', 2), (''S'', 1), (''O'', 4)]),
      (''HG(-SHex,242)'', [(''C'', 6), (''H'', 10), (''S'', 1), (''O'', 8)]),
      (''HG(-SHex,260)'', [(''C'', 6), (''H'', 12), (''S'', 1), (''O'', 9)]),
      (''HG(-SHex,278)'', [(''C'', 6), (''H'', 14), (''S'', 1), (''O'', 10)]),
      (''HG(-SHexHex,404)'', [(''C'', 12), (''H'', 20), (''S'', 1), (''O'', 13)]),
      (''HG(-SHexHex,422)'', [(''C'', 12), (''H'', 22), (''S'', 1), (''O'', 14)]),
      (''HG(-SHexHex,440)'', [(''C'', 12), (''H'', 24), (''S'', 1), (''O'', 15)])]"

definition GM4_HEADGROUP_LOSSES :: "(string \<times> (string \<times> int) list) list" where
  "GM4_HEADGROUP_LOSSES =
     [(''HG(-Neu5Ac,309)'', [(''C'', 11), (''H'', 19), (''N'', 1), (''O'', 9)]),
      (''HG(-HexNeu5Ac,471)'', [(''C'', 17), (''H'', 29), (''N'', 1), (''O'', 14)])]"

definition GM3_HEADGROUP_LOSSES :: "(string \<times> (string \<times> int) list) list" where
  "GM3_HEADGROUP_LOSSES =
     [(''HG(-Neu5Ac,309)'', [(''C'', 11), (''H'', 19), (''N'', 1), (''O'', 9)]),
      (''HG(-HexNeu5Ac,471)'', [(''C'', 17), (''H'', 29), (''N'', 1), (''O'', 14)]),
      (''HG(-Hex2Neu5Ac,633)'', [(''C'', 23), (''H'', 39), (''N'', 1), (''O'', 19)])]"

definition GM2_HEADGROUP_LOSSES :: "(string \<times> (string \<times> int) list) list" where
  "GM2_HEADGROUP_LOSSES =
     [(''HG(-Neu5Ac,309)'', [(''C'', 11), (''H'', 19), (''N'', 1), (''O'', 9)]),
      (''HG(-Neu5AcHexNAc,512)'', [(''C'', 19), (''H'', 32), (''N'', 2), (''O'', 14)]),
      (''HG(-Neu5AcHexNAcHex,674)'', [(''C'', 25), (''H'', 42), (''N'', 2), (''O'', 19)]),
      (''HG(-Neu5AcHexNAcHex2,836)'', [(''C'', 31), (''H'', 52), (''N'', 2), (''O'', 24)])]"

definition GM1_HEADGROUP_LOSSES :: "(string \<times> (string \<times> int) list) list" where
  "GM1_HEADGROUP_LOSSES =
     [(''HG(-Neu5Ac,309)'', [(''C'', 11), (''H'', 19), (''N'', 1), (''O'', 9)]),
      (''HG(-Neu5AcHexNAcHex,674)'', [(''C'', 25), (''H'', 42), (''N'', 2), (''O'', 19)]),
      (''HG(-Neu5AcHexNAcHex2,836)'', [(''C'', 31), (''H'', 52), (''N'', 2), (''O'', 24)]),
      (''HG(-Neu5AcHexNAcHex3,998)'', [(''C'', 37), (''H'', 62), (''N'', 2), (''O'', 29)]),
      (''HG(-Neu5AcHexNAcHex3,1016)'', [(''C'', 37), (''H'', 64), (''N'', 2), (''O'', 30)])]"

definition GD3_HEADGROUP_LOSSES :: "(string \<times> (string \<times> int) list) list" where
  "GD3_HEADGROUP_LOSSES =
     [(''HG(-Neu5Ac,309)'', [(''C'', 11), (''H'', 19), (''N'', 1), (''O'', 9)]),
      (''HG(-Neu5Ac2,600)'', [(''C'', 22), (''H'', 36), (''N'', 2), (''O'', 17)]),
      (''HG(-HexNeu5Ac2,780)'', [(''C'', 28), (''H'', 46), (''N'', 2), (''O'', 22)]),
      (''HG(-Hex2Neu5Ac2,942)'', [(''C'', 34), (''H'', 56), (''N'', 2), (''O'', 27)])]"

definition GD2_HEADGROUP_LOSSES :: "(string \<times> (string \<times> int) list) list" where
  "GD2_HEADGROUP_LOSSES =
     [(''HG(-Neu5Ac,309)'', [(''C'', 11), (''H'', 19), (''N'', 1), (''O'', 9)]),
      (''HG(-Neu5Ac2,600)'', [(''C'', 22), (''H'', 36), (''N'', 2), (''O'', 17)]),
      (''HG(-HexNAc,221)'', [(''C'', 8), (''H'', 15), (''N'', 1), (''O'', 6)]),
      (''HG(-HexNAc,203)'', [(''C'', 8), (''H'', 13), (''N'', 1), (''O'', 5)]),
      (''HG(-Neu5AcHexNAc,512)'', [(''C'', 19), (''H'', 32), (''N'', 2), (''O'', 14)]),
      (''HG(-Neu5Ac2HexNAc,803)'', [(''C'', 30), (''H'', 49), (''N'', 3), (''O'', 22)]),
      (''HG(-Neu5Ac2HexNAcHex,965)'', [(''C'', 36), (''H'', 59), (''N'', 3), (''O'', 27)]),
      (''HG(-HexNAcHex2Neu5Ac2,1127)'', [(''C'', 42), (''H'', 69), (''N'', 3), (''O'', 32)])]"

definition GD1_HEADGROUP_LOSSES :: "(string \<times> (string \<times> int) list) list" where
  "GD1_HEADGROUP_LOSSES =
     [(''HG(-Neu5Ac,309)'', [(''C'', 11), (''H'', 19), (''N'', 1), (''O'', 9)]),
      (''HG(-Neu5Ac2,618)'', [(''C'', 22), (''H'', 38), (''N'', 2), (''O'', 18)]),
      (''HG(-Neu5Ac2,600)'', [(''C'', 22), (''H'', 36), (''N'', 2), (''O'', 17)]),
      (''HG(-Neu5Ac2Hex,762)'', [(''C'', 28), (''H'', 46), (''N'', 2), (''O'', 22)]),
      (''HG(-Neu5Ac2HexNAcHex,965)'', [(''C'', 36), (''H'', 59), (''N'', 3), (''O'', 27)]),
      (''HG(-Neu5Ac2HexNAcHex2,1127)'', [(''C'', 42), (''H'', 69), (''N'', 3), (''O'', 32)]),
      (''HG(-Neu5Ac2HexNAcHex3,1289)'', [(''C'', 48), (''H'', 79), (''N'', 3), (''O'', 37)])]"

definition GT1A_HEADGROUP_LOSSES :: "(string \<times> (string \<times> int) list) list" where
  "GT1A_HEADGROUP_LOSSES =
     [(''HG(-Neu5Ac,309)'', [(''C'', 11), (''H'', 19), (''N'', 1), (''O'', 9)]),
      (''HG(-Neu5Ac2,600)'', [(''C'', 22), (''H'', 36), (''N'', 2), (''O'', 17)]),
      (''HG(-Neu5Ac2,618)'', [(''C'', 22), (''H'', 38), (''N'', 2), (''O'', 18)]),
      (''HG(-Neu5Ac3,909)'', [(''C'', 33), (''H'', 55), (''N'', 3), (''O'', 26)]),
      (''HG(-Neu5Ac3,891)'', [(''C'', 33), (''H'', 53), (''N'', 3), (''O'', 25)]),
      (''HG(-Neu5Ac2HexNAcHex,965)'', [(''C'', 36), (''H'', 59), (''N'', 3), (''O'', 27)]),
      (''HG(-Neu5Ac3HexNAcHex,1274)'', [(''C'', 47), (''H'', 78), (''N'', 4), (''O'', 36)]),
      (''HG(-Neu5Ac3HexNAcHex,1256)'', [(''C'', 47), (''H'', 76), (''N'', 4), (''O'', 35)])]"

definition GT1B_HEADGROUP_LOSSES :: "(string \<times> (string \<times> int) list) list" where
  "GT1B_HEADGROUP_LOSSES =
     [(''HG(-Neu5Ac,309)'', [(''C'', 11), (''H'', 19), (''N'', 1), (''O'', 9)]),
      (''HG(-Neu5Ac2,600)'', [(''C'', 22), (''H'', 36), (''N'', 2), (''O'', 17)]),
      (''HG(-Neu5Ac2,618)'', [(''C'', 22), (''H'', 38), (''N'', 2), (''O'', 18)]),
      (''HG(-Neu5Ac3,909)'', [(''C'', 33), (''H'', 55), (''N'', 3), (''O'', 26)]),
      (''HG(-Neu5Ac3,891)'', [(''C'', 33), (''H'', 53), (''N'', 3), (''O'', 25)]),
      (''HG(-Neu5AcHexNAcHex,674)'', [(''C'', 25), (''H'', 42), (''N'', 2), (''O'', 19)]),
      (''HG(-Neu5Ac3HexNAcHex,1274)'', [(''C'', 47), (''H'', 78), (''N'', 4), (''O'', 36)]),
      (''HG(-Neu5Ac3HexNAcHex,1256)'', [(''C'', 47), (''H'', 76), (''N'', 4), (''O'', 35)])]"

definition GT1C_HEADGROUP_LOSSES :: "(string \<times> (string \<times> int) list) list" where
  "GT1C_HEADGROUP_LOSSES =
     [(''HG(-Neu5Ac,309)'', [(''C'', 11), (''H'', 19), (''N'', 1), (''O'', 9)]),
      (''HG(-Neu5Ac3,891)'', [(''C'', 33), (''H'', 53), (''N'', 3), (''O'', 25)]),
      (''HG(-Hex,180)'', [(''C'', 6), (''H'', 12), (''O'', 6)]),
      (''HG(-HexHexNAc,383)'', [(''C'', 14), (''H'', 25), (''N'', 1), (''O'', 11)]),
      (''HG(-HexNeu5Ac3,1071)'', [(''C'', 39), (''H'', 65), (''N'', 3), (''O'', 31)]),
      (''HG(-Neu5Ac3HexNAcHex,1274)'', [(''C'', 47), (''H'', 78), (''N'', 4), (''O'', 36)])]"

definition GT2_HEADGROUP_LOSSES :: "(string \<times> (string \<times> int) list) list" where
  "GT2_HEADGROUP_LOSSES =
     [(''HG(-Neu5Ac,309)'', [(''C'', 11), (''H'', 19), (''N'', 1), (''O'', 9)]),
      (''HG(-Neu5Ac2,600)'', [(''C'', 22), (''H'', 36), (''N'', 2), (''O'', 17)]),
      (''HG(-Neu5Ac3,891)'', [(''C'', 33), (''H'', 53), (''N'', 3), (''O'', 25)]),
      (''HG(-HexNAc,221)'', [(''C'', 8), (''H'', 15), (''N'', 1), (''O'', 6)]),
      (''HG(-HexNAcNeu5Ac3,1094)'', [(''C'', 41), (''H'', 66), (''N'', 4), (''O'', 30)]),
      (''HG(-Neu5Ac3HexNAc,1112)'', [(''C'', 41), (''H'', 68), (''N'', 4), (''O'', 31)])]"

definition GT3_HEADGROUP_LOSSES :: "(string \<times> (string \<times> int) list) list" where
  "GT3_HEADGROUP_LOSSES =
     [(''HG(-Neu5Ac,309)'', [(''C'', 11), (''H'', 19), (''N'', 1), (''O'', 9)]),
      (''HG(-Neu5Ac2,600)'', [(''C'', 22), (''H'', 36), (''N'', 2), (''O'', 17)]),
      (''HG(-Neu5Ac3,891)'', [(''C'', 33), (''H'', 53), (''N'', 3), (''O'', 25)]),
      (''HG(-Neu5Ac3,909)'', [(''C'', 33), (''H'', 55), (''N'', 3), (''O'', 26)]),
      (''HG(-Neu5Ac3Hex,1053)'', [(''C'', 39), (''H'', 63), (''N'', 3), (''O'', 30)]),
      (''HG(-Neu5Ac3Hex,1215)'', [(''C'', 45), (''H'', 73), (''N'', 3), (''O'', 35)])]"

definition GQ1_HEADGROUP_LOSSES :: "(string \<times> (string \<times> int) list) list" where
  "GQ1_HEADGROUP_LOSSES =
     [(''HG(-Neu5Ac,309)'', [(''C'', 11), (''H'', 19), (''N'', 1), (''O'', 9)]),
      (''HG(-Neu5Ac2,600)'', [(''C'', 22), (''H'', 36), (''N'', 2), (''O'', 17)]),
      (''HG(-Neu5Ac3,891)'', [(''C'', 33), (''H'', 53), (''N'', 3), (''O'', 25)]),
      (''HG(-Neu5Ac4,1182)'', [(''C'', 44), (''H'', 70), (''N'', 4), (''O'', 33)]),
      (''HG(-Neu5Ac4HexNAcHex,1547)'', [(''C'', 58), (''H'', 93), (''N'', 5), (''O'', 43)]),
      (''HG(-Neu5Ac4HexNAcHex,1727)'', [(''C'', 64), (''H'', 105), (''N'', 5), (''O'', 49)]),
      (''HG(-Neu5Ac4HexNAcHex,1709)'', [(''C'', 64), (''H'', 103), (''N'', 5), (''O'', 48)]),
      (''HG(-Neu5Ac4HexNAcHex,1871)'', [(''C'', 70), (''H'', 113), (''N'', 5), (''O'', 53)]),
      (''HG(-Neu5Ac4HexNAcHex,1887)'', [(''C'', 70), (''H'', 113), (''N'', 5), (''O'', 54)])]"

definition GP1_HEADGROUP_LOSSES :: "(string \<times> (string \<times> int) list) list" where
  "GP1_HEADGROUP_LOSSES =
     [(''HG(-Neu5Ac,309)'', [(''C'', 11), (''H'', 19), (''N'', 1), (''O'', 9)]),
      (''HG(-Neu5Ac2,600)'', [(''C'', 22), (''H'', 36), (''N'', 2), (''O'', 17)]),
      (''HG(-Neu5Ac3,891)'', [(''C'', 33), (''H'', 53), (''N'', 3), (''O'', 25)]),
      (''HG(-Neu5Ac4,1182)'', [(''C'', 44), (''H'', 70), (''N'', 4), (''O'', 33)]),
      (''HG(-Neu5Ac4,1200)'', [(''C'', 44), (''H'', 72), (''N'', 4), (''O'', 34)]),
      (''HG(-Neu5Ac5,1473)'', [(''C'', 55), (''H'', 87), (''N'', 5), (''O'', 41)]),
      (''HG(-Neu5Ac5,1491)'', [(''C'', 55), (''H'', 89), (''N'', 5), (''O'', 42)]),
      (''HG(-Neu5Ac4HexNAcHex,1547)'', [(''C'', 58), (''H'', 93), (''N'', 5), (''O'', 43)]),
      (''HG(-Neu5Ac5HexNAcHex,1838)'', [(''C'', 69), (''H'', 110), (''N'', 6), (''O'', 51)])]"

definition NLC10_HEADGROUP_LOSSES :: "(string \<times> (string \<times> int) list) list" where
  "NLC10_HEADGROUP_LOSSES =
     [(''HG(-HexNAc,221)'', [(''C'', 8), (''H'', 15), (''N'', 1), (''O'', 6)]),
      (''HG(-HexNAcHex,383)'', [(''C'', 14), (''H'', 25), (''N'', 1), (''O'', 11)]),
      (''HG(-HexNAc2Hex,586)'', [(''C'', 22), (''H'', 38), (''N'', 2), (''O'', 16)]),
      (''HG(-HexNAc4Hex4,1478)'', [(''C'', 56), (''H'', 94), (''N'', 4), (''O'', 44)])]"

definition NLC8_HEADGROUP_LOSSES :: "(string \<times> (string \<times> int) list) list" where
  "NLC8_HEADGROUP_LOSSES =
     [(''HG(-Hex,180)'', [(''C'', 6), (''H'', 12), (''O'', 6)]),
      (''HG(-HexHexNAc,365)'', [(''C'', 14), (''H'', 23), (''N'', 1), (''O'', 10)]),
      (''HG(-HexHexNAc,383)'', [(''C'', 14), (''H'', 25), (''N'', 1), (''O'', 11)]),
      (''HG(-Hex3HexNAc3,1113)'', [(''C'', 42), (''H'', 71), (''N'', 3), (''O'', 31)]),
      (''HG(-Hex3HexNAc3,1257)'', [(''C'', 42), (''H'', 71), (''N'', 3), (''O'', 32)])]"

definition NLC6_HEADGROUP_LOSSES :: "(string \<times> (string \<times> int) list) list" where
  "NLC6_HEADGROUP_LOSSES =
     [(''HG(-Hex,180)'', [(''C'', 6), (''H'', 12), (''O'', 6)]),
      (''HG(-HexHexNAc,365)'', [(''C'', 14), (''H'', 23), (''N'', 1), (''O'', 10)]),
      (''HG(-HexHexNAc,383)'', [(''C'', 14), (''H'', 25), (''N'', 1), (''O'', 11)]),
      (''HG(-Hex2HexNAc2,748)'', [(''C'', 28), (''H'', 48), (''N'', 2), (''O'', 21)]),
      (''HG(-Hex2HexNAc2,766)'', [(''C'', 28), (''H'', 50), (''N'', 2), (''O'', 22)]),
      (''HG(-Hex3HexNAc2,910)'', [(''C'', 34), (''H'', 58), (''N'', 2), (''O'', 26)]),
      (''HG(-Hex3HexNAc2,928)'', [(''C'', 34), (''H'', 60), (''N'', 2), (''O'', 27)])]"

definition get_hex_hg_loss_fragments :: "MolecularFormula \<Rightarrow> py_error + fragment list" where
  "get_hex_hg_loss_fragments = hg_loss_fragments HEX_HEADGROUP_LOSSES"

definition get_lac_hg_loss_fragments :: "MolecularFormula \<Rightarrow> py_error + fragment list" where
  "get_lac_hg_loss_fragments = hg_loss_fragments LAC_HEADGROUP_LOSSES"

definition get_gb3_hg_loss_fragments :: "MolecularFormula \<Rightarrow> py_error + fragment list" where
  "get_gb3_hg_loss_fragments = hg_loss_fragments GB3_HEADGROUP_LOSSES"

definition get_gb4_hg_loss_fragments :: "MolecularFormula \<Rightarrow> py_error + fragment list" where
  "get_gb4_hg_loss_fragments = hg_loss_fragments GB4_HEADGROUP_LOSSES"

definition get_ga1_hg_loss_fragments :: "MolecularFormula \<Rightarrow> py_error + fragment list" where
  "get_ga1_hg_loss_fragments = hg_loss_fragments GA1_HEADGROUP_LOSSES"

definition get_ga2_hg_loss_fragments :: "MolecularFormula \<Rightarrow> py_error + fragment list" where
  "get_ga2_hg_loss_fragments = hg_loss_fragments GA2_HEADGROUP_LOSSES"

definition get_lc3_hg_loss_fragments :: "MolecularFormula \<Rightarrow> py_error + fragment list" where
  "get_lc3_hg_loss_fragments = hg_loss_fragments LC3_HEADGROUP_LOSSES"

definition get_lc4_hg_loss_fragments :: "MolecularFormula \<Rightarrow> py_error + fragment list" where
  "get_lc4_hg_loss_fragments = hg_loss_fragments LC4_HEADGROUP_LOSSES"

definition get_sm4_hg_loss_fragments :: "MolecularFormula \<Rightarrow> py_error + fragment list" where
  "get_sm4_hg_loss_fragments = hg_loss_fragments SM4_HEADGROUP_LOSSES"

definition get_shex2_hg_loss_fragments :: "MolecularFormula \<Rightarrow> py_error + fragment list" where
  "get_shex2_hg_loss_fragments = hg_loss_fragments SHEX2_HEADGROUP_LOSSES"

definition get_gm4_hg_loss_fragments :: "MolecularFormula \<Rightarrow> py_error + fragment list" where
  "get_gm4_hg_loss_fragments = hg_loss_fragments GM4_HEADGROUP_LOSSES"

definition get_gm3_hg_loss_fragments :: "MolecularFormula \<Rightarrow> py_error + fragment list" where
  "get_gm3_hg_loss_fragments = hg_loss_fragments GM3_HEADGROUP_LOSSES"

definition get_gm2_hg_loss_fragments :: "MolecularFormula \<Rightarrow> py_error + fragment list" where
  "get_gm2_hg_loss_fragments = hg_loss_fragments GM2_HEADGROUP_LOSSES"

definition get_gm1_hg_loss_fragments :: "MolecularFormula \<Rightarrow> py_error + fragment list" where
  "get_gm1_hg_loss_fragments = hg_loss_fragments GM1_HEADGROUP_LOSSES"

definition get_gd3_hg_loss_fragments :: "MolecularFormula \<Rightarrow> py_error + fragment list" where
  "get_gd3_hg_loss_fragments = hg_loss_fragments GD3_HEADGROUP_LOSSES"

definition get_gd2_hg_loss_fragments :: "MolecularFormula \<Rightarrow> py_error + fragment list" where
  "get_gd2_hg_loss_fragments = hg_loss_fragments GD2_HEADGROUP_LOSSES"

text \<open>The parameter \<^verbatim>\<open>is_a\<close> is not read by the function's body.\<close>

definition get_gd1_hg_loss_fragments :: "MolecularFormula \<Rightarrow> bool \<Rightarrow> py_error + fragment list" where
  "get_gd1_hg_loss_fragments precursor_formula is_a =
     hg_loss_fragments GD1_HEADGROUP_LOSSES precursor_formula"

definition get_gt1a_hg_loss_fragments :: "MolecularFormula \<Rightarrow> py_error + fragment list" where
  "get_gt1a_hg_loss_fragments = hg_loss_fragments GT1A_HEADGROUP_LOSSES"

definition get_gt1b_hg_loss_fragments :: "MolecularFormula \<Rightarrow> py_error + fragment list" where
  "get_gt1b_hg_loss_fragments = hg_loss_fragments GT1B_HEADGROUP_LOSSES"

definition get_gt1c_hg_loss_fragments :: "MolecularFormula \<Rightarrow> py_error + fragment list" where
  "get_gt1c_hg_loss_fragments = hg_loss_fragments GT1C_HEADGROUP_LOSSES"

definition get_gt2_hg_loss_fragments :: "MolecularFormula \<Rightarrow> py_error + fragment list" where
  "get_gt2_hg_loss_fragments = hg_loss_fragments GT2_HEADGROUP_LOSSES"

definition get_gt3_hg_loss_fragments :: "MolecularFormula \<Rightarrow> py_error + fragment list" where
  "get_gt3_hg_loss_fragments = hg_loss_fragments GT3_HEADGROUP_LOSSES"

definition get_gq1_hg_loss_fragments :: "MolecularFormula \<Rightarrow> py_error + fragment list" where
  "get_gq1_hg_loss_fragments = hg_loss_fragments GQ1_HEADGROUP_LOSSES"

definition get_gp1_hg_loss_fragments :: "MolecularFormula \<Rightarrow> py_error + fragment list" where
  "get_gp1_hg_loss_fragments = hg_loss_fragments GP1_HEADGROUP_LOSSES"

definition get_nlc10_hg_loss_fragments :: "MolecularFormula \<Rightarrow> py_error + fragment list" where
  "get_nlc10_hg_loss_fragments = hg_loss_fragments NLC10_HEADGROUP_LOSSES"

definition get_nlc8_hg_loss_fragments :: "MolecularFormula \<Rightarrow> py_error + fragment list" where
  "get_nlc8_hg_loss_fragments = hg_loss_fragments NLC8_HEADGROUP_LOSSES"

definition get_nlc6_hg_loss_fragments :: "MolecularFormula \<Rightarrow> py_error + fragment list" where
  "get_nlc6_hg_loss_fragments = hg_loss_fragments NLC6_HEADGROUP_LOSSES"

subsection \<open>Positive mode: headgroup fragments\<close>

text \<open>
  \<^verbatim>\<open>get_headgroup_fragments_positive\<close> runs two \<^verbatim>\<open>if\<close>/\<^verbatim>\<open>elif\<close> chains one after the
  other, each extending the list \<^verbatim>\<open>fragments\<close>: the first ends with the branch
  \<^verbatim>\<open>startswith('GM')\<close>, the second starts at \<^verbatim>\<open>gsl_class == 'GM4'\<close>.
\<close>

definition positive_chain1 :: "string \<Rightarrow> fragment list" where
  "positive_chain1 gsl_class =
     (if gsl_class \<in> set [''Lac'', ''LC3'', ''LC4''] then
        [Frag4 ''HG(Hex,162)'' ''C6H10O5'' 163.0606 True,
         Frag4 ''HG(Hex,180)'' ''C6H12O6'' 181.0707 True,
         Frag4 ''HG(Hex2,324)'' ''C12H20O10'' 325.1135 True,
         Frag4 ''HG(Hex2,342)'' ''C12H22O11'' 343.1235 True]
        @ (if gsl_class \<in> set [''LC3'', ''LC4''] then
        [Frag4 ''HG(HexNAc,221)'' ''C8H15NO6'' 222.0972 True,
         Frag4 ''HG(HexNAc,203)'' ''C8H13NO5'' 204.0866 True,
         Frag4 ''HG(HexNAc,185)'' ''C8H11NO4'' 186.0761 True,
         Frag4 ''HG(HexNAc,155)'' ''C7H9NO3'' 156.0655 True,
         Frag4 ''HG(HexNAc,137)'' ''C7H7NO2'' 138.0550 True]
           else [])
      else if gsl_class = ''Hex'' then
        [Frag4 ''HG(Hex,162)'' ''C6H10O5'' 163.0606 True,
         Frag4 ''HG(Hex,180)'' ''C6H12O6'' 181.0707 True]
      else if startswith gsl_class ''GA'' then
        [Frag4 ''HG(Hex,180)'' ''C6H12O6'' 181.0707 True,
         Frag4 ''HG(HexNAc,221)'' ''C8H15NO6'' 222.0972 True,
         Frag4 ''HG(HexNAc,203)'' ''C8H13NO5'' 204.0866 True,
         Frag4 ''HG(HexNAc,185)'' ''C8H11NO4'' 186.0761 True,
         Frag4 ''HG(HexNAc,155)'' ''C7H9NO3'' 156.0655 True,
         Frag4 ''HG(HexNAc,137)'' ''C7H7NO2'' 138.0550 True,
         Frag4 ''HG(HexHexNAc,383)'' ''C14H25NO11'' 384.1505 True]
      else if gsl_class \<in> set [''Gb3'', ''Gb4''] then
        [Frag4 ''HG(Hex,162)'' ''C6H10O5'' 163.0606 True,
         Frag4 ''HG(Hex,180)'' ''C6H12O6'' 181.0707 True,
         Frag4 ''HG(Hex2,324)'' ''C12H20O10'' 325.1135 True,
         Frag4 ''HG(Hex3,487)'' ''C18H30O15'' 487.1664 True]
        @ (if gsl_class = ''Gb4'' then
        [Frag4 ''HG(HexNAc,221)'' ''C8H15NO6'' 222.0972 True,
         Frag4 ''HG(HexNAc,203)'' ''C8H13NO5'' 204.0866 True,
         Frag4 ''HG(HexNAc,185)'' ''C8H11NO4'' 186.0761 True,
         Frag4 ''HG(HexNAc,155)'' ''C7H9NO3'' 156.0655 True,
         Frag4 ''HG(HexNAc,137)'' ''C7H7NO2'' 138.0550 True,
         Frag4 ''HG(HexNAcHex,365)'' ''C14H23NO10'' 366.1400 True]
           else [])
      else if gsl_class = ''SM'' then
        [Frag4 ''Phosphocholine'' ''C5H15NO4P'' 184.0739 True,
         Frag4 ''Phosphocholine-H2O'' ''C5H13NO3P'' 166.0628 True]
      else if gsl_class = ''SM4'' then
        [Frag4 ''HG(Hex,180)'' ''C6H12O6'' 181.0707 True]
      else if startswith gsl_class ''GM'' then
        [Frag4 ''HG(NeuAc,309)'' ''C11H19NO9'' 310.1133 True,
         Frag4 ''HG(NeuAc,291)'' ''C11H17NO8'' 292.1027 True]
      else [])"

definition positive_chain2 :: "string \<Rightarrow> fragment list" where
  "positive_chain2 gsl_class =
     (if gsl_class = ''GM4'' then
        [Frag4 ''HG(NeuAcGal,471)'' ''C17H29NO14'' 472.1661 True,
         Frag4 ''HG(NeuAcGal,453)'' ''C17H27NO13'' 454.1555 True]
      else if gsl_class = ''GM3'' then
        [Frag4 ''HG(Hex2,342)'' ''C12H22O11'' 343.1235 True]
      else if gsl_class \<in> set [''GM2'', ''GM1''] then
        [Frag4 ''HG(HexNAc,221)'' ''C8H15NO6'' 222.0972 True,
         Frag4 ''HG(HexNAc,203)'' ''C8H13NO5'' 204.0866 True,
         Frag4 ''HG(HexNAc,185)'' ''C8H11NO4'' 186.0761 True,
         Frag4 ''HG(HexNAc,155)'' ''C7H9NO3'' 156.0655 True,
         Frag4 ''HG(HexNAc,137)'' ''C7H7NO2'' 138.0550 True,
         Frag4 ''HG(HexNAcHex,383)'' ''C14H25NO11'' 384.1500 True,
         Frag4 ''HG(HexNAcHex,365)'' ''C14H23NO10'' 366.1395 True,
         Frag4 ''HG(HexNAcHex2,545)'' ''C20H35NO16'' 546.2029 True,
         Frag4 ''HG(HexNAcHex2,527)'' ''C20H33NO15'' 528.1923 True]
      else if startswith gsl_class ''GD'' then
        [Frag4 ''HG(NeuAc,309)'' ''C11H19NO9'' 310.1133 True,
         Frag4 ''HG(NeuAc,291)'' ''C11H17NO8'' 292.1027 True,
         Frag4 ''HG(NeuAc2,600)'' ''C22H36N2O17'' 601.2087 True,
         Frag4 ''HG(NeuAc2,582)'' ''C22H34N2O16'' 583.1981 True]
        @ (if gsl_class = ''GD2'' then
        [Frag4 ''HG(HexNAc,221)'' ''C8H15NO6'' 222.0972 True,
         Frag4 ''HG(HexNAc,203)'' ''C8H13NO5'' 204.0866 True,
         Frag4 ''HG(HexNAc,185)'' ''C8H11NO4'' 186.0761 True,
         Frag4 ''HG(HexNAc,155)'' ''C7H9NO3'' 156.0655 True,
         Frag4 ''HG(HexNAc,137)'' ''C7H7NO2'' 138.0550 True,
         Frag4 ''HG(HexNAcHex,383)'' ''C14H25NO11'' 384.1500 True,
         Frag4 ''HG(HexNAcHex,365)'' ''C14H23NO10'' 366.1395 True,
         Frag4 ''HG(NeuAc2Hex,744)'' ''C28H44N2O21'' 745.2509 True,
         Frag4 ''HG(Neu5Ac2HexNAcHex,947)'' ''C36H57N3O26'' 948.3303 True,
         Frag4 ''HG(Neu5Ac2HexNAcHex2,1109)'' ''C14H25NO11'' 1110.3831 True]
           else [])
      else if startswith gsl_class ''GT'' then
        [Frag4 ''HG(NeuAc,309)'' ''C11H19NO9'' 310.1133 True,
         Frag4 ''HG(NeuAc,291)'' ''C11H17NO8'' 292.1027 True,
         Frag4 ''HG(NeuAc2,600)'' ''C22H36N2O17'' 601.2087 True,
         Frag4 ''HG(NeuAc2,582)'' ''C22H34N2O16'' 583.1981 True,
         Frag4 ''HG(HexNAcHex,365)'' ''C14H23NO10'' 366.1395 True]
        @ (if gsl_class = ''GT3'' then
        [Frag4 ''HG(Hex,180)'' ''C6H12O6'' 181.0707 True]
           else [])
        @ (if gsl_class = ''GT2'' then
        [Frag4 ''HG(HexNAc,221)'' ''C8H15NO6'' 222.0972 True,
         Frag4 ''HG(HexNAc,203)'' ''C8H13NO5'' 204.0866 True,
         Frag4 ''HG(HexNAc,185)'' ''C8H11NO4'' 186.0761 True,
         Frag4 ''HG(HexNAc,155)'' ''C7H9NO3'' 156.0655 True,
         Frag4 ''HG(HexNAc,137)'' ''C7H7NO2'' 138.0550 True]
           else [])
      else if gsl_class \<in> set [''GQ1'', ''GP1''] then
        [Frag4 ''HG(NeuAc,309)'' ''C11H19NO9'' 310.1133 True,
         Frag4 ''HG(NeuAc,291)'' ''C11H17NO8'' 292.1027 True,
         Frag4 ''HG(NeuAc2,600)'' ''C22H36N2O17'' 601.2087 True,
         Frag4 ''HG(NeuAc2,582)'' ''C22H34N2O16'' 583.1981 True,
         Frag4 ''HG(HexNAcHex,365)'' ''C14H23NO10'' 366.1395 True]
        @ (if gsl_class = ''GP1'' then
        [Frag4 ''HG(NeuAc4HexNAcHex,1529)'' ''C58H91N5O42'' 1530.5211 True]
           else [])
      else if gsl_class \<in> set [''nLc10'', ''nLc8'', ''nLc6''] then
        [Frag4 ''HG(Hex,180)'' ''C6H12O6'' 181.0707 True,
         Frag4 ''HG(HexNAc,221)'' ''C8H15NO6'' 222.0972 True,
         Frag4 ''HG(HexNAc,203)'' ''C8H13NO5'' 204.0866 True,
         Frag4 ''HG(HexNAc,185)'' ''C8H11NO4'' 186.0761 True,
         Frag4 ''HG(HexNAc,155)'' ''C7H9NO3'' 156.0655 True,
         Frag4 ''HG(HexNAc,137)'' ''C7H7NO2'' 138.0550 True,
         Frag4 ''HG(HexNAcHex,383)'' ''C14H25NO11'' 384.1500 True,
         Frag4 ''HG(HexNAcHex,365)'' ''C14H23NO10'' 366.1395 True]
      else if startswith gsl_class ''SHex2'' then
        [Frag4 ''HG(Hex,180)'' ''C6H12O6'' 181.0707 True,
         Frag4 ''HG(Hex2,342)'' ''C12H22O11'' 343.1235 True]
      else [])"

definition get_headgroup_fragments_positive :: "string \<Rightarrow> fragment list" where
  "get_headgroup_fragments_positive gsl_class = positive_chain1 gsl_class @ positive_chain2 gsl_class"

text \<open>The positive-mode dispatcher: the class's losses, then the class's positive fragments.\<close>

definition with_positive :: "string \<Rightarrow> py_error + fragment list \<Rightarrow> py_error + fragment list" where
  "with_positive lipid_class losses =
     bindE losses (\<lambda>l. Inr (l @ get_headgroup_fragments_positive lipid_class))"

definition get_headgroup_fragments :: "string \<Rightarrow> MolecularFormula \<Rightarrow> py_error + fragment list" where
  "get_headgroup_fragments lipid_class precursor_formula =
     (if lipid_class = ''Hex'' then
        with_positive lipid_class (get_hex_hg_loss_fragments precursor_formula)
      else if lipid_class = ''Lac'' then
        with_positive lipid_class (get_lac_hg_loss_fragments precursor_formula)
      else if lipid_class = ''Gb3'' then
        with_positive lipid_class (get_gb3_hg_loss_fragments precursor_formula)
      else if lipid_class = ''Gb4'' then
        with_positive lipid_class (get_gb4_hg_loss_fragments precursor_formula)
      else if lipid_class = ''GA1'' then
        with_positive lipid_class (get_ga1_hg_loss_fragments precursor_formula)
      else if lipid_class = ''GA2'' then
        with_positive lipid_class (get_ga2_hg_loss_fragments precursor_formula)
      else if lipid_class = ''LC3'' then
        with_positive lipid_class (get_lc3_hg_loss_fragments precursor_formula)
      else if lipid_class = ''LC4'' then
        with_positive lipid_class (get_lc4_hg_loss_fragments precursor_formula)
      else if lipid_class = ''SM4'' then
        with_positive lipid_class (get_sm4_hg_loss_fragments precursor_formula)
      else if lipid_class = ''SHex2'' then
        with_positive lipid_class (get_shex2_hg_loss_fragments precursor_formula)
      else if lipid_class = ''GM4'' then
        with_positive lipid_class (get_gm4_hg_loss_fragments precursor_formula)
      else if lipid_class = ''GM3'' then
        with_positive lipid_class (get_gm3_hg_loss_fragments precursor_formula)
      else if lipid_class = ''GM2'' then
        with_positive lipid_class (get_gm2_hg_loss_fragments precursor_formula)
      else if lipid_class = ''GM1'' then
        with_positive lipid_class (get_gm1_hg_loss_fragments precursor_formula)
      else if lipid_class = ''GD3'' then
        with_positive lipid_class (get_gd3_hg_loss_fragments precursor_formula)
      else if lipid_class = ''GD2'' then
        with_positive lipid_class (get_gd2_hg_loss_fragments precursor_formula)
      else if lipid_class \<in> set [''GD1a'', ''GD1b''] then
        with_positive lipid_class
          (get_gd1_hg_loss_fragments precursor_formula (lipid_class = ''GD1a''))
      else if lipid_class = ''GT3'' then
        with_positive lipid_class (get_gt3_hg_loss_fragments precursor_formula)
      else if lipid_class = ''GT2'' then
        with_positive lipid_class (get_gt2_hg_loss_fragments precursor_formula)
      else if lipid_class = ''GT1a'' then
        with_positive lipid_class (get_gt1a_hg_loss_fragments precursor_formula)
      else if lipid_class = ''GT1b'' then
        with_positive lipid_class (get_gt1b_hg_loss_fragments precursor_formula)
      else if lipid_class = ''GT1c'' then
        with_positive lipid_class (get_gt1c_hg_loss_fragments precursor_formula)
      else if lipid_class = ''GQ1'' then
        with_positive lipid_class (get_gq1_hg_loss_fragments precursor_formula)
      else if lipid_class = ''GP1'' then
        with_positive lipid_class (get_gp1_hg_loss_fragments precursor_formula)
      else if lipid_class = ''nLc10'' then
        with_positive lipid_class (get_nlc10_hg_loss_fragments precursor_formula)
      else if lipid_class = ''nLc8'' then
        with_positive lipid_class (get_nlc8_hg_loss_fragments precursor_formula)
      else if lipid_class = ''nLc6'' then
        with_positive lipid_class (get_nlc6_hg_loss_fragments precursor_formula)
      else Inr (get_headgroup_fragments_positive lipid_class))"

subsection \<open>Negative mode: headgroup fragments\<close>

text \<open>The diagnostic fragments of the sialylated classes, in the order the source extends
  the list.\<close>

definition sialo_diagnostic :: "string \<Rightarrow> fragment list" where
  "sialo_diagnostic gsl_class =
        [Frag4 ''HG(NeuAc,291)'' ''C11H17NO8'' 290.0876 True]
        @ (if gsl_class \<in> set [''GD3'', ''GD2'', ''GD1b''] then
        [Frag4 ''HG(NeuAc2,582)'' ''C22H34N2O16'' 581.1836 True,
         Frag4 ''HG(NeuAc2-CO2,538)'' ''C21H34N2O14'' 537.1937 True]
           else [])
        @ (if gsl_class \<in> set [''GD1a'', ''GD1b''] then
        [Frag4 ''HG(HexNAcHex,365)'' ''C14H25NO10'' 366.1395 True]
             @ (if gsl_class = ''GD1a'' then
        [Frag4 ''HG(NeuAcHexNAcHex,656)'' ''C25H40N2O18'' 655.2203 True]
                else [])
           else [])
        @ (if gsl_class \<in> set [''GT1a'', ''GT1b'', ''GT1c''] then
        [Frag4 ''HG(NeuAc2,582)'' ''C22H34N2O16'' 581.1836 True,
         Frag4 ''HG(NeuAc2-CO2,538)'' ''C21H34N2O14'' 537.1937 True]
             @ (if gsl_class = ''GT1b'' then
        [Frag4 ''HG(NeuAcHexHexNAc,656)'' ''C25H40N2O18'' 655.2203 True]
                else [])
             @ (if gsl_class = ''GT1c'' then
        [Frag4 ''HG(HexHexNAc,365)'' ''C14H23NO10'' 364.1249 True,
         Frag4 ''HG(NeuAc3,873)'' ''C33H51N3O24'' 872.2790 True,
         Frag4 ''HG(NeuAc3-CO2,829)'' ''C32H51N3O22'' 828.2891 True]
                else [])
           else [])
        @ (if gsl_class = ''GT2'' then
        [Frag4 ''HG(NeuAc2,582)'' ''C22H34N2O16'' 581.1836 True,
         Frag4 ''HG(NeuAc2-CO2,538)'' ''C21H34N2O14'' 537.1937 True,
         Frag4 ''HG(NeuAc3,873)'' ''C33H51N3O24'' 872.2790 True,
         Frag4 ''HG(NeuAc3-CO2,829)'' ''C32H51N3O22'' 828.2891 True,
         Frag4 ''HG(HexNAc,203)'' ''C8H13NO5'' 203.0721 True]
           else [])
        @ (if gsl_class = ''GT3'' then
        [Frag4 ''HG(NeuAc2,582)'' ''C22H34N2O16'' 581.1836 True,
         Frag4 ''HG(NeuAc2-CO2,538)'' ''C21H34N2O14'' 537.1937 True,
         Frag4 ''HG(NeuAc3,873)'' ''C33H51N3O24'' 872.2790 True,
         Frag4 ''HG(NeuAc3-CO2,829)'' ''C32H51N3O22'' 828.2891 True]
           else [])
        @ (if gsl_class = ''GQ1'' then
        [Frag4 ''HG(NeuAc2,582)'' ''C22H34N2O16'' 581.1836 True,
         Frag4 ''HG(NeuAc2-CO2,538)'' ''C21H34N2O14'' 537.1937 True,
         Frag4 ''HG(NeuAc2Hex,762)'' ''C28H46N2O22'' 761.2469 True,
         Frag4 ''HG(NeuAc3,873)'' ''C33H51N3O24'' 872.2790 True,
         Frag4 ''HG(NeuAc3-CO2,829)'' ''C32H51N3O22'' 828.2891 True]
           else [])
        @ (if gsl_class = ''GP1'' then
        [Frag4 ''HG(NeuAc2,582)'' ''C22H34N2O16'' 581.1836 True,
         Frag4 ''HG(NeuAc2-CO2,538)'' ''C21H34N2O14'' 537.1937 True,
         Frag4 ''HG(NeuAc3,873)'' ''C33H51N3O24'' 872.2790 True,
         Frag4 ''HG(NeuAc3-CO2,829)'' ''C32H51N3O22'' 828.2891 True,
         Frag4 ''HG(NeuAc4,1164)'' ''C44H68N4O32'' 1163.3744 True,
         Frag4 ''HG(NeuAc4-CO2,1120)'' ''C43H68N4O30'' 1119.3846 True]
           else [])"

definition sialo_losses :: "string \<Rightarrow> MolecularFormula \<Rightarrow> py_error + fragment list" where
  "sialo_losses gsl_class precursor_formula =
     (if gsl_class = ''GM4'' then get_gm4_hg_loss_fragments precursor_formula
      else if gsl_class = ''GM3'' then get_gm3_hg_loss_fragments precursor_formula
      else if gsl_class = ''GM2'' then get_gm2_hg_loss_fragments precursor_formula
      else if gsl_class = ''GM1'' then get_gm1_hg_loss_fragments precursor_formula
      else if gsl_class = ''GD3'' then get_gd3_hg_loss_fragments precursor_formula
      else if gsl_class = ''GD2'' then get_gd2_hg_loss_fragments precursor_formula
      else if gsl_class \<in> set [''GD1a'', ''GD1b''] then
        get_gd1_hg_loss_fragments precursor_formula (gsl_class = ''GD1a'')
      else if gsl_class = ''GT1a'' then get_gt1a_hg_loss_fragments precursor_formula
      else if gsl_class = ''GT1b'' then get_gt1b_hg_loss_fragments precursor_formula
      else if gsl_class = ''GT1c'' then get_gt1c_hg_loss_fragments precursor_formula
      else if gsl_class = ''GT2'' then get_gt2_hg_loss_fragments precursor_formula
      else if gsl_class = ''GT3'' then get_gt3_hg_loss_fragments precursor_formula
      else if gsl_class = ''GQ1'' then get_gq1_hg_loss_fragments precursor_formula
      else if gsl_class = ''GP1'' then get_gp1_hg_loss_fragments precursor_formula
      else Inr [])"

text \<open>An instance of \<^verbatim>\<open>MolecularFormula\<close> is always true in a test, so
  \<^verbatim>\<open>if precursor_formula:\<close> and \<^verbatim>\<open>if precursor_formula is not None:\<close> both ask
  whether the argument was given.\<close>

definition with_losses :: "fragment list \<Rightarrow> MolecularFormula option
    \<Rightarrow> (MolecularFormula \<Rightarrow> py_error + fragment list) \<Rightarrow> py_error + fragment list" where
  "with_losses fragments precursor_formula losses =
     (case precursor_formula of
        None \<Rightarrow> Inr fragments
      | Some f \<Rightarrow> bindE (losses f) (\<lambda>l. Inr (fragments @ l)))"

definition get_headgroup_fragments_negative :: "string \<Rightarrow> MolecularFormula option
    \<Rightarrow> py_error + fragment list" where
  "get_headgroup_fragments_negative gsl_class precursor_formula =
     (if gsl_class = ''SM4'' then
        with_losses
        [Frag4 ''HG(HSO4,97)'' ''H2SO4'' 96.9596 True,
         Frag4 ''HG(SHexCer,242)'' ''C6H10O8S'' 241.0017 True,
         Frag4 ''HG(SHexCer)+(C2H5NO)'' ''C8H15NO9S'' 300.0389 True]
          precursor_formula get_sm4_hg_loss_fragments
      else if gsl_class = ''SHex2'' then
        with_losses
        [Frag4 ''HG(HSO4,97)'' ''H2SO4'' 96.9596 True,
         Frag4 ''HG(SO3,80)'' ''HSO3'' 79.9568 True,
         Frag4 ''HG(SHex,260)'' ''C6H12SO9'' 259.0124 True,
         Frag4 ''HG(SHex,242)'' ''C6H10SO8'' 241.0018 True,
         Frag4 ''HG(SHexHex,404)'' ''C12H20SO13'' 403.0546 True,
         Frag4 ''HG(SHexHex,386)'' ''C12H18SO12'' 385.0441 True,
         Frag4 ''HG(Hex,180)'' ''C6H12O6'' 179.0556 True,
         Frag4 ''HG(Hex2,342)'' ''C12H22O11'' 341.1084 True]
          precursor_formula get_shex2_hg_loss_fragments
      else if gsl_class \<in> set [''GM4'', ''GM3'', ''GM2'', ''GM1'', ''GD3'', ''GD2'', ''GD1a'',
                                 ''GD1b'', ''GD1c'', ''GT3'', ''GT2'', ''GT1a'', ''GT1b'', ''GT1c'',
                                 ''GQ1'', ''GP1''] then
        with_losses (sialo_diagnostic gsl_class) precursor_formula (sialo_losses gsl_class)
      else if gsl_class \<in> set [''nLc10'', ''nLc8'', ''nLc6''] then
        with_losses
        [Frag4 ''HG(Hex,180)'' ''C6H12O6'' 179.0561 True,
         Frag4 ''HG(Hex,162)'' ''C6H10O5'' 161.0455 True,
         Frag4 ''HG(HexNAc,221)'' ''C8H15NO6'' 220.0827 True,
         Frag4 ''HG(HexNAc,203)'' ''C8H13NO5'' 202.0721 True,
         Frag4 ''HG(HexNAcHex,383)'' ''C14H25NO11'' 382.1355 True,
         Frag4 ''HG(HexNAcHex,365)'' ''C14H23NO10'' 364.1249 True]
          precursor_formula
          (if gsl_class = ''nLc10'' then get_nlc10_hg_loss_fragments
           else if gsl_class = ''nLc8'' then get_nlc8_hg_loss_fragments
           else if gsl_class = ''nLc6'' then get_nlc6_hg_loss_fragments
           else (\<lambda>f. Inr []))
      else Inr [])"

subsection \<open>Negative mode: backbone fragments\<close>

text \<open>\<^verbatim>\<open>get_lcb_fragments_negative\<close> compares \<^verbatim>\<open>lcb_type\<close> with one literal after the
  other; the literals are distinct, so the chain is a lookup in this table.\<close>

definition LCB_FRAGMENTS_NEGATIVE :: "(string \<times> fragment list) list" where
  "LCB_FRAGMENTS_NEGATIVE =
     [(''16:0;2'',
        [Frag4 ''LCB(-CH3O)'' ''C15H32NO'' 241.2406 True,
         Frag4 ''LCB(-C2H8NO)'' ''C14H28O'' 211.2062 True]),
      (''16:1;2'',
        [Frag4 ''LCB(-CH3O)'' ''C15H30NO'' 239.2249 True,
         Frag4 ''LCB(-C2H8NO)'' ''C14H26O'' 209.1905 True]),
      (''17:0;2'',
        [Frag4 ''LCB(-CH3O)'' ''C16H34NO'' 255.2562 True,
         Frag4 ''LCB(-C2H8NO)'' ''C15H30O'' 225.2218 True]),
      (''17:1;2'',
        [Frag4 ''LCB(-CH3O)'' ''C16H32NO'' 253.2406 True,
         Frag4 ''LCB(-C2H8NO)'' ''C15H28O'' 223.2062 True]),
      (''18:0;2'',
        [Frag4 ''LCB(-CH3O)'' ''C17H37NO'' 270.2797 True,
         Frag4 ''LCB(-C2H8NO)'' ''C16H32O'' 239.2375 True]),
      (''18:1;2'',
        [Frag4 ''LCB(-CH3O)'' ''C17H35NO'' 268.2640 True,
         Frag4 ''LCB(-C2H8NO)'' ''C16H30O'' 237.2218 True]),
      (''18:2;2'',
        [Frag4 ''LCB(-CH3O)'' ''C17H33NO'' 266.2484 True,
         Frag4 ''LCB(-C2H8NO)'' ''C16H28O'' 235.2062 True]),
      (''18:0;3'',
        [Frag4 ''LCB(-CH3O)'' ''C17H36NO2'' 285.2668 True,
         Frag4 ''LCB(-C2H8NO)'' ''C16H32O2'' 255.2324 True]),
      (''19:0;2'',
        [Frag4 ''LCB(-CH3O)'' ''C18H38NO'' 283.2875 True,
         Frag4 ''LCB(-C2H8NO)'' ''C17H34O'' 253.2531 True]),
      (''19:1;2'',
        [Frag4 ''LCB(-CH3O)'' ''C18H36NO'' 281.2719 True,
         Frag4 ''LCB(-C2H8NO)'' ''C17H32O'' 251.2375 True]),
      (''20:0;2'',
        [Frag4 ''LCB(-CH3O)'' ''C19H40NO'' 297.3032 True,
         Frag4 ''LCB(-C2H8NO)'' ''C18H36O'' 267.2688 True]),
      (''20:1;2'',
        [Frag4 ''LCB(-CH3O)'' ''C19H38NO'' 295.2875 True,
         Frag4 ''LCB(-C2H8NO)'' ''C18H34O'' 265.2531 True]),
      (''18:0;1'',
        [Frag4 ''doxLCB(-CH3O)'' ''C17H36N'' 253.2769 True,
         Frag4 ''doxLCB(-C2H8N)'' ''C16H32'' 223.2426 True]),
      (''18:1;1'',
        [Frag4 ''doxLCB(-CH3O)'' ''C17H34N'' 251.2613 True,
         Frag4 ''doxLCB(-C2H8N)'' ''C16H30'' 221.2269 True]),
      (''19:0;1'',
        [Frag4 ''doxLCB(-CH3O)'' ''C18H38N'' 267.2926 True,
         Frag4 ''doxLCB(-C2H8N)'' ''C17H34'' 237.2582 True]),
      (''20:0;1'',
        [Frag4 ''doxLCB(-CH3O)'' ''C19H40N'' 281.3082 True,
         Frag4 ''doxLCB(-C2H8N)'' ''C18H36'' 251.2739 True])]"

definition get_lcb_fragments_negative :: "string \<Rightarrow> fragment list" where
  "get_lcb_fragments_negative lcb_type =
     (case map_of LCB_FRAGMENTS_NEGATIVE lcb_type of Some fragments \<Rightarrow> fragments | None \<Rightarrow> [])"

text \<open>\<^verbatim>\<open>re.match(r'(\d+):(\d+)', fa_type)\<close>: digits, a colon and digits at the start of
  the text; the two groups.\<close>

definition fa_match :: "string \<Rightarrow> (string \<times> string) option" where
  "fa_match fa_type =
     (let g1 = takeWhile isdigit fa_type; r = dropWhile isdigit fa_type
      in if g1 \<noteq> [] \<and> r \<noteq> [] \<and> hd r = CHR '':'' \<and> takeWhile isdigit (tl r) \<noteq> []
         then Some (g1, takeWhile isdigit (tl r)) else None)"

definition atomic_mass :: "string \<Rightarrow> real" where
  "atomic_mass element = dict_get ATOMIC_MASSES element 0"

definition get_fa_fragments_negative :: "string \<Rightarrow> fragment list" where
  "get_fa_fragments_negative fa_type =
     (case fa_match fa_type of
        None \<Rightarrow> []
      | Some (g1, g2) \<Rightarrow>
          (let carbon = int (nat_of_digits g1);
               double_bonds = int (nat_of_digits g2);
               h_count = 2 * carbon - 2 * double_bonds;
               fa_hn_formula = ''C'' @ str_of_int carbon @ ''H'' @ str_of_int (h_count + 1) @ ''NO'';
               fa_hn_mass = of_int carbon * atomic_mass ''C''
                            + of_int (h_count + 1) * atomic_mass ''H''
                            + 1 * atomic_mass ''N''
                            + 1 * atomic_mass ''O''
                            - atomic_mass ''H'';
               fa_acn_formula = ''C'' @ str_of_int (carbon + 2) @ ''H'' @ str_of_int (h_count + 3) @ ''NO'';
               fa_acn_mass = of_int (carbon + 2) * atomic_mass ''C''
                             + of_int (h_count + 3) * atomic_mass ''H''
                             + 1 * atomic_mass ''N''
                             + 1 * atomic_mass ''O''
                             - atomic_mass ''H'';
               fa_c2h3no_formula = ''C'' @ str_of_int (carbon + 2) @ ''H'' @ str_of_int (h_count + 3) @ ''NO2'';
               fa_c2h3no_mass = of_int (carbon + 2) * atomic_mass ''C''
                                + of_int (h_count + 3) * atomic_mass ''H''
                                + 1 * atomic_mass ''N''
                                + 2 * atomic_mass ''O''
                                - atomic_mass ''H''
           in [Frag4 (''FA '' @ fa_type @ ''+(HN)'') fa_hn_formula fa_hn_mass True,
               Frag4 (''FA '' @ fa_type @ ''+(C2H3N)'') fa_acn_formula fa_acn_mass True,
               Frag4 (''FA '' @ fa_type @ ''+(C2H3NO)'') fa_c2h3no_formula fa_c2h3no_mass True]))"

subsection \<open>Positive mode: backbone fragments\<close>

definition DOXCER_LCB_FRAGMENTS :: "(string \<times> fragment list) list" where
  "DOXCER_LCB_FRAGMENTS =
     [(''18:0;1'',
        [Frag3 ''doxLCB 18:0;1'' ''C18H39NO'' 286.3104,
         Frag3 ''doxLCB 18:0;1(-H2O)'' ''C18H37N'' 268.2999]),
      (''18:1;1'',
        [Frag3 ''doxLCB 18:1;1'' ''C18H37NO'' 284.2948,
         Frag3 ''doxLCB 18:1;1(-H2O)'' ''C18H35N'' 266.2842]),
      (''19:0;1'',
        [Frag3 ''doxLCB 19:0;1'' ''C19H41NO'' 300.3261,
         Frag3 ''doxLCB 19:0;1(-H2O)'' ''C19H39N'' 282.3156]),
      (''20:0;1'',
        [Frag3 ''doxLCB 20:0;1'' ''C20H43NO'' 314.3417,
         Frag3 ''doxLCB 20:0;1(-H2O)'' ''C20H41N'' 296.3312])]"

definition STANDARD_LCB_FRAGMENTS :: "(string \<times> fragment list) list" where
  "STANDARD_LCB_FRAGMENTS =
     [(''16:0;2'',
        [Frag3 ''LCB 16:0;2(-HO)'' ''C16H33NO'' 256.2635,
         Frag3 ''LCB 16:0;2(-H3O2)'' ''C16H31N'' 238.2529,
         Frag3 ''LCB 16:0;2(-CH3O2)'' ''C15H31N'' 226.2529]),
      (''16:1;2'',
        [Frag3 ''LCB 16:1;2(-HO)'' ''C16H31NO'' 254.2478,
         Frag3 ''LCB 16:1;2(-H3O2)'' ''C16H29N'' 236.2373,
         Frag3 ''LCB 16:1;2(-CH3O2)'' ''C15H29N'' 224.2373]),
      (''17:0;2'',
        [Frag3 ''LCB 17:0;2(-HO)'' ''C17H35NO'' 270.2791,
         Frag3 ''LCB 17:0;2(-H3O2)'' ''C17H33N'' 252.2686,
         Frag3 ''LCB 17:0;2(-CH3O2)'' ''C16H33N'' 240.2686]),
      (''17:1;2'',
        [Frag3 ''LCB 17:1;2(-HO)'' ''C17H33NO'' 268.2635,
         Frag3 ''LCB 17:1;2(-H3O2)'' ''C17H31N'' 250.2529,
         Frag3 ''LCB 17:1;2(-CH3O2)'' ''C16H31N'' 238.2529]),
      (''18:0;2'',
        [Frag3 ''LCB 18:0;2(-HO)'' ''C18H37NO'' 284.2948,
         Frag3 ''LCB 18:0;2(-H3O2)'' ''C18H35N'' 266.2842,
         Frag3 ''LCB 18:0;2(-CH3O2)'' ''C17H35N'' 254.2842]),
      (''18:1;2'',
        [Frag3 ''LCB 18:1;2(-HO)'' ''C18H35NO'' 282.2791,
         Frag3 ''LCB 18:1;2(-H3O2)'' ''C18H33N'' 264.2686,
         Frag3 ''LCB 18:1;2(-CH3O2)'' ''C17H33N'' 252.2686]),
      (''18:2;2'',
        [Frag3 ''LCB 18:2;2(-HO)'' ''C18H33NO'' 280.2635,
         Frag3 ''LCB 18:2;2(-H3O2)'' ''C18H31N'' 262.2529,
         Frag3 ''LCB 18:2;2(-CH3O2)'' ''C17H31N'' 250.2529]),
      (''18:0;3'',
        [Frag3 ''LCB 18:0;3(-HO)'' ''C18H37NO2'' 300.2897,
         Frag3 ''LCB 18:0;3(-H3O2)'' ''C18H35NO'' 282.2791,
         Frag3 ''LCB 18:0;3(-CH3O2)'' ''C17H35NO'' 270.2791]),
      (''19:0;2'',
        [Frag3 ''LCB 19:0;2(-HO)'' ''C19H39NO'' 298.3104,
         Frag3 ''LCB 19:0;2(-H3O2)'' ''C19H37N'' 280.2999,
         Frag3 ''LCB 19:0;2(-CH3O2)'' ''C18H37N'' 268.2999]),
      (''19:1;2'',
        [Frag3 ''LCB 19:1;2(-HO)'' ''C19H37NO'' 296.2948,
         Frag3 ''LCB 19:1;2(-H3O2)'' ''C19H35N'' 278.2842,
         Frag3 ''LCB 19:1;2(-CH3O2)'' ''C18H35N'' 266.2842]),
      (''20:0;2'',
        [Frag3 ''LCB 20:0;2(-HO)'' ''C20H41NO'' 312.3261,
         Frag3 ''LCB 20:0;2(-H3O2)'' ''C20H39N'' 294.3156,
         Frag3 ''LCB 20:0;2(-CH3O2)'' ''C19H39N'' 282.3156]),
      (''20:1;2'',
        [Frag3 ''LCB 20:1;2(-HO)'' ''C20H39NO'' 310.3104,
         Frag3 ''LCB 20:1;2(-H3O2)'' ''C20H37N'' 292.2999,
         Frag3 ''LCB 20:1;2(-CH3O2)'' ''C19H37N'' 280.2999])]"

text \<open>\<^verbatim>\<open>CeramideFragmentRules.get_ceramide_fragments\<close>, and the function of the same name
  of \<^verbatim>\<open>GSLFragmentRules\<close>, which calls it with \<^verbatim>\<open>is_doxcer=False\<close>.\<close>

definition get_ceramide_fragments :: "string \<Rightarrow> bool \<Rightarrow> fragment list" where
  "get_ceramide_fragments lcb_type is_doxcer =
     (case map_of (if is_doxcer then DOXCER_LCB_FRAGMENTS else STANDARD_LCB_FRAGMENTS) lcb_type of
        Some fragments \<Rightarrow> fragments
      | None \<Rightarrow> [])"

definition gsl_get_ceramide_fragments :: "string \<Rightarrow> fragment list" where
  "gsl_get_ceramide_fragments lcb_type = get_ceramide_fragments lcb_type False"

section \<open>Adducts\<close>

record AdductInfo =
  name :: string
  mass_delta :: real
  charge :: int
  polarity :: string

definition adduct_map :: "(int \<times> (string \<times> AdductInfo) list) list" where
  "adduct_map =
     [(1, [(''[M+H]+'', \<lparr>name = ''[M+H]1+'', mass_delta = PROTON_MASS, charge = 1, polarity = ''positive''\<rparr>),
           (''[M-H]-'', \<lparr>name = ''[M-H]1-'', mass_delta = - PROTON_MASS, charge = - 1, polarity = ''negative''\<rparr>),
           (''[M+Na]+'', \<lparr>name = ''[M+Na]1+'', mass_delta = 22.98976928, charge = 1, polarity = ''positive''\<rparr>),
           (''[M+NH4]+'', \<lparr>name = ''[M+NH4]1+'', mass_delta = 18.03383, charge = 1, polarity = ''positive''\<rparr>),
           (''[M+CH3COO]-'', \<lparr>name = ''[M+CH3COO]1-'', mass_delta = 59.013851, charge = - 1, polarity = ''negative''\<rparr>),
           (''[M+HCOO]-'', \<lparr>name = ''[M+HCOO]1-'', mass_delta = 44.998201, charge = - 1, polarity = ''negative''\<rparr>)]),
      (2, [(''[M+2H]2+'', \<lparr>name = ''[M+2H]2+'', mass_delta = 2 * PROTON_MASS, charge = 2, polarity = ''positive''\<rparr>),
           (''[M-2H]2-'', \<lparr>name = ''[M-2H]2-'', mass_delta = - 2 * PROTON_MASS, charge = - 2, polarity = ''negative''\<rparr>),
           (''[M+H+Na]2+'', \<lparr>name = ''[M+H+Na]2+'', mass_delta = PROTON_MASS + 22.98976928, charge = 2, polarity = ''positive''\<rparr>),
           (''[M+2Na]2+'', \<lparr>name = ''[M+2Na]2+'', mass_delta = 2 * 22.98976928, charge = 2, polarity = ''positive''\<rparr>)]),
      (3, [(''[M+3H]3+'', \<lparr>name = ''[M+3H]3+'', mass_delta = 3 * PROTON_MASS, charge = 3, polarity = ''positive''\<rparr>),
           (''[M-3H]3-'', \<lparr>name = ''[M-3H]3-'', mass_delta = - 3 * PROTON_MASS, charge = - 3, polarity = ''negative''\<rparr>),
           (''[M+2H+Na]3+'', \<lparr>name = ''[M+2H+Na]3+'', mass_delta = 2 * PROTON_MASS + 22.98976928, charge = 3, polarity = ''positive''\<rparr>),
           (''[M+H+2Na]3+'', \<lparr>name = ''[M+H+2Na]3+'', mass_delta = PROTON_MASS + 2 * 22.98976928, charge = 3, polarity = ''positive''\<rparr>),
           (''[M+3Na]3+'', \<lparr>name = ''[M+3Na]3+'', mass_delta = 3 * 22.98976928, charge = 3, polarity = ''positive''\<rparr>)]),
      (4, [(''[M+4H]4+'', \<lparr>name = ''[M+4H]4+'', mass_delta = 4 * PROTON_MASS, charge = 4, polarity = ''positive''\<rparr>),
           (''[M-4H]4-'', \<lparr>name = ''[M-4H]4-'', mass_delta = - 4 * PROTON_MASS, charge = - 4, polarity = ''negative''\<rparr>)]),
      (5, [(''[M+5H]5+'', \<lparr>name = ''[M+5H]5+'', mass_delta = 5 * PROTON_MASS, charge = 5, polarity = ''positive''\<rparr>),
           (''[M-5H]5-'', \<lparr>name = ''[M-5H]5-'', mass_delta = - 5 * PROTON_MASS, charge = - 5, polarity = ''negative''\<rparr>)])]"

text \<open>\<open>adduct_lookup c n\<close> is the list of the entry \<^verbatim>\<open>adduct_map[c][n]\<close> when both keys
  exist, the empty list otherwise.\<close>

definition adduct_lookup :: "int \<Rightarrow> string \<Rightarrow> AdductInfo list" where
  "adduct_lookup c adduct_name =
     (case map_of adduct_map c of
        None \<Rightarrow> []
      | Some m \<Rightarrow> (case map_of m adduct_name of None \<Rightarrow> [] | Some a \<Rightarrow> [a]))"

definition canonical_adducts :: "int \<Rightarrow> AdductInfo list" where
  "canonical_adducts c =
     (if c = 1 then adduct_lookup 1 ''[M+H]+'' @ adduct_lookup 1 ''[M-H]-''
      else if c = 2 then adduct_lookup 2 ''[M+2H]2+'' @ adduct_lookup 2 ''[M-2H]2-''
      else if c = 3 then adduct_lookup 3 ''[M+3H]3+'' @ adduct_lookup 3 ''[M-3H]3-''
      else if c = 4 then adduct_lookup 4 ''[M+4H]4+'' @ adduct_lookup 4 ''[M-4H]4-''
      else if c = 5 then adduct_lookup 5 ''[M+5H]5+'' @ adduct_lookup 5 ''[M-5H]5-''
      else [])"

definition get_adduct_definitions :: "int list \<Rightarrow> string list option \<Rightarrow> AdductInfo list" where
  "get_adduct_definitions charge_states selected_adducts =
     (case selected_adducts of
        None \<Rightarrow> concat (map canonical_adducts charge_states)
      | Some names \<Rightarrow>
          concat (map (\<lambda>adduct_name.
            concat (map (\<lambda>c. adduct_lookup c adduct_name) charge_states)) names))"

section \<open>Transitions\<close>

text \<open>
  A row of the result: the dictionary \<^verbatim>\<open>generate_transitions\<close> appends, which is also a
  row of the data frame the labelling works on. A cell of an m/z column holds a number or
  is blank (the empty text or a missing value). The column \<^verbatim>\<open>Isotope Label Type\<close> exists
  only after labelling.
\<close>

datatype cell = Num real | Blank

record transition =
  Molecule_List_Name :: string
  Molecule :: string
  Molecule_Formula :: string
  Precursor_Adduct :: string
  Precursor_mz :: cell
  Precursor_Charge :: int
  Product_Name :: string
  Product_Formula :: string
  Product_Adduct :: string
  Product_mz :: cell
  Product_Charge :: int
  Isotope_Label_Type :: "string option"

text \<open>The fields every row of one species and one adduct shares, then the five of the
  product; both m/z values are rounded where the row is built.\<close>

definition row :: "string \<Rightarrow> string \<Rightarrow> string \<Rightarrow> AdductInfo \<Rightarrow> real
    \<Rightarrow> string \<Rightarrow> string \<Rightarrow> string \<Rightarrow> real \<Rightarrow> int \<Rightarrow> transition" where
  "row lipid_class precursor_name formula_text adduct precursor_mz
       product_name product_formula product_adduct product_mz product_charge =
     \<lparr>Molecule_List_Name = lipid_class,
      Molecule = precursor_name,
      Molecule_Formula = formula_text,
      Precursor_Adduct = name adduct,
      Precursor_mz = Num (round4 precursor_mz),
      Precursor_Charge = charge adduct,
      Product_Name = product_name,
      Product_Formula = product_formula,
      Product_Adduct = product_adduct,
      Product_mz = Num (round4 product_mz),
      Product_Charge = product_charge,
      Isotope_Label_Type = None\<rparr>"

definition py_div :: "real \<Rightarrow> real \<Rightarrow> py_error + real" where
  "py_div x y = (if y = 0 then Inl ZeroDivisionError else Inr (x / y))"

definition H2O_MASS :: real where
  "H2O_MASS = 18.0105647"

text \<open>Positive mode: a tuple of four with a true flag is taken as it is, a tuple of three
  gets one proton; a tuple of four with a false flag cannot be unpacked into three names.\<close>

fun positive_hg_mz :: "fragment \<Rightarrow> py_error + real" where
  "positive_hg_mz (Frag4 n f m True) = Inr m"
| "positive_hg_mz (Frag4 n f m False) = Inl ValueError"
| "positive_hg_mz (Frag3 n f m) = Inr (m + PROTON_MASS)"

fun is_anion :: "fragment \<Rightarrow> bool" where
  "is_anion (Frag4 n f m b) = b"
| "is_anion (Frag3 n f m) = False"

definition negative_hg_mz :: "fragment \<Rightarrow> real" where
  "negative_hg_mz frag =
     (if is_anion frag then frag_mass frag
      else if startswith (frag_name frag) ''HG(-'' then frag_mass frag + H2O_MASS - PROTON_MASS
      else frag_mass frag - PROTON_MASS)"

text \<open>The three blocks that derive doubly-charged rows from the negative-mode headgroup
  fragments; \<open>mk\<close> builds a row of the current species and adduct.\<close>

definition z2_row :: "(string \<Rightarrow> string \<Rightarrow> string \<Rightarrow> real \<Rightarrow> int \<Rightarrow> transition)
    \<Rightarrow> fragment \<Rightarrow> real \<Rightarrow> transition" where
  "z2_row mk frag doubly_charged_mz =
     mk (frag_name frag @ '' [Z=2]'') (frag_formula frag) ''[M-2H]2-'' doubly_charged_mz (- 2)"

definition gt1_doubly_charged :: "(string \<Rightarrow> string \<Rightarrow> string \<Rightarrow> real \<Rightarrow> int \<Rightarrow> transition)
    \<Rightarrow> fragment list \<Rightarrow> transition list" where
  "gt1_doubly_charged mk hg_fragments_neg =
     map (\<lambda>frag. z2_row mk frag
            (if startswith (frag_name frag) ''HG(-''
             then (frag_mass frag + H2O_MASS - 2 * PROTON_MASS) / 2
             else (frag_mass frag - 2 * PROTON_MASS) / 2))
       (filter (\<lambda>frag. str_in ''-Neu5Ac,309'' (frag_name frag)
                      \<or> str_in ''-Neu5Ac,291'' (frag_name frag)) hg_fragments_neg)"

definition gp1_doubly_charged :: "(string \<Rightarrow> string \<Rightarrow> string \<Rightarrow> real \<Rightarrow> int \<Rightarrow> transition)
    \<Rightarrow> fragment list \<Rightarrow> transition list" where
  "gp1_doubly_charged mk hg_fragments_neg =
     map (\<lambda>frag. z2_row mk frag ((frag_mass frag - 2 * PROTON_MASS) / 2))
       (filter (\<lambda>frag. frag_name frag \<in> set [''HG(-Neu5Ac,309)'', ''HG(-Neu5Ac2,600)''])
          hg_fragments_neg)"

definition nlc_doubly_charged :: "string \<Rightarrow> (string \<Rightarrow> string \<Rightarrow> string \<Rightarrow> real \<Rightarrow> int \<Rightarrow> transition)
    \<Rightarrow> fragment list \<Rightarrow> transition list" where
  "nlc_doubly_charged lipid_class mk hg_fragments_neg =
     map (\<lambda>frag. z2_row mk frag ((frag_mass frag - 2 * PROTON_MASS) / 2))
       (filter (\<lambda>frag.
          if lipid_class = ''nLc10''
          then frag_name frag \<in> set [''HG(-HexNAc,221)'', ''HG(-HexNAcHex,383)'', ''HG(-HexNAc2Hex,586)'']
          else if lipid_class = ''nLc8'' then frag_name frag = ''HG(-Hex,180)''
          else False) hg_fragments_neg)"

text \<open>The rows of the negative branch, after the headgroup fragments are known.\<close>

definition negative_rows :: "string \<Rightarrow> string \<Rightarrow> AdductInfo
    \<Rightarrow> (string \<Rightarrow> string \<Rightarrow> string \<Rightarrow> real \<Rightarrow> int \<Rightarrow> transition)
    \<Rightarrow> fragment list \<Rightarrow> transition list" where
  "negative_rows lipid_class species adduct mk hg_fragments_neg =
     (let is_gsl = is_gsl_class lipid_class;
          lcb_type = hd (py_split CHR ''/'' species);
          fragment_charge = (if 0 < charge adduct then 1 else - 1);
          fragment_adduct = (if 0 < charge adduct then ''[M+H]1+'' else ''[M-H]1-'')
      in map (\<lambda>frag. mk (frag_name frag) (frag_formula frag) fragment_adduct
                        (negative_hg_mz frag) (- 1)) hg_fragments_neg
         @ (if is_gsl \<and> lipid_class \<in> set [''GT1a'', ''GT1b'', ''GT1c''] \<and> 2 \<le> \<bar>charge adduct\<bar>
            then gt1_doubly_charged mk hg_fragments_neg else [])
         @ (if is_gsl \<and> lipid_class = ''GP1'' \<and> 2 \<le> \<bar>charge adduct\<bar>
            then gp1_doubly_charged mk hg_fragments_neg else [])
         @ (if is_gsl \<and> lipid_class \<in> set [''nLc10'', ''nLc8''] \<and> 2 \<le> \<bar>charge adduct\<bar>
            then nlc_doubly_charged lipid_class mk hg_fragments_neg else [])
         @ map (\<lambda>frag. mk (frag_name frag) (frag_formula frag) fragment_adduct
                          (frag_mass frag) fragment_charge)
             (get_lcb_fragments_negative lcb_type)
         @ (if str_in ''/'' species
            then map (\<lambda>frag. mk (frag_name frag) (frag_formula frag) fragment_adduct
                               (frag_mass frag) fragment_charge)
                   (get_fa_fragments_negative (py_split CHR ''/'' species ! 1))
            else []))"

text \<open>The body of the loop over the adducts, for one species, in the order of the source:
  the precursor row, the water loss, the backbone fragments of positive mode, the headgroup
  and polarity-specific fragments.\<close>

definition water_loss_rows :: "(string \<Rightarrow> string \<Rightarrow> string \<Rightarrow> real \<Rightarrow> int \<Rightarrow> transition)
    \<Rightarrow> MolecularFormula \<Rightarrow> AdductInfo \<Rightarrow> py_error + transition list" where
  "water_loss_rows mk formula adduct =
     (if polarity adduct = ''positive'' then
        (let h2o = h2o_loss_formula formula
         in bindE (mass h2o) (\<lambda>h2o_loss_mass.
            bindE (py_div (h2o_loss_mass + mass_delta adduct) (of_int \<bar>charge adduct\<bar>))
              (\<lambda>h2o_loss_mz.
                 Inr [mk ''precursor-(H2O,18)'' (formula_str h2o) (name adduct)
                        h2o_loss_mz (charge adduct)])))
      else Inr [])"

definition positive_lcb_fragments :: "string \<Rightarrow> string \<Rightarrow> AdductInfo \<Rightarrow> fragment list" where
  "positive_lcb_fragments lipid_class lcb_type adduct =
     (if polarity adduct = ''positive'' then
        (if is_ceramide_class lipid_class
         then get_ceramide_fragments lcb_type (lipid_class = ''doxCer'')
         else if lipid_class = ''SM'' then get_ceramide_fragments lcb_type False
         else if lipid_class = ''SM4'' then get_ceramide_fragments lcb_type False
         else if is_gsl_class lipid_class then gsl_get_ceramide_fragments lcb_type
         else [])
      else [])"

definition headgroup_rows :: "string \<Rightarrow> string \<Rightarrow> MolecularFormula \<Rightarrow> AdductInfo
    \<Rightarrow> (string \<Rightarrow> string \<Rightarrow> string \<Rightarrow> real \<Rightarrow> int \<Rightarrow> transition)
    \<Rightarrow> py_error + transition list" where
  "headgroup_rows lipid_class species formula adduct mk =
     (if is_gsl_class lipid_class \<or> lipid_class \<in> set [''SM'', ''SM4''] then
        (if polarity adduct = ''positive'' then
           bindE (get_headgroup_fragments lipid_class formula) (\<lambda>hg_fragments.
             traverse (\<lambda>frag. bindE (positive_hg_mz frag) (\<lambda>frag_mz.
                 Inr (mk (frag_name frag) (frag_formula frag)
                        (if 0 < charge adduct then ''[M+H]1+'' else ''[M-H]1-'') frag_mz 1)))
               hg_fragments)
         else if polarity adduct = ''negative'' then
           bindE (get_headgroup_fragments_negative lipid_class (Some formula))
             (\<lambda>hg_fragments_neg.
                Inr (negative_rows lipid_class species adduct mk hg_fragments_neg))
         else Inr [])
      else Inr [])"

definition precursor_name :: "string \<Rightarrow> string \<Rightarrow> string" where
  "precursor_name lipid_class species =
     (if is_ceramide_class lipid_class then lipid_class @ ''('' @ species @ '')''
      else lipid_class @ '' '' @ species)"

definition adduct_transitions :: "string \<Rightarrow> string \<Rightarrow> MolecularFormula \<Rightarrow> real \<Rightarrow> AdductInfo
    \<Rightarrow> py_error + transition list" where
  "adduct_transitions lipid_class species formula precursor_mass adduct =
     bindE (py_div (precursor_mass + mass_delta adduct) (of_int \<bar>charge adduct\<bar>)) (\<lambda>precursor_mz.
       (let formula_text = formula_str formula;
            mk = row lipid_class (precursor_name lipid_class species) formula_text adduct precursor_mz;
            lcb_type = hd (py_split CHR ''/'' species);
            fragment_charge = (if 0 < charge adduct then 1 else - 1);
            fragment_adduct = (if 0 < charge adduct then ''[M+H]1+'' else ''[M-H]1-'')
        in bindE (water_loss_rows mk formula adduct) (\<lambda>water_rows.
           bindE (headgroup_rows lipid_class species formula adduct mk) (\<lambda>hg_rows.
             Inr ([mk ''precursor'' formula_text (name adduct) precursor_mz (charge adduct)]
                  @ water_rows
                  @ map (\<lambda>frag. mk (frag_name frag) (frag_formula frag) fragment_adduct
                                   (frag_mass frag) fragment_charge)
                      (positive_lcb_fragments lipid_class lcb_type adduct)
                  @ hg_rows)))))"

text \<open>The body of the loop over the species: the mass is taken once, before the adducts.\<close>

definition species_transitions :: "string \<Rightarrow> AdductInfo list \<Rightarrow> string \<times> MolecularFormula
    \<Rightarrow> py_error + transition list" where
  "species_transitions lipid_class adducts sf =
     bindE (mass (snd sf)) (\<lambda>precursor_mass.
     bindE (traverse (adduct_transitions lipid_class (fst sf) (snd sf) precursor_mass) adducts)
       (\<lambda>rows. Inr (concat rows)))"

definition generate_transitions :: "config \<Rightarrow> string \<Rightarrow> int list \<Rightarrow> string list option
    \<Rightarrow> string list option \<Rightarrow> string list option \<Rightarrow> py_error + transition list" where
  "generate_transitions cfg lipid_class charge_states selected_adducts selected_lcbs selected_fas =
     bindE (generate_lipid_formulas cfg lipid_class selected_lcbs selected_fas) (\<lambda>formulas.
     bindE (traverse (species_transitions lipid_class
                        (get_adduct_definitions charge_states selected_adducts)) formulas)
       (\<lambda>rows. Inr (concat rows)))"

section \<open>Isotope labelling of a table\<close>








section \<open>The pattern of a chain token\<close>

text \<open>A number of the pattern: one decimal digit or more.\<close>

definition digits :: "string \<Rightarrow> bool" where
  "digits s = (s \<noteq> [] \<and> (\<forall>c\<in>set s. isdigit c))"

text \<open>The tokens of the pattern \<^verbatim>\<open>carbons:unsaturations[;hydroxyls]\<close>, from their numbers.\<close>

definition lcb_token :: "string \<Rightarrow> string \<Rightarrow> string option \<Rightarrow> string" where
  "lcb_token carbons unsat hydroxyls =
     carbons @ '':'' @ unsat @ (case hydroxyls of None \<Rightarrow> [] | Some h \<Rightarrow> '';'' @ h)"

definition fa_token :: "string \<Rightarrow> string \<Rightarrow> string" where
  "fa_token carbons unsat = carbons @ '':'' @ unsat"

section \<open>The counts of a species, in the words of the specification\<close>

text \<open>The numbers of a token's fields.\<close>

definition lcb_comp :: "string \<Rightarrow> string \<Rightarrow> string \<Rightarrow> string option \<Rightarrow> chain_comp" where
  "lcb_comp lipid_class carbons unsat hydroxyls =
     \<lparr>comp_C = int (nat_of_digits carbons),
      comp_H = 2 * int (nat_of_digits carbons) + 3 - 2 * int (nat_of_digits unsat),
      comp_N = 1,
      comp_O = (case hydroxyls of
                  None \<Rightarrow> (if lipid_class = ''doxCer'' then 1 else 2)
                | Some h \<Rightarrow> int (nat_of_digits h))\<rparr>"

definition fa_comp :: "string \<Rightarrow> string \<Rightarrow> chain_comp" where
  "fa_comp carbons unsat =
     \<lparr>comp_C = int (nat_of_digits carbons),
      comp_H = 2 * int (nat_of_digits carbons) - 2 * int (nat_of_digits unsat),
      comp_N = 0,
      comp_O = 2\<rparr>"

text \<open>The element-wise sum of the backbone and the headgroup composition; an element the
  composition does not list counts 0, and P and S come from the headgroup alone.\<close>

definition species_counts :: "string \<Rightarrow> (string \<times> int) list \<Rightarrow> string \<Rightarrow> string \<Rightarrow> string option
    \<Rightarrow> string \<Rightarrow> string \<Rightarrow> (string \<times> int) list" where
  "species_counts lipid_class hg a b h a' b' =
     (let lcb = lcb_comp lipid_class a b h; fa = fa_comp a' b'
      in [(''C'', (comp_C lcb + comp_C fa) + dict_get hg ''C'' 0),
          (''H'', (comp_H lcb + comp_H fa - 2) + dict_get hg ''H'' 0),
          (''N'', comp_N lcb + dict_get hg ''N'' 0),
          (''O'', (comp_O lcb + comp_O fa - 1) + dict_get hg ''O'' 0),
          (''P'', dict_get hg ''P'' 0),
          (''S'', dict_get hg ''S'' 0)])"

section \<open>Names of tabulated fragments\<close>

text \<open>What the names in the fragment tables have in common: a name is not empty, does not
  start with \<^verbatim>\<open>p\<close> (as \<^verbatim>\<open>precursor\<close> does) and holds no opening bracket (as the mark
  \<^verbatim>\<open>[Z=2]\<close> does).\<close>

definition table_name :: "string \<Rightarrow> bool" where
  "table_name n = ((case n of [] \<Rightarrow> False | c # cs \<Rightarrow> c \<noteq> CHR ''p'') \<and> CHR ''['' \<notin> set n)"

text \<open>The neutral monoisotopic mass of a formula: the sum of count times atomic mass.\<close>

definition neutral_mass :: "MolecularFormula \<Rightarrow> real" where
  "neutral_mass f = (\<Sum>(k, v)\<leftarrow>elements f. atomic_mass k * of_int v)"

text \<open>The tables of headgroup losses, one per \<^verbatim>\<open>get_*_hg_loss_fragments\<close> function.\<close>

definition HEADGROUP_LOSS_TABLES :: "(string \<times> (string \<times> int) list) list list" where
  "HEADGROUP_LOSS_TABLES =
     [HEX_HEADGROUP_LOSSES, LAC_HEADGROUP_LOSSES, GB3_HEADGROUP_LOSSES, GB4_HEADGROUP_LOSSES,
      GA1_HEADGROUP_LOSSES, GA2_HEADGROUP_LOSSES, LC3_HEADGROUP_LOSSES, LC4_HEADGROUP_LOSSES,
      SM4_HEADGROUP_LOSSES, SHEX2_HEADGROUP_LOSSES, GM4_HEADGROUP_LOSSES, GM3_HEADGROUP_LOSSES,
      GM2_HEADGROUP_LOSSES, GM1_HEADGROUP_LOSSES, GD3_HEADGROUP_LOSSES, GD2_HEADGROUP_LOSSES,
      GD1_HEADGROUP_LOSSES, GT1A_HEADGROUP_LOSSES, GT1B_HEADGROUP_LOSSES, GT1C_HEADGROUP_LOSSES,
      GT2_HEADGROUP_LOSSES, GT3_HEADGROUP_LOSSES, GQ1_HEADGROUP_LOSSES, GP1_HEADGROUP_LOSSES,
      NLC10_HEADGROUP_LOSSES, NLC8_HEADGROUP_LOSSES, NLC6_HEADGROUP_LOSSES, []]"

section \<open>Properties of the string and dictionary functions\<close>

lemma bindE_Inr_iff: "bindE m f = Inr y \<longleftrightarrow> (\<exists>x. m = Inr x \<and> f x = Inr y)"
  by (cases m) (simp_all add: bindE_def)

lemma bindE_simps: "bindE (Inr x) f = f x" "bindE (Inl e) f = Inl e"
  by (simp_all add: bindE_def)




lemma isdigit_not_isspace: "isdigit c \<Longrightarrow> \<not> isspace c"
  by (auto simp: isdigit_def isspace_def)

lemma dropWhile_id: "s \<noteq> [] \<Longrightarrow> \<not> P (hd s) \<Longrightarrow> dropWhile P s = s"
  by (cases s) simp_all

lemma strip_id: "s \<noteq> [] \<Longrightarrow> \<not> isspace (hd s) \<Longrightarrow> \<not> isspace (last s) \<Longrightarrow> strip s = s"
  by (simp add: strip_def dropWhile_id hd_rev)











section \<open>Isotope tokens\<close>








section \<open>Molecular formulas: normalisation and mass\<close>

lemma MolecularFormula_positive: "(k, v) \<in> set (elements (MolecularFormula d)) \<Longrightarrow> 0 < v"
  by (simp add: MolecularFormula_def)

lemma MolecularFormula_drop_key:
  assumes "distinct (map fst d)" "(k, v) \<in> set d" "v \<le> 0"
  shows "MolecularFormula d = MolecularFormula (filter (\<lambda>(k', v'). k' \<noteq> k) d)"
proof -
  have "\<And>k' v'. (k', v') \<in> set d \<Longrightarrow> 0 < v' \<Longrightarrow> k' \<noteq> k"
  proof
    fix k' v'
    assume a: "(k', v') \<in> set d" "0 < v'" "k' = k"
    from assms(1) a(1) assms(2) a(3) have "v' = v"
      by (meson eq_key_imp_eq_value)
    with a(2) assms(3) show False by simp
  qed
  then have "filter (\<lambda>(k, v). 0 < v) d = filter (\<lambda>(k, v). 0 < v) (filter (\<lambda>(k', v'). k' \<noteq> k) d)"
    by (auto intro!: filter_cong)
  then show ?thesis by (simp add: MolecularFormula_def)
qed

lemma MolecularFormula_key_absent:
  assumes "distinct (map fst d)" "(k, v) \<in> set d" "v \<le> 0"
  shows "k \<notin> fst ` set (elements (MolecularFormula d))"
proof
  assume "k \<in> fst ` set (elements (MolecularFormula d))"
  then obtain v' where "(k, v') \<in> set d" "0 < v'"
    by (auto simp: MolecularFormula_def)
  with assms(1,2) have "v' = v" by (meson eq_key_imp_eq_value)
  with \<open>0 < v'\<close> assms(3) show False by simp
qed

text \<open>
  Claim C8. A \<^verbatim>\<open>MolecularFormula\<close>, right after construction, stores only counts above
  zero. An element given to the constructor with a zero or negative count is not among the
  stored elements, and the formula is the one built without that element, so neither its
  text nor its mass shows it. The formulas rebuilt by the headgroup-loss and the water-loss
  computations store only counts above zero as well.
\<close>

theorem MolecularFormula_stores_positive_counts:
  "(\<forall>(k, v) \<in> set (elements (MolecularFormula d)). 0 < v)
   \<and> (distinct (map fst d) \<and> (k, n) \<in> set d \<and> n \<le> 0 \<longrightarrow>
        k \<notin> fst ` set (elements (MolecularFormula d))
        \<and> element_str (elements (MolecularFormula d)) k = []
        \<and> formula_str (MolecularFormula d)
            = formula_str (MolecularFormula (filter (\<lambda>(k', v'). k' \<noteq> k) d))
        \<and> mass (MolecularFormula d)
            = mass (MolecularFormula (filter (\<lambda>(k', v'). k' \<noteq> k) d)))
   \<and> (\<forall>(k, v) \<in> set (elements (loss_formula f loss_dict)). 0 < v)
   \<and> (\<forall>(k, v) \<in> set (elements (h2o_loss_formula f)). 0 < v)"
proof (intro conjI impI)
  show "\<forall>(k, v) \<in> set (elements (MolecularFormula d)). 0 < v"
    using MolecularFormula_positive by auto
  show "\<forall>(k, v) \<in> set (elements (loss_formula f loss_dict)). 0 < v"
    using MolecularFormula_positive by (auto simp: loss_formula_def Let_def)
  show "\<forall>(k, v) \<in> set (elements (h2o_loss_formula f)). 0 < v"
    using MolecularFormula_positive by (auto simp: h2o_loss_formula_def Let_def)
next
  assume a: "distinct (map fst d) \<and> (k, n) \<in> set d \<and> n \<le> 0"
  then show absent: "k \<notin> fst ` set (elements (MolecularFormula d))"
    using MolecularFormula_key_absent by blast
  then have "map_of (elements (MolecularFormula d)) k = None"
    by (simp add: map_of_eq_None_iff)
  then show "element_str (elements (MolecularFormula d)) k = []"
    by (simp add: element_str_def)
  have eq: "MolecularFormula d = MolecularFormula (filter (\<lambda>(k', v'). k' \<noteq> k) d)"
    using a MolecularFormula_drop_key by blast
  show "formula_str (MolecularFormula d)
          = formula_str (MolecularFormula (filter (\<lambda>(k', v'). k' \<noteq> k) d))"
    using eq by simp
  show "mass (MolecularFormula d) = mass (MolecularFormula (filter (\<lambda>(k', v'). k' \<noteq> k) d))"
    using eq by simp
qed

theorem MolecularFormula_stores_positive_counts_witness:
  "elements (MolecularFormula [(''C'', 2), (''H'', - 15), (''N'', 1), (''O'', 3), (''P'', 0)])
     = [(''C'', 2), (''N'', 1), (''O'', 3)]
   \<and> ''H'' \<notin> fst ` set (elements (MolecularFormula [(''C'', 2), (''H'', - 15), (''N'', 1), (''O'', 3), (''P'', 0)]))
   \<and> formula_str (MolecularFormula [(''C'', 2), (''H'', - 15), (''N'', 1), (''O'', 3), (''P'', 0)])
       = ''C2NO3''
   \<and> formula_str (MolecularFormula [(''C'', 2), (''N'', 1), (''O'', 3), (''P'', 0)]) = ''C2NO3''
   \<and> elements (loss_formula (Formula [(''C'', 6), (''H'', 10), (''O'', 5)]) [(''C'', 6), (''H'', 12), (''O'', 4)])
       = [(''O'', 1)]
   \<and> elements (h2o_loss_formula (Formula [(''C'', 1), (''H'', 2), (''O'', 1)])) = [(''C'', 1)]"
  using MolecularFormula_stores_positive_counts
    [of "[(''C'', 2), (''H'', - 15), (''N'', 1), (''O'', 3), (''P'', 0)]" "''H''" "- 15"
        "Formula [(''C'', 6), (''H'', 10), (''O'', 5)]" "[(''C'', 6), (''H'', 12), (''O'', 4)]"]
  by (simp add: MolecularFormula_def formula_str_def element_str_def str_of_int_def
      str_of_nat.simps loss_formula_def subtract_loss_def dict_get_def h2o_loss_formula_def
      digit_char_def)

lemma mass_sum_unknown:
  "\<exists>k\<in>fst ` set es. k \<notin> fst ` set ATOMIC_MASSES \<Longrightarrow> mass_sum es = Inl KeyError"
proof (induction es)
  case Nil
  then show ?case by simp
next
  case (Cons a es)
  obtain k v where a: "a = (k, v)" by (cases a)
  show ?case
  proof (cases "map_of ATOMIC_MASSES k")
    case None
    then show ?thesis by (simp add: a)
  next
    case (Some m)
    then have "(k, m) \<in> set ATOMIC_MASSES" by (rule map_of_SomeD)
    then have "k \<in> fst ` set ATOMIC_MASSES" by force
    with Cons.prems a have "\<exists>k\<in>fst ` set es. k \<notin> fst ` set ATOMIC_MASSES" by auto
    then have "mass_sum es = Inl KeyError" by (rule Cons.IH)
    then show ?thesis by (simp add: a Some)
  qed
qed

lemma mass_sum_known:
  "\<forall>k\<in>fst ` set es. k \<in> fst ` set ATOMIC_MASSES \<Longrightarrow>
     mass_sum es = Inr (\<Sum>(k, v)\<leftarrow>es. atomic_mass k * of_int v)"
proof (induction es)
  case Nil
  then show ?case by simp
next
  case (Cons a es)
  obtain k v where a: "a = (k, v)" by (cases a)
  from Cons.prems a have "k \<in> fst ` set ATOMIC_MASSES" by simp
  then obtain m where m: "map_of ATOMIC_MASSES k = Some m"
    by (metis map_of_eq_None_iff not_Some_eq)
  have "mass_sum es = Inr (\<Sum>(k, v)\<leftarrow>es. atomic_mass k * of_int v)"
    using Cons by simp
  then show ?case by (simp add: a m atomic_mass_def dict_get_def)
qed

text \<open>
  Claim C6, as the code has it. For every formula whose stored elements hold a symbol outside
  the registered set C, H, N, O, P, S, \<^verbatim>\<open>mass()\<close> fails, with the \<^verbatim>\<open>KeyError\<close> of the
  dictionary lookup: no sum is returned in which the unknown element counts as zero. For a
  formula of registered elements only, \<^verbatim>\<open>mass()\<close> returns the sum of count times atomic
  mass and raises nothing.
\<close>

theorem mass_unknown_element_KeyError:
  "((\<exists>k\<in>fst ` set (elements f). k \<notin> fst ` set ATOMIC_MASSES) \<longrightarrow> mass f = Inl KeyError)
   \<and> ((\<forall>k\<in>fst ` set (elements f). k \<in> fst ` set ATOMIC_MASSES) \<longrightarrow>
        mass f = Inr (\<Sum>(k, v)\<leftarrow>elements f. atomic_mass k * of_int v))"
  using mass_sum_unknown mass_sum_known by (simp add: mass_def)

theorem mass_unknown_element_KeyError_witness:
  "mass (MolecularFormula [(''C'', 1), (''X'', 1)]) = Inl KeyError
   \<and> mass (MolecularFormula [(''C'', 1), (''H'', 4)]) = Inr 16.03130012892"
  using mass_unknown_element_KeyError [of "MolecularFormula [(''C'', 1), (''X'', 1)]"]
    mass_unknown_element_KeyError [of "MolecularFormula [(''C'', 1), (''H'', 4)]"]
  by (simp add: MolecularFormula_def ATOMIC_MASSES_def atomic_mass_def dict_get_def)

theorem mass_unknown_element_counterexample:
  "mass (MolecularFormula [(''C'', 1), (''X'', 1)]) = Inl KeyError
   \<and> exception_name KeyError \<noteq> ''UnknownElementError''"
  by (simp add: MolecularFormula_def mass_def ATOMIC_MASSES_def)

section \<open>Isotope labelling of product rows\<close>





section \<open>Chain tokens\<close>

lemma py_split_not_Nil: "py_split sep s \<noteq> []"
  by (induction s) (auto split: list.splits)

lemma py_split_no_sep: "sep \<notin> set s \<Longrightarrow> py_split sep s = [s]"
  by (induction s) auto

lemma py_split_append_sep:
  "sep \<notin> set a \<Longrightarrow> py_split sep (a @ sep # b) = a # py_split sep b"
  by (induction a) auto

lemma py_split_parts_subset: "p \<in> set (py_split sep s) \<Longrightarrow> set p \<subseteq> set s"
proof (induction s arbitrary: p)
  case Nil
  then show ?case by simp
next
  case (Cons c s)
  show ?case
  proof (cases "c = sep")
    case True
    with Cons show ?thesis by auto
  next
    case False
    obtain q qs where q: "py_split sep s = q # qs"
      using py_split_not_Nil [of sep s] by (cases "py_split sep s") auto
    with Cons.prems False have "p = c # q \<or> p \<in> set qs" by simp
    then show ?thesis
    proof
      assume "p = c # q"
      moreover have "set q \<subseteq> set s" using Cons.IH [of q] q by simp
      ultimately show ?thesis by auto
    next
      assume "p \<in> set qs"
      then have "set p \<subseteq> set s" using Cons.IH [of p] q by simp
      then show ?thesis by auto
    qed
  qed
qed

lemma digits_ok_digits: "digits s \<Longrightarrow> digits_ok s"
proof (induction s rule: digits_ok.induct)
  case 1
  then show ?case by (simp add: digits_def)
next
  case (2 c)
  then show ?case by (simp add: digits_def)
next
  case (3 c d r)
  from "3.prems" have c: "isdigit c" and d: "isdigit d" by (simp_all add: digits_def)
  from d have nu: "d \<noteq> CHR ''_''" by (auto simp: isdigit_def)
  from "3.prems" have "digits (d # r)" by (simp add: digits_def)
  with "3.IH"(2) c nu show ?case by simp
qed

lemma digit_not_underscore: "isdigit c \<Longrightarrow> c \<noteq> CHR ''_''"
  by (auto simp: isdigit_def)

lemma digit_not_sign: "isdigit c \<Longrightarrow> c \<noteq> CHR ''-'' \<and> c \<noteq> CHR ''+''"
  by (auto simp: isdigit_def)

lemma digit_not_sep: "isdigit c \<Longrightarrow> c \<noteq> CHR '':'' \<and> c \<noteq> CHR '';'' \<and> c \<noteq> CHR ''/''"
  by (auto simp: isdigit_def)

lemma py_int_digits:
  assumes "digits s"
  shows "py_int s = Some (int (nat_of_digits s))"
proof -
  from assms have ne: "s \<noteq> []" and all: "\<forall>c\<in>set s. isdigit c" by (simp_all add: digits_def)
  have h: "isdigit (hd s)" "isdigit (last s)" using ne all by simp_all
  have st: "strip s = s"
    using ne h by (simp add: strip_id isdigit_not_isspace)
  have sg: "hd s \<noteq> CHR ''-''" "hd s \<noteq> CHR ''+''" using h(1) digit_not_sign by auto
  have f: "filter (\<lambda>c. c \<noteq> CHR ''_'') s = s"
    using all digit_not_underscore by (simp add: filter_id_conv)
  show ?thesis
    using digits_ok_digits [OF assms] by (simp add: py_int_def st sg f Let_def)
qed

lemma digits_no_sep:
  "digits s \<Longrightarrow> CHR '':'' \<notin> set s \<and> CHR '';'' \<notin> set s \<and> CHR ''/'' \<notin> set s"
  using digit_not_sep by (auto simp: digits_def)

lemma parse_lcb_token:
  assumes "digits a" "digits b" "case h of None \<Rightarrow> True | Some c \<Rightarrow> digits c"
  shows "parse_lcb lipid_class (lcb_token a b h) =
     Inr (Some \<lparr>comp_C = int (nat_of_digits a),
                comp_H = 2 * int (nat_of_digits a) + 3 - 2 * int (nat_of_digits b),
                comp_N = 1,
                comp_O = (case h of
                            None \<Rightarrow> (if lipid_class = ''doxCer'' then 1 else 2)
                          | Some c \<Rightarrow> int (nat_of_digits c))\<rparr>)"
proof (cases h)
  case None
  have 1: "py_split CHR '':'' (a @ CHR '':'' # b) = [a, b]"
    using digits_no_sep [OF assms(1)] digits_no_sep [OF assms(2)]
    by (simp add: py_split_append_sep py_split_no_sep)
  have 2: "py_split CHR '';'' b = [b]"
    using digits_no_sep [OF assms(2)] by (simp add: py_split_no_sep)
  show ?thesis
    by (simp add: None parse_lcb_def lcb_token_def 1 2 Let_def py_int_digits assms)
next
  case (Some c)
  with assms(3) have c: "digits c" by simp
  have 1: "py_split CHR '':'' (a @ CHR '':'' # b @ CHR '';'' # c) = [a, b @ CHR '';'' # c]"
    using digits_no_sep [OF assms(1)] digits_no_sep [OF assms(2)] digits_no_sep [OF c]
    by (simp add: py_split_append_sep py_split_no_sep)
  have 2: "py_split CHR '';'' (b @ CHR '';'' # c) = [b, c]"
    using digits_no_sep [OF assms(2)] digits_no_sep [OF c]
    by (simp add: py_split_append_sep py_split_no_sep)
  show ?thesis
    by (simp add: Some parse_lcb_def lcb_token_def 1 2 Let_def py_int_digits assms c)
qed

lemma parse_fa_token:
  assumes "digits a" "digits b"
  shows "parse_fa (fa_token a b) =
     Inr (Some \<lparr>comp_C = int (nat_of_digits a),
                comp_H = 2 * int (nat_of_digits a) - 2 * int (nat_of_digits b),
                comp_N = 0,
                comp_O = 2\<rparr>)"
proof -
  have 1: "py_split CHR '':'' (a @ CHR '':'' # b) = [a, b]"
    using digits_no_sep [OF assms(1)] digits_no_sep [OF assms(2)]
    by (simp add: py_split_append_sep py_split_no_sep)
  show ?thesis
    by (simp add: parse_fa_def fa_token_def 1 Let_def py_int_digits assms)
qed

lemma lcb_token_no_slash:
  assumes "digits a" "digits b" "case h of None \<Rightarrow> True | Some c \<Rightarrow> digits c"
  shows "CHR ''/'' \<notin> set (lcb_token a b h)"
  using assms digits_no_sep by (cases h) (auto simp: lcb_token_def)

lemma fa_token_no_slash: "digits a \<Longrightarrow> digits b \<Longrightarrow> CHR ''/'' \<notin> set (fa_token a b)"
  using digits_no_sep by (auto simp: fa_token_def)

section \<open>The loops of the species enumeration\<close>







lemma dict_set_mem: "(k, v) \<in> set (dict_set d k v)"
  by (induction d) auto

lemma dict_set_other: "k' \<noteq> k \<Longrightarrow> (k', v') \<in> set (dict_set d k v) \<longleftrightarrow> (k', v') \<in> set d"
  by (induction d) (auto split: if_splits)

lemma dict_set_cases: "(k', v') \<in> set (dict_set d k v) \<Longrightarrow> (k', v') = (k, v) \<or> (k', v') \<in> set d"
  by (induction d) (auto split: if_splits)

lemma map_of_dict_set: "map_of (dict_set d k v) = (map_of d)(k \<mapsto> v)"
  by (induction d) auto

lemma chain_loop_sound:
  "chain_loop parse toks acc = Inr res \<Longrightarrow> (t, c) \<in> set res \<Longrightarrow>
     (t, c) \<in> set acc \<or> (t \<in> set toks \<and> parse t = Inr (Some c))"
proof (induction toks arbitrary: acc)
  case Nil
  then show ?case by simp
next
  case (Cons tok toks)
  show ?case
  proof (cases "parse tok")
    case (Inl e)
    with Cons.prems show ?thesis by simp
  next
    case (Inr r)
    show ?thesis
    proof (cases r)
      case None
      with Cons Inr show ?thesis by auto
    next
      case (Some c')
      with Cons.prems Inr have "chain_loop parse toks (dict_set acc tok c') = Inr res" by simp
      from Cons.IH [OF this Cons.prems(2)]
      have "(t, c) \<in> set (dict_set acc tok c') \<or> (t \<in> set toks \<and> parse t = Inr (Some c))" .
      then show ?thesis
        using dict_set_cases [of t c acc tok c'] Inr Some by auto
    qed
  qed
qed

lemma chain_loop_complete:
  "chain_loop parse toks acc = Inr res \<Longrightarrow> parse tok = Inr (Some c) \<Longrightarrow>
     (tok, c) \<in> set acc \<or> tok \<in> set toks \<Longrightarrow> (tok, c) \<in> set res"
proof (induction toks arbitrary: acc)
  case Nil
  then show ?case by simp
next
  case (Cons t toks)
  show ?case
  proof (cases "parse t")
    case (Inl e)
    with Cons.prems show ?thesis by simp
  next
    case (Inr r)
    show ?thesis
    proof (cases r)
      case None
      with Cons.prems Inr have "t \<noteq> tok" by auto
      with Cons Inr None show ?thesis by auto
    next
      case (Some c')
      with Cons.prems Inr have l: "chain_loop parse toks (dict_set acc t c') = Inr res" by simp
      have "(tok, c) \<in> set (dict_set acc t c') \<or> tok \<in> set toks"
      proof (cases "t = tok")
        case True
        with Inr Some Cons.prems(2) have "c' = c" by simp
        with True show ?thesis using dict_set_mem [of tok c acc] by simp
      next
        case False
        with Cons.prems(3) show ?thesis using dict_set_other [of tok t c acc c'] by auto
      qed
      from Cons.IH [OF l Cons.prems(2) this] show ?thesis .
    qed
  qed
qed

lemma selection_Some: "l \<noteq> [] \<Longrightarrow> selection configured (Some l) = l"
  by (simp add: selection_def)







lemmas string_eval = strip_def isspace_def isdigit_def py_int_def nat_of_digits_def
  digit_value_def Let_def




section \<open>The formula of a species\<close>

lemma takeWhile_sep: "x \<notin> set l \<Longrightarrow> takeWhile (\<lambda>c. c \<noteq> x) (l @ x # f) = l"
  by (induction l) auto

lemma species_name_inj:
  assumes "CHR ''/'' \<notin> set l" "CHR ''/'' \<notin> set f" "species_name l' f' = species_name l f"
  shows "l' = l \<and> f' = f"
proof -
  let ?P = "\<lambda>c. c \<noteq> CHR ''/''"
  from assms(3) have eq: "l' @ CHR ''/'' # f' = l @ CHR ''/'' # f"
    by (simp add: species_name_def)
  have r: "takeWhile ?P (l @ CHR ''/'' # f) = l"
    using assms(1) by (rule takeWhile_sep)
  show ?thesis
  proof (cases "CHR ''/'' \<in> set l'")
    case False
    then have "takeWhile ?P (l' @ CHR ''/'' # f') = l'"
      by (rule takeWhile_sep)
    with r eq have "l' = l" by simp
    with eq show ?thesis by simp
  next
    case True
    then obtain p q where pq: "l' = p @ CHR ''/'' # q" "CHR ''/'' \<notin> set p"
      by (meson split_list_first)
    then have "takeWhile ?P ((p @ CHR ''/'' # q) @ CHR ''/'' # f') = p"
      using takeWhile_sep [of "CHR ''/''" p "q @ CHR ''/'' # f'"] by simp
    then have "takeWhile ?P (l' @ CHR ''/'' # f') = p"
      by (simp add: pq(1))
    with r eq have "p = l" by simp
    with pq eq have "f = q @ CHR ''/'' # f'" by simp
    with assms(2) show ?thesis by simp
  qed
qed

lemma formulas_loop_map_of:
  assumes "formulas_loop hg pairs acc = Inr res"
    and "\<And>ln lc fn fc. ((ln, lc), (fn, fc)) \<in> set pairs \<Longrightarrow> species_name ln fn = K \<Longrightarrow>
           final_formula hg (ceramide_backbone lc fc) = Inr ff"
    and "map_of acc K = Some (MolecularFormula ff)
         \<or> (\<exists>ln lc fn fc. ((ln, lc), (fn, fc)) \<in> set pairs \<and> species_name ln fn = K)"
  shows "map_of res K = Some (MolecularFormula ff)"
  using assms
proof (induction pairs arbitrary: acc)
  case Nil
  then show ?case by simp
next
  case (Cons p pairs)
  obtain ln lc fn fc where p: "p = ((ln, lc), (fn, fc))" by (metis prod.collapse)
  from Cons.prems(1) obtain ff' where
    ff': "final_formula hg (ceramide_backbone lc fc) = Inr ff'"
    and l: "formulas_loop hg pairs (dict_set acc (species_name ln fn) (MolecularFormula ff')) = Inr res"
    by (auto simp: p split: sum.splits)
  have 2: "\<And>ln lc fn fc. ((ln, lc), (fn, fc)) \<in> set pairs \<Longrightarrow> species_name ln fn = K \<Longrightarrow>
           final_formula hg (ceramide_backbone lc fc) = Inr ff"
    by (rule Cons.prems(2)) auto
  have 3: "map_of (dict_set acc (species_name ln fn) (MolecularFormula ff')) K
             = Some (MolecularFormula ff)
         \<or> (\<exists>ln lc fn fc. ((ln, lc), (fn, fc)) \<in> set pairs \<and> species_name ln fn = K)"
  proof (cases "species_name ln fn = K")
    case True
    then have "final_formula hg (ceramide_backbone lc fc) = Inr ff"
      using Cons.prems(2) [of ln lc fn fc] by (simp add: p)
    with ff' have "ff' = ff" by simp
    with True show ?thesis by (simp add: map_of_dict_set)
  next
    case False
    with Cons.prems(3) show ?thesis by (auto simp: map_of_dict_set p)
  qed
  from Cons.IH [OF l 2 3] show ?case .
qed

lemma get_lipid_composition_keys:
  assumes "get_lipid_composition lipid_class = Inr hg"
  shows "\<exists>c h ox. dict_item hg ''C'' = Inr c \<and> dict_item hg ''H'' = Inr h \<and> dict_item hg ''O'' = Inr ox"
proof -
  have g: "\<forall>(k, comp) \<in> set GSL_HEADGROUP_COMPOSITIONS.
      \<exists>c h ox. dict_item comp ''C'' = Inr c \<and> dict_item comp ''H'' = Inr h \<and> dict_item comp ''O'' = Inr ox"
    by (simp add: GSL_HEADGROUP_COMPOSITIONS_def dict_item_def)
  have c: "\<forall>(k, comp) \<in> set CERAMIDE_COMPOSITIONS.
      \<exists>c h ox. dict_item comp ''C'' = Inr c \<and> dict_item comp ''H'' = Inr h \<and> dict_item comp ''O'' = Inr ox"
    by (simp add: CERAMIDE_COMPOSITIONS_def dict_item_def)
  have s: "\<forall>(k, comp) \<in> set SM_COMPOSITIONS.
      \<exists>c h ox. dict_item comp ''C'' = Inr c \<and> dict_item comp ''H'' = Inr h \<and> dict_item comp ''O'' = Inr ox"
    by (simp add: SM_COMPOSITIONS_def dict_item_def)
  from assms have "(lipid_class, hg) \<in> set GSL_HEADGROUP_COMPOSITIONS
      \<or> (lipid_class, hg) \<in> set CERAMIDE_COMPOSITIONS \<or> (lipid_class, hg) \<in> set SM_COMPOSITIONS"
    by (auto simp: get_lipid_composition_def split: option.splits dest: map_of_SomeD)
  with g c s show ?thesis by blast
qed

lemma final_formula_known:
  assumes "get_lipid_composition lipid_class = Inr hg"
  shows "final_formula hg bb =
     Inr [(''C'', comp_C bb + dict_get hg ''C'' 0),
          (''H'', comp_H bb + dict_get hg ''H'' 0),
          (''N'', comp_N bb + dict_get hg ''N'' 0),
          (''O'', comp_O bb + dict_get hg ''O'' 0),
          (''P'', dict_get hg ''P'' 0),
          (''S'', dict_get hg ''S'' 0)]"
proof -
  from get_lipid_composition_keys [OF assms] obtain c h ox where
    "dict_item hg ''C'' = Inr c" "dict_item hg ''H'' = Inr h" "dict_item hg ''O'' = Inr ox"
    by blast
  then show ?thesis
    by (auto simp: final_formula_def bindE_simps dict_item_def dict_get_def split: option.splits)
qed

lemma MolecularFormula_map_of:
  "distinct (map fst d) \<Longrightarrow> (e, n) \<in> set d \<Longrightarrow>
     map_of (elements (MolecularFormula d)) e = (if 0 < n then Some n else None)"
proof -
  assume d: "distinct (map fst d)" and m: "(e, n) \<in> set d"
  have dd: "distinct (map fst (filter (\<lambda>(k, v). 0 < v) d))"
    using d by (simp add: distinct_map_filter)
  show ?thesis
  proof (cases "0 < n")
    case True
    with m have "(e, n) \<in> set (filter (\<lambda>(k, v). 0 < v) d)" by simp
    with dd show ?thesis by (simp add: MolecularFormula_def True)
  next
    case False
    then have "n \<le> 0" by simp
    from MolecularFormula_key_absent [OF d m this]
    show ?thesis by (simp add: map_of_eq_None_iff False)
  qed
qed

lemma species_lookup:
  assumes wf: "digits a" "digits b" "case h of None \<Rightarrow> True | Some c \<Rightarrow> digits c"
      "digits a'" "digits b'"
    and mem: "lcb_token a b h \<in> set lcbs" "fa_token a' b' \<in> set fatty"
    and gen: "generate_lipid_formulas cfg lipid_class (Some lcbs) (Some fatty) = Inr formulas"
  shows "\<exists>hg. get_lipid_composition lipid_class = Inr hg
     \<and> map_of formulas (lcb_token a b h @ ''/'' @ fa_token a' b') =
         Some (MolecularFormula (species_counts lipid_class hg a b h a' b'))"
proof -
  let ?lcb = "lcb_token a b h" and ?fa = "fa_token a' b'"
  from mem have ne: "lcbs \<noteq> []" "fatty \<noteq> []" by auto
  from gen obtain lv fv hg where
    lv: "chain_loop (parse_lcb lipid_class) lcbs [] = Inr lv"
    and fv: "chain_loop parse_fa fatty [] = Inr fv"
    and hg: "get_lipid_composition lipid_class = Inr hg"
    and fl: "formulas_loop hg (List.product lv fv) [] = Inr formulas"
    by (auto simp: generate_lipid_formulas_def bindE_Inr_iff selection_Some ne)
  let ?lc = "lcb_comp lipid_class a b h" and ?fc = "fa_comp a' b'"
  have pl: "parse_lcb lipid_class ?lcb = Inr (Some ?lc)"
    using parse_lcb_token [OF wf(1,2,3)] by (simp add: lcb_comp_def)
  have pf: "parse_fa ?fa = Inr (Some ?fc)"
    using parse_fa_token [OF wf(4,5)] by (simp add: fa_comp_def)
  have inl: "(?lcb, ?lc) \<in> set lv"
    using chain_loop_complete [OF lv pl] mem(1) by simp
  have inf: "(?fa, ?fc) \<in> set fv"
    using chain_loop_complete [OF fv pf] mem(2) by simp
  have ff: "final_formula hg (ceramide_backbone ?lc ?fc)
              = Inr (species_counts lipid_class hg a b h a' b')"
    by (simp add: final_formula_known [OF hg] species_counts_def ceramide_backbone_def
        lcb_comp_def fa_comp_def)
  have same: "\<And>ln lc fn fc. ((ln, lc), (fn, fc)) \<in> set (List.product lv fv) \<Longrightarrow>
      species_name ln fn = species_name ?lcb ?fa \<Longrightarrow>
      final_formula hg (ceramide_backbone lc fc) = Inr (species_counts lipid_class hg a b h a' b')"
  proof -
    fix ln lc fn fc
    assume p: "((ln, lc), (fn, fc)) \<in> set (List.product lv fv)"
      and k: "species_name ln fn = species_name ?lcb ?fa"
    from species_name_inj [OF lcb_token_no_slash [OF wf(1,2,3)] fa_token_no_slash [OF wf(4,5)] k]
    have e: "ln = ?lcb" "fn = ?fa" by simp_all
    from p have "(ln, lc) \<in> set lv" "(fn, fc) \<in> set fv" by simp_all
    then have "parse_lcb lipid_class ln = Inr (Some lc)" "parse_fa fn = Inr (Some fc)"
      using chain_loop_sound [OF lv] chain_loop_sound [OF fv] by auto
    with e pl pf have "lc = ?lc" "fc = ?fc" by simp_all
    with ff show "final_formula hg (ceramide_backbone lc fc)
        = Inr (species_counts lipid_class hg a b h a' b')" by simp
  qed
  have ex: "\<exists>ln lc fn fc. ((ln, lc), (fn, fc)) \<in> set (List.product lv fv)
      \<and> species_name ln fn = species_name ?lcb ?fa"
    using inl inf by auto
  have "map_of formulas (species_name ?lcb ?fa)
      = Some (MolecularFormula (species_counts lipid_class hg a b h a' b'))"
  proof (rule formulas_loop_map_of [OF fl])
    fix ln lc fn fc
    assume "((ln, lc), (fn, fc)) \<in> set (List.product lv fv)"
      "species_name ln fn = species_name ?lcb ?fa"
    then show "final_formula hg (ceramide_backbone lc fc)
        = Inr (species_counts lipid_class hg a b h a' b')" by (rule same)
  next
    show "map_of [] (species_name ?lcb ?fa)
            = Some (MolecularFormula (species_counts lipid_class hg a b h a' b'))
        \<or> (\<exists>ln lc fn fc. ((ln, lc), (fn, fc)) \<in> set (List.product lv fv)
             \<and> species_name ln fn = species_name ?lcb ?fa)"
      using ex by blast
  qed
  with hg show ?thesis by (auto simp: species_name_def)
qed

lemma species_counts_keys:
  "map fst (species_counts lipid_class hg a b h a' b') = [''C'', ''H'', ''N'', ''O'', ''P'', ''S'']"
  by (simp add: species_counts_def Let_def)

text \<open>
  Claim C3, as the code has it. For every LCB token \<^verbatim>\<open>C:U[;h]\<close> and FA token
  \<^verbatim>\<open>C':U'\<close> of decimal numbers in the selections and every known lipid class, the
  enumeration maps the key \<^verbatim>\<open>lcb/fa\<close> to the formula built from the element-wise sum of the
  headgroup composition and the backbone: the LCB gives C carbons, 2C + 3 - 2U hydrogens,
  1 nitrogen and h oxygens (h is 2, or 1 for doxCer, when the token leaves it out), the FA
  gives C' carbons, 2C' - 2U' hydrogens and 2 oxygens, the backbone has lcb.H + fa.H - 2
  hydrogens and lcb.O + fa.O - 1 oxygens, and P and S are the headgroup's. The formula
  stores each of these sums that is above zero under its element; an element whose sum is
  zero or negative is not stored.
\<close>

theorem species_formula_counts:
  assumes "digits a" "digits b" "case h of None \<Rightarrow> True | Some c \<Rightarrow> digits c"
      "digits a'" "digits b'"
    and "lcb_token a b h \<in> set lcbs" "fa_token a' b' \<in> set fatty"
    and "generate_lipid_formulas cfg lipid_class (Some lcbs) (Some fatty) = Inr formulas"
  shows "\<exists>hg f. get_lipid_composition lipid_class = Inr hg
     \<and> map_of formulas (lcb_token a b h @ ''/'' @ fa_token a' b') = Some f
     \<and> f = MolecularFormula (species_counts lipid_class hg a b h a' b')
     \<and> (\<forall>(e, n) \<in> set (species_counts lipid_class hg a b h a' b').
           map_of (elements f) e = (if 0 < n then Some n else None))
     \<and> fst ` set (elements f) \<subseteq> set [''C'', ''H'', ''N'', ''O'', ''P'', ''S'']"
proof -
  from species_lookup [OF assms] obtain hg where
    hg: "get_lipid_composition lipid_class = Inr hg"
    and m: "map_of formulas (lcb_token a b h @ ''/'' @ fa_token a' b') =
         Some (MolecularFormula (species_counts lipid_class hg a b h a' b'))"
    by blast
  let ?d = "species_counts lipid_class hg a b h a' b'"
  have d: "distinct (map fst ?d)" by (simp add: species_counts_keys)
  have 1: "\<forall>(e, n) \<in> set ?d. map_of (elements (MolecularFormula ?d)) e = (if 0 < n then Some n else None)"
    using MolecularFormula_map_of [OF d] by blast
  have "fst ` set (elements (MolecularFormula ?d)) \<subseteq> set (map fst ?d)"
    by (auto simp: MolecularFormula_def)
  then have 2: "fst ` set (elements (MolecularFormula ?d)) \<subseteq> set [''C'', ''H'', ''N'', ''O'', ''P'', ''S'']"
    by (simp only: species_counts_keys)
  show ?thesis
    using hg m 1 2 by blast
qed

lemma generate_Cer_18_1_16_0:
  "generate_lipid_formulas DEFAULT_CONFIG ''Cer'' (Some [''18:1;2'']) (Some [''16:0''])
     = Inr [(''18:1;2/16:0'', Formula [(''C'', 34), (''H'', 67), (''N'', 1), (''O'', 3)])]"
  by (simp add: generate_lipid_formulas_def selection_def parse_lcb_def parse_fa_def string_eval
      bindE_def get_lipid_composition_def GSL_HEADGROUP_COMPOSITIONS_def
      CERAMIDE_COMPOSITIONS_def final_formula_def dict_item_def dict_get_def
      ceramide_backbone_def species_name_def MolecularFormula_def)

theorem species_formula_counts_witness:
  "map_of [(''18:1;2/16:0'', Formula [(''C'', 34), (''H'', 67), (''N'', 1), (''O'', 3)])]
       ''18:1;2/16:0''
     = Some (MolecularFormula
         (species_counts ''Cer'' [(''C'', 0), (''H'', 0), (''N'', 0), (''O'', 0)]
            ''18'' ''1'' (Some ''2'') ''16'' ''0''))
   \<and> species_counts ''Cer'' [(''C'', 0), (''H'', 0), (''N'', 0), (''O'', 0)]
            ''18'' ''1'' (Some ''2'') ''16'' ''0''
       = [(''C'', 34), (''H'', 67), (''N'', 1), (''O'', 3), (''P'', 0), (''S'', 0)]"
proof -
  have w: "digits ''18''" "digits ''1''" "case Some ''2'' of None \<Rightarrow> True | Some c \<Rightarrow> digits c"
    "digits ''16''" "digits ''0''"
    by (simp_all add: digits_def isdigit_def)
  have m: "lcb_token ''18'' ''1'' (Some ''2'') \<in> set [''18:1;2'']"
    "fa_token ''16'' ''0'' \<in> set [''16:0'']"
    by (simp_all add: lcb_token_def fa_token_def)
  have c: "get_lipid_composition ''Cer'' = Inr [(''C'', 0), (''H'', 0), (''N'', 0), (''O'', 0)]"
    by (simp add: get_lipid_composition_def GSL_HEADGROUP_COMPOSITIONS_def CERAMIDE_COMPOSITIONS_def)
  from species_formula_counts [OF w m generate_Cer_18_1_16_0] c
  have "map_of [(''18:1;2/16:0'', Formula [(''C'', 34), (''H'', 67), (''N'', 1), (''O'', 3)])]
       (lcb_token ''18'' ''1'' (Some ''2'') @ ''/'' @ fa_token ''16'' ''0'')
     = Some (MolecularFormula
         (species_counts ''Cer'' [(''C'', 0), (''H'', 0), (''N'', 0), (''O'', 0)]
            ''18'' ''1'' (Some ''2'') ''16'' ''0''))"
    by auto
  then show ?thesis
    by (simp add: lcb_token_def fa_token_def species_counts_def lcb_comp_def fa_comp_def
        nat_of_digits_def digit_value_def dict_get_def Let_def)
qed

theorem species_formula_counts_counterexample:
  "generate_lipid_formulas DEFAULT_CONFIG ''Cer'' (Some [''1:5;2'']) (Some [''1:5''])
     = Inr [(''1:5;2/1:5'', Formula [(''C'', 2), (''N'', 1), (''O'', 3)])]
   \<and> species_counts ''Cer'' [(''C'', 0), (''H'', 0), (''N'', 0), (''O'', 0)]
         ''1'' ''5'' (Some ''2'') ''1'' ''5''
       = [(''C'', 2), (''H'', - 15), (''N'', 1), (''O'', 3), (''P'', 0), (''S'', 0)]
   \<and> map_of (elements (Formula [(''C'', 2), (''N'', 1), (''O'', 3)])) ''H'' = None"
  by (simp add: generate_lipid_formulas_def selection_def parse_lcb_def parse_fa_def string_eval
      bindE_def get_lipid_composition_def GSL_HEADGROUP_COMPOSITIONS_def
      CERAMIDE_COMPOSITIONS_def final_formula_def dict_item_def dict_get_def
      ceramide_backbone_def species_name_def MolecularFormula_def
      species_counts_def lcb_comp_def fa_comp_def)

section \<open>Names of the fragments\<close>

lemma not_in_no_bracket: "CHR ''['' \<notin> set s \<Longrightarrow> \<not> str_in (CHR ''['' # p) s"
  by (induction s) auto

lemma table_name_not_precursor: "table_name n \<Longrightarrow> n \<noteq> ''precursor''"
  by (auto simp: table_name_def)

lemma table_name_no_Z2: "table_name n \<Longrightarrow> \<not> str_in ''[Z=2]'' n"
  using not_in_no_bracket by (simp add: table_name_def)

lemma Inr_bindE_iff: "Inr y = bindE m f \<longleftrightarrow> (\<exists>x. m = Inr x \<and> f x = Inr y)"
  by (cases m) (auto simp: bindE_def)

lemma traverse_Inr_set:
  "traverse f xs = Inr ys \<Longrightarrow> y \<in> set ys \<Longrightarrow> \<exists>x\<in>set xs. f x = Inr y"
  by (induction xs arbitrary: ys) (auto split: sum.splits)

lemma hg_loss_fragments_map_names:
  "hg_loss_fragments T f = Inr l \<Longrightarrow> map frag_name l = map fst T"
proof (induction T arbitrary: l)
  case Nil
  then show ?case by (simp add: hg_loss_fragments_def)
next
  case (Cons x T)
  obtain n ld where x: "x = (n, ld)" by (cases x)
  from Cons.prems obtain m l' where
    "l = Frag3 n (formula_str (loss_formula f ld)) m # l'" "hg_loss_fragments T f = Inr l'"
    unfolding hg_loss_fragments_def x
    by (auto simp: Let_def bindE_def split: sum.splits)
  with Cons.IH [of l'] show ?case by (simp add: x)
qed

lemma hg_loss_fragments_table_names:
  assumes "list_all table_name (map fst T)" "hg_loss_fragments T f = Inr l"
  shows "list_all (\<lambda>frag. table_name (frag_name frag)) l"
proof -
  have "list_all table_name (map frag_name l)"
    using assms by (simp add: hg_loss_fragments_map_names)
  then show ?thesis by (simp add: list_all_iff)
qed

lemma loss_table_names:
  "list_all table_name (map fst HEX_HEADGROUP_LOSSES)"
  "list_all table_name (map fst LAC_HEADGROUP_LOSSES)"
  "list_all table_name (map fst GB3_HEADGROUP_LOSSES)"
  "list_all table_name (map fst GB4_HEADGROUP_LOSSES)"
  "list_all table_name (map fst GA1_HEADGROUP_LOSSES)"
  "list_all table_name (map fst GA2_HEADGROUP_LOSSES)"
  "list_all table_name (map fst LC3_HEADGROUP_LOSSES)"
  "list_all table_name (map fst LC4_HEADGROUP_LOSSES)"
  "list_all table_name (map fst SM4_HEADGROUP_LOSSES)"
  "list_all table_name (map fst SHEX2_HEADGROUP_LOSSES)"
  "list_all table_name (map fst GM4_HEADGROUP_LOSSES)"
  "list_all table_name (map fst GM3_HEADGROUP_LOSSES)"
  "list_all table_name (map fst GM2_HEADGROUP_LOSSES)"
  "list_all table_name (map fst GM1_HEADGROUP_LOSSES)"
  "list_all table_name (map fst GD3_HEADGROUP_LOSSES)"
  "list_all table_name (map fst GD2_HEADGROUP_LOSSES)"
  "list_all table_name (map fst GD1_HEADGROUP_LOSSES)"
  "list_all table_name (map fst GT1A_HEADGROUP_LOSSES)"
  "list_all table_name (map fst GT1B_HEADGROUP_LOSSES)"
  "list_all table_name (map fst GT1C_HEADGROUP_LOSSES)"
  "list_all table_name (map fst GT2_HEADGROUP_LOSSES)"
  "list_all table_name (map fst GT3_HEADGROUP_LOSSES)"
  "list_all table_name (map fst GQ1_HEADGROUP_LOSSES)"
  "list_all table_name (map fst GP1_HEADGROUP_LOSSES)"
  "list_all table_name (map fst NLC10_HEADGROUP_LOSSES)"
  "list_all table_name (map fst NLC8_HEADGROUP_LOSSES)"
  "list_all table_name (map fst NLC6_HEADGROUP_LOSSES)"
  by (simp_all add: table_name_def HEX_HEADGROUP_LOSSES_def LAC_HEADGROUP_LOSSES_def
      GB3_HEADGROUP_LOSSES_def GB4_HEADGROUP_LOSSES_def GA1_HEADGROUP_LOSSES_def
      GA2_HEADGROUP_LOSSES_def LC3_HEADGROUP_LOSSES_def LC4_HEADGROUP_LOSSES_def
      SM4_HEADGROUP_LOSSES_def SHEX2_HEADGROUP_LOSSES_def GM4_HEADGROUP_LOSSES_def
      GM3_HEADGROUP_LOSSES_def GM2_HEADGROUP_LOSSES_def GM1_HEADGROUP_LOSSES_def
      GD3_HEADGROUP_LOSSES_def GD2_HEADGROUP_LOSSES_def GD1_HEADGROUP_LOSSES_def
      GT1A_HEADGROUP_LOSSES_def GT1B_HEADGROUP_LOSSES_def GT1C_HEADGROUP_LOSSES_def
      GT2_HEADGROUP_LOSSES_def GT3_HEADGROUP_LOSSES_def GQ1_HEADGROUP_LOSSES_def
      GP1_HEADGROUP_LOSSES_def NLC10_HEADGROUP_LOSSES_def NLC8_HEADGROUP_LOSSES_def
      NLC6_HEADGROUP_LOSSES_def)

lemma loss_tables_names: "\<forall>T\<in>set HEADGROUP_LOSS_TABLES. list_all table_name (map fst T)"
  by (simp add: HEADGROUP_LOSS_TABLES_def loss_table_names)

lemma positive_chain1_names: "list_all (\<lambda>frag. table_name (frag_name frag)) (positive_chain1 c)"
  by (simp add: positive_chain1_def table_name_def)

lemma positive_chain2_names: "list_all (\<lambda>frag. table_name (frag_name frag)) (positive_chain2 c)"
  by (simp add: positive_chain2_def table_name_def)

lemma positive_names:
  "list_all (\<lambda>frag. table_name (frag_name frag)) (get_headgroup_fragments_positive c)"
  by (simp add: get_headgroup_fragments_positive_def positive_chain1_names positive_chain2_names)

lemmas loss_defs = get_hex_hg_loss_fragments_def get_lac_hg_loss_fragments_def
  get_gb3_hg_loss_fragments_def get_gb4_hg_loss_fragments_def get_ga1_hg_loss_fragments_def
  get_ga2_hg_loss_fragments_def get_lc3_hg_loss_fragments_def get_lc4_hg_loss_fragments_def
  get_sm4_hg_loss_fragments_def get_shex2_hg_loss_fragments_def get_gm4_hg_loss_fragments_def
  get_gm3_hg_loss_fragments_def get_gm2_hg_loss_fragments_def get_gm1_hg_loss_fragments_def
  get_gd3_hg_loss_fragments_def get_gd2_hg_loss_fragments_def get_gd1_hg_loss_fragments_def
  get_gt1a_hg_loss_fragments_def get_gt1b_hg_loss_fragments_def get_gt1c_hg_loss_fragments_def
  get_gt2_hg_loss_fragments_def get_gt3_hg_loss_fragments_def get_gq1_hg_loss_fragments_def
  get_gp1_hg_loss_fragments_def get_nlc10_hg_loss_fragments_def get_nlc8_hg_loss_fragments_def
  get_nlc6_hg_loss_fragments_def

lemma hg_loss_fragments_Nil: "hg_loss_fragments [] f = Inr []"
  by (simp add: hg_loss_fragments_def)

lemma get_headgroup_fragments_table:
  "\<exists>T\<in>set HEADGROUP_LOSS_TABLES.
     get_headgroup_fragments c f = with_positive c (hg_loss_fragments T f)"
  unfolding get_headgroup_fragments_def loss_defs HEADGROUP_LOSS_TABLES_def
  by (simp add: hg_loss_fragments_Nil with_positive_def bindE_simps)

lemma get_headgroup_fragments_names:
  assumes "get_headgroup_fragments c f = Inr hg"
  shows "list_all (\<lambda>frag. table_name (frag_name frag)) hg"
proof -
  from get_headgroup_fragments_table [of c f] assms obtain T l where
    T: "T \<in> set HEADGROUP_LOSS_TABLES" and l: "hg_loss_fragments T f = Inr l"
    and hg: "hg = l @ get_headgroup_fragments_positive c"
    by (auto simp: with_positive_def bindE_Inr_iff Inr_bindE_iff)
  have "list_all (\<lambda>frag. table_name (frag_name frag)) l"
    using hg_loss_fragments_table_names [OF _ l] loss_tables_names T by blast
  then show ?thesis
    by (simp add: hg positive_names)
qed

lemma sialo_diagnostic_names:
  "list_all (\<lambda>frag. table_name (frag_name frag)) (sialo_diagnostic c)"
  by (simp add: sialo_diagnostic_def table_name_def)

lemma sialo_losses_table:
  "\<exists>T\<in>set HEADGROUP_LOSS_TABLES. sialo_losses c f = hg_loss_fragments T f"
  unfolding sialo_losses_def loss_defs HEADGROUP_LOSS_TABLES_def
  by (simp add: hg_loss_fragments_Nil)

lemma with_losses_table:
  assumes "list_all N D" "T \<in> set HEADGROUP_LOSS_TABLES" "L f = hg_loss_fragments T f"
  shows "\<exists>D'. list_all N D'
     \<and> (\<exists>T'\<in>set HEADGROUP_LOSS_TABLES.
           with_losses D (Some f) L = bindE (hg_loss_fragments T' f) (\<lambda>l. Inr (D' @ l)))"
  using assms by (auto simp: with_losses_def)

lemma nlc_losses_table:
  "\<exists>T\<in>set HEADGROUP_LOSS_TABLES.
        (if c = ''nLc10'' then get_nlc10_hg_loss_fragments
         else if c = ''nLc8'' then get_nlc8_hg_loss_fragments
         else if c = ''nLc6'' then get_nlc6_hg_loss_fragments
         else (\<lambda>f. Inr [])) f = hg_loss_fragments T f"
  unfolding loss_defs HEADGROUP_LOSS_TABLES_def by (simp add: hg_loss_fragments_Nil)

lemma get_headgroup_fragments_negative_table:
  "\<exists>D. \<exists>T\<in>set HEADGROUP_LOSS_TABLES.
     list_all (\<lambda>frag. table_name (frag_name frag)) D
     \<and> get_headgroup_fragments_negative c (Some f)
         = bindE (hg_loss_fragments T f) (\<lambda>l. Inr (D @ l))"
proof -
  consider (sm4) "c = ''SM4''" | (shex2) "c \<noteq> ''SM4''" "c = ''SHex2''"
    | (sialo) "c \<noteq> ''SM4''" "c \<noteq> ''SHex2''"
        "c \<in> set [''GM4'', ''GM3'', ''GM2'', ''GM1'', ''GD3'', ''GD2'', ''GD1a'',
                   ''GD1b'', ''GD1c'', ''GT3'', ''GT2'', ''GT1a'', ''GT1b'', ''GT1c'',
                   ''GQ1'', ''GP1'']"
    | (nlc) "c \<noteq> ''SM4''" "c \<noteq> ''SHex2''"
        "c \<notin> set [''GM4'', ''GM3'', ''GM2'', ''GM1'', ''GD3'', ''GD2'', ''GD1a'',
                   ''GD1b'', ''GD1c'', ''GT3'', ''GT2'', ''GT1a'', ''GT1b'', ''GT1c'',
                   ''GQ1'', ''GP1'']"
        "c \<in> set [''nLc10'', ''nLc8'', ''nLc6'']"
    | (other) "c \<noteq> ''SM4''" "c \<noteq> ''SHex2''"
        "c \<notin> set [''GM4'', ''GM3'', ''GM2'', ''GM1'', ''GD3'', ''GD2'', ''GD1a'',
                   ''GD1b'', ''GD1c'', ''GT3'', ''GT2'', ''GT1a'', ''GT1b'', ''GT1c'',
                   ''GQ1'', ''GP1'']"
        "c \<notin> set [''nLc10'', ''nLc8'', ''nLc6'']"
    by blast
  then show ?thesis
  proof cases
    case sm4
    show ?thesis
      apply (simp add: get_headgroup_fragments_negative_def sm4)
      apply (rule with_losses_table [where T = SM4_HEADGROUP_LOSSES])
        apply (simp_all add: table_name_def HEADGROUP_LOSS_TABLES_def get_sm4_hg_loss_fragments_def)
      done
  next
    case shex2
    show ?thesis
      apply (simp add: get_headgroup_fragments_negative_def shex2(2))
      apply (rule with_losses_table [where T = SHEX2_HEADGROUP_LOSSES])
        apply (simp_all add: table_name_def HEADGROUP_LOSS_TABLES_def get_shex2_hg_loss_fragments_def)
      done
  next
    case sialo
    from sialo_losses_table [of c f] obtain T where
      T: "T \<in> set HEADGROUP_LOSS_TABLES" "sialo_losses c f = hg_loss_fragments T f" by blast
    have "get_headgroup_fragments_negative c (Some f)
        = with_losses (sialo_diagnostic c) (Some f) (sialo_losses c)"
      using sialo by (simp add: get_headgroup_fragments_negative_def)
    then show ?thesis
      using with_losses_table [where L = "sialo_losses c" and f = f and D = "sialo_diagnostic c"
          and N = "\<lambda>frag. table_name (frag_name frag)" and T = T, OF sialo_diagnostic_names T]
      by simp
  next
    case nlc
    from nlc_losses_table [of c f] obtain T where T: "T \<in> set HEADGROUP_LOSS_TABLES"
      "(if c = ''nLc10'' then get_nlc10_hg_loss_fragments
         else if c = ''nLc8'' then get_nlc8_hg_loss_fragments
         else if c = ''nLc6'' then get_nlc6_hg_loss_fragments
         else (\<lambda>f. Inr [])) f = hg_loss_fragments T f" by blast
    have i: "(c = ''SM4'') = False" "(c = ''SHex2'') = False"
      "(c \<in> set [''GM4'', ''GM3'', ''GM2'', ''GM1'', ''GD3'', ''GD2'', ''GD1a'',
                   ''GD1b'', ''GD1c'', ''GT3'', ''GT2'', ''GT1a'', ''GT1b'', ''GT1c'',
                   ''GQ1'', ''GP1'']) = False"
      "(c \<in> set [''nLc10'', ''nLc8'', ''nLc6'']) = True"
      using nlc by simp_all
    show ?thesis
      apply (simp add: get_headgroup_fragments_negative_def i del: set_simps split del: if_split)
      apply (rule with_losses_table [where T = T])
        apply (simp add: table_name_def)
       apply (rule T(1))
      apply (rule T(2))
      done
  next
    case other
    have "get_headgroup_fragments_negative c (Some f)
        = bindE (hg_loss_fragments [] f) (\<lambda>l. Inr ([] @ l))"
      using other by (simp add: get_headgroup_fragments_negative_def hg_loss_fragments_Nil bindE_simps)
    moreover have "[] \<in> set HEADGROUP_LOSS_TABLES" by (simp add: HEADGROUP_LOSS_TABLES_def)
    moreover have "list_all (\<lambda>frag. table_name (frag_name frag)) []" by simp
    ultimately show ?thesis by blast
  qed
qed

lemma get_headgroup_fragments_negative_names:
  assumes "get_headgroup_fragments_negative c (Some f) = Inr hg"
  shows "list_all (\<lambda>frag. table_name (frag_name frag)) hg"
proof -
  from get_headgroup_fragments_negative_table [of c f] assms obtain D T l where
    D: "list_all (\<lambda>frag. table_name (frag_name frag)) D"
    and T: "T \<in> set HEADGROUP_LOSS_TABLES" and l: "hg_loss_fragments T f = Inr l"
    and hg: "hg = D @ l"
    by (auto simp: bindE_Inr_iff Inr_bindE_iff)
  have "list_all (\<lambda>frag. table_name (frag_name frag)) l"
    using hg_loss_fragments_table_names [OF _ l] loss_tables_names T by blast
  then show ?thesis by (simp add: hg D)
qed

lemma lcb_table_names:
  "\<forall>(k, frs) \<in> set LCB_FRAGMENTS_NEGATIVE. list_all (\<lambda>frag. table_name (frag_name frag)) frs"
  "\<forall>(k, frs) \<in> set DOXCER_LCB_FRAGMENTS. list_all (\<lambda>frag. table_name (frag_name frag)) frs"
  "\<forall>(k, frs) \<in> set STANDARD_LCB_FRAGMENTS. list_all (\<lambda>frag. table_name (frag_name frag)) frs"
  by (simp_all add: LCB_FRAGMENTS_NEGATIVE_def DOXCER_LCB_FRAGMENTS_def
      STANDARD_LCB_FRAGMENTS_def table_name_def)

lemma map_of_table_names:
  assumes "\<forall>(k, frs) \<in> set tab. list_all P frs"
  shows "list_all P (case map_of tab k of Some frs \<Rightarrow> frs | None \<Rightarrow> [])"
proof (cases "map_of tab k")
  case None
  then show ?thesis by simp
next
  case (Some frs)
  then have "(k, frs) \<in> set tab" by (rule map_of_SomeD)
  with assms Some show ?thesis by auto
qed

lemma get_lcb_fragments_negative_names:
  "list_all (\<lambda>frag. table_name (frag_name frag)) (get_lcb_fragments_negative t)"
  unfolding get_lcb_fragments_negative_def
  by (rule map_of_table_names) (rule lcb_table_names)

lemma get_ceramide_fragments_names:
  "list_all (\<lambda>frag. table_name (frag_name frag)) (get_ceramide_fragments t b)"
  unfolding get_ceramide_fragments_def
  by (rule map_of_table_names) (simp add: lcb_table_names)

lemma positive_lcb_fragments_names:
  "list_all (\<lambda>frag. table_name (frag_name frag)) (positive_lcb_fragments c t a)"
  by (simp add: positive_lcb_fragments_def gsl_get_ceramide_fragments_def
      get_ceramide_fragments_names)

lemma get_fa_fragments_negative_names:
  "frag \<in> set (get_fa_fragments_negative t) \<Longrightarrow>
     frag_name frag \<in> {''FA '' @ t @ ''+(HN)'', ''FA '' @ t @ ''+(C2H3N)'', ''FA '' @ t @ ''+(C2H3NO)''}"
  by (auto simp: get_fa_fragments_negative_def Let_def split: option.splits)

lemma get_fa_fragments_negative_not_precursor:
  "frag \<in> set (get_fa_fragments_negative t) \<Longrightarrow> frag_name frag \<noteq> ''precursor''"
  using get_fa_fragments_negative_names [of frag t] by auto

lemma get_fa_fragments_negative_table_name:
  "CHR ''['' \<notin> set t \<Longrightarrow> frag \<in> set (get_fa_fragments_negative t) \<Longrightarrow> table_name (frag_name frag)"
  using get_fa_fragments_negative_names [of frag t] by (auto simp: table_name_def)

section \<open>The species handed to the transition generator\<close>

lemma formulas_loop_values:
  "formulas_loop hg pairs acc = Inr res \<Longrightarrow> (sp, f) \<in> set res \<Longrightarrow>
     (sp, f) \<in> set acc
     \<or> (\<exists>ln lc fn fc ff. ((ln, lc), (fn, fc)) \<in> set pairs \<and> sp = species_name ln fn
          \<and> final_formula hg (ceramide_backbone lc fc) = Inr ff \<and> f = MolecularFormula ff)"
proof (induction pairs arbitrary: acc)
  case Nil
  then show ?case by simp
next
  case (Cons p pairs)
  obtain ln lc fn fc where p: "p = ((ln, lc), (fn, fc))" by (metis prod.collapse)
  from Cons.prems(1) obtain ff where
    ff: "final_formula hg (ceramide_backbone lc fc) = Inr ff"
    and l: "formulas_loop hg pairs (dict_set acc (species_name ln fn) (MolecularFormula ff)) = Inr res"
    by (auto simp: p split: sum.splits)
  from Cons.IH [OF l Cons.prems(2)]
  have "(sp, f) \<in> set (dict_set acc (species_name ln fn) (MolecularFormula ff))
     \<or> (\<exists>ln lc fn fc ff. ((ln, lc), (fn, fc)) \<in> set pairs \<and> sp = species_name ln fn
          \<and> final_formula hg (ceramide_backbone lc fc) = Inr ff \<and> f = MolecularFormula ff)" .
  then show ?case
  proof
    assume "(sp, f) \<in> set (dict_set acc (species_name ln fn) (MolecularFormula ff))"
    then have "(sp, f) = (species_name ln fn, MolecularFormula ff) \<or> (sp, f) \<in> set acc"
      by (rule dict_set_cases)
    then show ?thesis
    proof
      assume "(sp, f) = (species_name ln fn, MolecularFormula ff)"
      then have "((ln, lc), (fn, fc)) \<in> set (p # pairs) \<and> sp = species_name ln fn
          \<and> final_formula hg (ceramide_backbone lc fc) = Inr ff \<and> f = MolecularFormula ff"
        using ff p by simp
      then show ?thesis by blast
    next
      assume "(sp, f) \<in> set acc"
      then show ?thesis by blast
    qed
  next
    assume "\<exists>ln lc fn fc ff. ((ln, lc), (fn, fc)) \<in> set pairs \<and> sp = species_name ln fn
          \<and> final_formula hg (ceramide_backbone lc fc) = Inr ff \<and> f = MolecularFormula ff"
    then obtain ln' lc' fn' fc' ff' where
      "((ln', lc'), (fn', fc')) \<in> set pairs" "sp = species_name ln' fn'"
      "final_formula hg (ceramide_backbone lc' fc') = Inr ff'" "f = MolecularFormula ff'"
      by blast
    then have "((ln', lc'), (fn', fc')) \<in> set (p # pairs) \<and> sp = species_name ln' fn'
          \<and> final_formula hg (ceramide_backbone lc' fc') = Inr ff' \<and> f = MolecularFormula ff'"
      by simp
    then show ?thesis by blast
  qed
qed

lemma final_formula_keys:
  "final_formula hg bb = Inr ff \<Longrightarrow> map fst ff = [''C'', ''H'', ''N'', ''O'', ''P'', ''S'']"
  by (auto simp: final_formula_def bindE_Inr_iff)

lemma mass_of_known_elements:
  assumes "fst ` set (elements f) \<subseteq> set [''C'', ''H'', ''N'', ''O'', ''P'', ''S'']"
  shows "mass f = Inr (neutral_mass f)"
proof -
  have "set [''C'', ''H'', ''N'', ''O'', ''P'', ''S''] = fst ` set ATOMIC_MASSES"
    by (simp add: ATOMIC_MASSES_def)
  with assms have "\<forall>k\<in>fst ` set (elements f). k \<in> fst ` set ATOMIC_MASSES" by blast
  then show ?thesis
    using mass_sum_known [of "elements f"] by (simp add: mass_def neutral_mass_def)
qed

lemma MolecularFormula_keys: "fst ` set (elements (MolecularFormula d)) \<subseteq> set (map fst d)"
  by (auto simp: MolecularFormula_def)

lemma species_enumerated:
  assumes "generate_lipid_formulas cfg c lcbs fas = Inr formulas" "(sp, f) \<in> set formulas"
  shows "mass f = Inr (neutral_mass f)
     \<and> (\<exists>ln fn. sp = species_name ln fn
          \<and> ln \<in> set (selection (get_lcb_list cfg c) lcbs)
          \<and> fn \<in> set (selection (get_fatty_acid_list cfg) fas))"
proof -
  from assms(1) obtain lv fv hg where
    lv: "chain_loop (parse_lcb c) (selection (get_lcb_list cfg c) lcbs) [] = Inr lv"
    and fv: "chain_loop parse_fa (selection (get_fatty_acid_list cfg) fas) [] = Inr fv"
    and fl: "formulas_loop hg (List.product lv fv) [] = Inr formulas"
    by (auto simp: generate_lipid_formulas_def bindE_Inr_iff)
  from formulas_loop_values [OF fl assms(2)] obtain ln lc fn fc ff where
    p: "((ln, lc), (fn, fc)) \<in> set (List.product lv fv)" and sp: "sp = species_name ln fn"
    and ff: "final_formula hg (ceramide_backbone lc fc) = Inr ff" and f: "f = MolecularFormula ff"
    by auto
  have "fst ` set (elements f) \<subseteq> set [''C'', ''H'', ''N'', ''O'', ''P'', ''S'']"
    using MolecularFormula_keys [of ff] final_formula_keys [OF ff] by (simp add: f)
  then have m: "mass f = Inr (neutral_mass f)" by (rule mass_of_known_elements)
  from p have "(ln, lc) \<in> set lv" "(fn, fc) \<in> set fv" by simp_all
  then have "ln \<in> set (selection (get_lcb_list cfg c) lcbs)"
    "fn \<in> set (selection (get_fatty_acid_list cfg) fas)"
    using chain_loop_sound [OF lv] chain_loop_sound [OF fv] by auto
  with m sp show ?thesis by blast
qed

section \<open>The rows of one species and one adduct\<close>

lemma row_fields:
  "Molecule_List_Name (row c pn ft a pmz n fo ad mz ch) = c"
  "Molecule (row c pn ft a pmz n fo ad mz ch) = pn"
  "Molecule_Formula (row c pn ft a pmz n fo ad mz ch) = ft"
  "Precursor_Adduct (row c pn ft a pmz n fo ad mz ch) = name a"
  "Precursor_mz (row c pn ft a pmz n fo ad mz ch) = Num (round4 pmz)"
  "Precursor_Charge (row c pn ft a pmz n fo ad mz ch) = charge a"
  "Product_Name (row c pn ft a pmz n fo ad mz ch) = n"
  "Product_Formula (row c pn ft a pmz n fo ad mz ch) = fo"
  "Product_Adduct (row c pn ft a pmz n fo ad mz ch) = ad"
  "Product_mz (row c pn ft a pmz n fo ad mz ch) = Num (round4 mz)"
  "Product_Charge (row c pn ft a pmz n fo ad mz ch) = ch"
  by (simp_all add: row_def)

lemma py_div_Inr: "py_div x y = Inr z \<longleftrightarrow> y \<noteq> 0 \<and> z = x / y"
  by (auto simp: py_div_def)

lemma str_in_append_right: "str_in p s \<Longrightarrow> str_in p (x @ s)"
  by (induction x) auto

lemma startswith_append: "startswith (p @ s) p"
  by (induction p) auto

lemma str_in_suffix: "str_in p (x @ p)"
proof -
  have "str_in p p" using startswith_append [of p "[]"] by (cases p) auto
  then show ?thesis by (rule str_in_append_right)
qed

lemma table_name_Z2_not_precursor: "table_name n \<Longrightarrow> n @ '' [Z=2]'' \<noteq> ''precursor''"
  by (cases n) (auto simp: table_name_def)

text \<open>The names of the rows the negative branch appends.\<close>

lemma negative_rows_names:
  assumes hg: "list_all (\<lambda>frag. table_name (frag_name frag)) hg"
    and r: "r \<in> set (negative_rows c sp a (row c pn ft a pmz) hg)"
  shows "Product_Name r \<noteq> ''precursor''"
proof -
  let ?mk = "row c pn ft a pmz"
  have z: "\<And>frag mz. frag \<in> set hg \<Longrightarrow> Product_Name (z2_row ?mk frag mz) \<noteq> ''precursor''"
    using hg table_name_Z2_not_precursor by (auto simp: z2_row_def row_fields list_all_iff)
  from r consider
      (h) frag where "frag \<in> set hg" "Product_Name r = frag_name frag"
    | (z2) frag mz where "frag \<in> set hg" "r = z2_row ?mk frag mz"
    | (lcb) frag where "frag \<in> set (get_lcb_fragments_negative (hd (py_split CHR ''/'' sp)))"
        "Product_Name r = frag_name frag"
    | (fa) frag where "frag \<in> set (get_fa_fragments_negative (py_split CHR ''/'' sp ! 1))"
        "Product_Name r = frag_name frag"
    by (auto simp: negative_rows_def Let_def row_fields gt1_doubly_charged_def
        gp1_doubly_charged_def nlc_doubly_charged_def split: if_splits)
  then show ?thesis
  proof cases
    case h
    with hg show ?thesis by (auto simp: list_all_iff dest: table_name_not_precursor)
  next
    case z2
    with z show ?thesis by blast
  next
    case lcb
    with get_lcb_fragments_negative_names show ?thesis
      by (auto simp: list_all_iff dest: table_name_not_precursor)
  next
    case fa
    with get_fa_fragments_negative_not_precursor show ?thesis by auto
  qed
qed

lemma water_loss_rows_names:
  "water_loss_rows (row c pn ft a pmz) f a = Inr w \<Longrightarrow> r \<in> set w \<Longrightarrow>
     Product_Name r = ''precursor-(H2O,18)''"
  by (auto simp: water_loss_rows_def Let_def bindE_Inr_iff row_fields split: if_splits)

lemma positive_headgroup_rows_names:
  assumes "get_headgroup_fragments c f = Inr hg"
    and "traverse (\<lambda>frag. bindE (positive_hg_mz frag) (\<lambda>frag_mz.
            Inr (row c pn ft a pmz (frag_name frag) (frag_formula frag) ad frag_mz 1))) hg = Inr rs"
    and "r \<in> set rs"
  shows "table_name (Product_Name r)"
proof -
  from traverse_Inr_set [OF assms(2,3)] obtain frag where
    "frag \<in> set hg" "Product_Name r = frag_name frag"
    by (auto simp: bindE_Inr_iff row_fields)
  with get_headgroup_fragments_names [OF assms(1)] show ?thesis
    by (auto simp: list_all_iff)
qed

lemma headgroup_rows_names:
  assumes "headgroup_rows c sp f a (row c pn ft a pmz) = Inr rs" "r \<in> set rs"
  shows "Product_Name r \<noteq> ''precursor''
     \<and> (polarity a = ''positive'' \<longrightarrow> table_name (Product_Name r))"
proof (cases "polarity a = ''positive''")
  case True
  with assms obtain hg where
    "get_headgroup_fragments c f = Inr hg"
    "traverse (\<lambda>frag. bindE (positive_hg_mz frag) (\<lambda>frag_mz.
        Inr (row c pn ft a pmz (frag_name frag) (frag_formula frag)
               (if 0 < charge a then ''[M+H]1+'' else ''[M-H]1-'') frag_mz 1))) hg = Inr rs"
    by (auto simp: headgroup_rows_def bindE_Inr_iff split: if_splits)
  from positive_headgroup_rows_names [OF this assms(2)]
  show ?thesis using table_name_not_precursor by blast
next
  case False
  with assms obtain hg where
    "get_headgroup_fragments_negative c (Some f) = Inr hg"
    "rs = negative_rows c sp a (row c pn ft a pmz) hg"
    by (auto simp: headgroup_rows_def bindE_Inr_iff split: if_splits)
  with negative_rows_names [OF get_headgroup_fragments_negative_names] assms(2) False
  show ?thesis by blast
qed

text \<open>The shape of the rows of one species and one adduct: the precursor row first, then
  rows of other names, each with the precursor fields of the adduct.\<close>

lemma adduct_transitions_shape:
  assumes "adduct_transitions c sp f m a = Inr rs"
  shows "charge a \<noteq> 0
     \<and> (\<exists>rest. rs = row c (precursor_name c sp) (formula_str f) a
                      ((m + mass_delta a) / of_int \<bar>charge a\<bar>)
                      ''precursor'' (formula_str f) (name a)
                      ((m + mass_delta a) / of_int \<bar>charge a\<bar>) (charge a) # rest
          \<and> (\<forall>r\<in>set rest. Product_Name r \<noteq> ''precursor'')
          \<and> (polarity a = ''positive'' \<longrightarrow> (\<forall>r\<in>set rest. \<not> str_in ''[Z=2]'' (Product_Name r))))"
proof -
  let ?pmz = "(m + mass_delta a) / of_int \<bar>charge a\<bar>"
  let ?mk = "row c (precursor_name c sp) (formula_str f) a ?pmz"
  from assms obtain w hgr where
    ch: "charge a \<noteq> 0"
    and w: "water_loss_rows ?mk f a = Inr w"
    and h: "headgroup_rows c sp f a ?mk = Inr hgr"
    and rs: "rs = ?mk ''precursor'' (formula_str f) (name a) ?pmz (charge a) # w
        @ map (\<lambda>frag. ?mk (frag_name frag) (frag_formula frag)
                 (if 0 < charge a then ''[M+H]1+'' else ''[M-H]1-'')
                 (frag_mass frag) (if 0 < charge a then 1 else - 1))
            (positive_lcb_fragments c (hd (py_split CHR ''/'' sp)) a)
        @ hgr"
    by (auto simp: adduct_transitions_def bindE_Inr_iff py_div_Inr Let_def)
  let ?l = "map (\<lambda>frag. ?mk (frag_name frag) (frag_formula frag)
                 (if 0 < charge a then ''[M+H]1+'' else ''[M-H]1-'')
                 (frag_mass frag) (if 0 < charge a then 1 else - 1))
            (positive_lcb_fragments c (hd (py_split CHR ''/'' sp)) a)"
  have lt: "\<forall>r\<in>set ?l. table_name (Product_Name r)"
    using positive_lcb_fragments_names [of c "hd (py_split CHR ''/'' sp)" a]
    by (auto simp: list_all_iff row_fields)
  have wn: "\<forall>r\<in>set w. Product_Name r = ''precursor-(H2O,18)''"
    using water_loss_rows_names [OF w] by blast
  have hn: "\<forall>r\<in>set hgr. Product_Name r \<noteq> ''precursor''
     \<and> (polarity a = ''positive'' \<longrightarrow> table_name (Product_Name r))"
    using headgroup_rows_names [OF h] by blast
  have 1: "\<forall>r\<in>set (w @ ?l @ hgr). Product_Name r \<noteq> ''precursor''"
    using lt wn hn table_name_not_precursor by auto
  have 2: "polarity a = ''positive'' \<longrightarrow> (\<forall>r\<in>set (w @ ?l @ hgr). \<not> str_in ''[Z=2]'' (Product_Name r))"
    using lt wn hn table_name_no_Z2 by auto
  show ?thesis
    using ch rs 1 2 by blast
qed

section \<open>The rows of a whole run\<close>

lemma traverse_concat_map:
  assumes "traverse F xs = Inr ys" "\<And>x y. x \<in> set xs \<Longrightarrow> F x = Inr y \<Longrightarrow> G y = H x"
  shows "concat (map G ys) = concat (map H xs)"
  using assms
proof (induction xs arbitrary: ys)
  case Nil
  then show ?case by simp
next
  case (Cons x xs)
  from Cons.prems(1) obtain y ys' where
    y: "F x = Inr y" and t: "traverse F xs = Inr ys'" and ys: "ys = y # ys'"
    by (auto split: sum.splits)
  have "G y = H x" using Cons.prems(2) y by simp
  moreover have "concat (map G ys') = concat (map H xs)"
    using Cons.IH [OF t] Cons.prems(2) by simp
  ultimately show ?case by (simp add: ys)
qed

lemma map_filter_concat:
  "map p (filter q (concat xss)) = concat (map (\<lambda>xs. map p (filter q xs)) xss)"
  by (induction xss) simp_all

text \<open>What a projection of the selected rows of every species and adduct is, it is of the
  whole result, in the order of the two loops.\<close>

lemma generate_transitions_collect:
  assumes F: "generate_lipid_formulas cfg c lcbs fas = Inr formulas"
    and R: "generate_transitions cfg c cs ads lcbs fas = Inr rows"
    and H: "\<And>sp f a rs. (sp, f) \<in> set formulas \<Longrightarrow> a \<in> set (get_adduct_definitions cs ads) \<Longrightarrow>
              adduct_transitions c sp f (neutral_mass f) a = Inr rs \<Longrightarrow>
              map p (filter q rs) = H sp f a"
  shows "map p (filter q rows)
     = concat (map (\<lambda>(sp, f). concat (map (H sp f) (get_adduct_definitions cs ads))) formulas)"
proof -
  let ?A = "get_adduct_definitions cs ads"
  from R F obtain rss where
    t: "traverse (species_transitions c ?A) formulas = Inr rss" and rows: "rows = concat rss"
    by (auto simp: generate_transitions_def bindE_Inr_iff)
  have "concat (map (\<lambda>rs. map p (filter q rs)) rss)
      = concat (map (\<lambda>(sp, f). concat (map (H sp f) ?A)) formulas)"
  proof (rule traverse_concat_map [OF t])
    fix x y
    assume x: "x \<in> set formulas" and y: "species_transitions c ?A x = Inr y"
    obtain sp f where xf: "x = (sp, f)" by (cases x)
    from species_enumerated [OF F] x xf have m: "mass f = Inr (neutral_mass f)" by blast
    from y obtain rs2 where
      t2: "traverse (adduct_transitions c sp f (neutral_mass f)) ?A = Inr rs2"
      and y2: "y = concat rs2"
      by (auto simp: species_transitions_def xf m bindE_simps bindE_Inr_iff)
    have "concat (map (\<lambda>rs. map p (filter q rs)) rs2) = concat (map (H sp f) ?A)"
    proof (rule traverse_concat_map [OF t2])
      fix a rs
      assume "a \<in> set ?A" "adduct_transitions c sp f (neutral_mass f) a = Inr rs"
      then show "map p (filter q rs) = H sp f a" using H x xf by blast
    qed
    then show "map p (filter q y) = (case x of (sp, f) \<Rightarrow> concat (map (H sp f) ?A))"
      by (simp add: xf y2 map_filter_concat)
  qed
  then show ?thesis by (simp add: rows map_filter_concat)
qed

text \<open>Every row of the result was appended for one species and under one adduct.\<close>

lemma generate_transitions_origin:
  assumes R: "generate_transitions cfg c cs ads lcbs fas = Inr rows" and r: "r \<in> set rows"
  shows "\<exists>formulas sp f a rs. generate_lipid_formulas cfg c lcbs fas = Inr formulas
     \<and> (sp, f) \<in> set formulas \<and> a \<in> set (get_adduct_definitions cs ads)
     \<and> adduct_transitions c sp f (neutral_mass f) a = Inr rs \<and> r \<in> set rs"
proof -
  let ?A = "get_adduct_definitions cs ads"
  from R obtain formulas rss where
    F: "generate_lipid_formulas cfg c lcbs fas = Inr formulas"
    and t: "traverse (species_transitions c ?A) formulas = Inr rss" and rows: "rows = concat rss"
    by (auto simp: generate_transitions_def bindE_Inr_iff)
  from r rows obtain y where y: "y \<in> set rss" and ry: "r \<in> set y" by auto
  from traverse_Inr_set [OF t y] obtain x where
    x: "x \<in> set formulas" and sx: "species_transitions c ?A x = Inr y" by blast
  obtain sp f where xf: "x = (sp, f)" by (cases x)
  from species_enumerated [OF F] x xf have m: "mass f = Inr (neutral_mass f)" by blast
  from sx obtain rs2 where
    t2: "traverse (adduct_transitions c sp f (neutral_mass f)) ?A = Inr rs2"
    and y2: "y = concat rs2"
    by (auto simp: species_transitions_def xf m bindE_simps bindE_Inr_iff)
  from ry y2 obtain rs where rs: "rs \<in> set rs2" and rrs: "r \<in> set rs" by auto
  from traverse_Inr_set [OF t2 rs] obtain a where
    "a \<in> set ?A" "adduct_transitions c sp f (neutral_mass f) a = Inr rs" by blast
  with F x xf rrs show ?thesis by blast
qed

section \<open>The adducts of the table\<close>

lemma adduct_lookup_sign:
  assumes "a \<in> set (adduct_lookup c n)"
  shows "(polarity a = ''positive'' \<and> 0 < charge a) \<or> (polarity a = ''negative'' \<and> charge a < 0)"
proof -
  from assms obtain m where m: "map_of adduct_map c = Some m" and a: "map_of m n = Some a"
    by (cases "map_of adduct_map c"; cases "map_of (the (map_of adduct_map c)) n")
      (simp_all add: adduct_lookup_def)
  from m have "(c, m) \<in> set adduct_map" by (rule map_of_SomeD)
  moreover from a have "(n, a) \<in> set m" by (rule map_of_SomeD)
  moreover have "\<forall>(c, m)\<in>set adduct_map. \<forall>(n, a)\<in>set m.
      (polarity a = ''positive'' \<and> 0 < charge a) \<or> (polarity a = ''negative'' \<and> charge a < 0)"
    by (simp add: adduct_map_def)
  ultimately show ?thesis by blast
qed

lemma get_adduct_definitions_sign:
  assumes "a \<in> set (get_adduct_definitions cs ads)"
  shows "(polarity a = ''positive'' \<and> 0 < charge a) \<or> (polarity a = ''negative'' \<and> charge a < 0)"
proof -
  from assms obtain c n where "a \<in> set (adduct_lookup c n)"
    by (auto simp: get_adduct_definitions_def canonical_adducts_def
        split: option.splits if_splits)
  then show ?thesis by (rule adduct_lookup_sign)
qed

section \<open>The transition generator returns\<close>

lemma traverse_returns:
  "(\<And>x. x \<in> set xs \<Longrightarrow> \<exists>y. f x = Inr y) \<Longrightarrow> \<exists>ys. traverse f xs = Inr ys"
proof (induction xs)
  case Nil
  then show ?case by simp
next
  case (Cons x xs)
  from Cons.prems [of x] obtain y where y: "f x = Inr y" by auto
  from Cons.IH Cons.prems obtain ys where "traverse f xs = Inr ys" by auto
  with y show ?case by simp
qed

lemma dict_set_keys: "fst ` set (dict_set d k v) \<subseteq> insert k (fst ` set d)"
proof (induction d)
  case Nil
  then show ?case by simp
next
  case (Cons p d)
  obtain k' v' where p: "p = (k', v')" by (cases p)
  from Cons.IH show ?case by (cases "k' = k") (auto simp: p)
qed

lemma subtract_loss_keys: "fst ` set (subtract_loss d ld) \<subseteq> fst ` set d \<union> fst ` set ld"
proof -
  have "fst ` set (fold (\<lambda>(elem, loss_val) e. dict_set e elem (dict_get e elem 0 - loss_val)) ld d)
      \<subseteq> fst ` set d \<union> fst ` set ld"
  proof (induction ld arbitrary: d)
    case Nil
    then show ?case by simp
  next
    case (Cons p ld)
    obtain k v where p: "p = (k, v)" by (cases p)
    have "fst ` set (dict_set d k (dict_get d k 0 - v)) \<subseteq> insert k (fst ` set d)"
      by (rule dict_set_keys)
    with Cons.IH [of "dict_set d k (dict_get d k 0 - v)"] show ?case
      by (auto simp: p)
  qed
  then show ?thesis by (simp add: subtract_loss_def)
qed

lemma loss_formula_keys:
  "fst ` set (elements (loss_formula f ld)) \<subseteq> fst ` set (elements f) \<union> fst ` set ld"
proof -
  have "fst ` set (elements (loss_formula f ld))
      \<subseteq> fst ` set (subtract_loss (elements (MolecularFormula (elements f))) ld)"
    by (auto simp: loss_formula_def Let_def MolecularFormula_def)
  also have "\<dots> \<subseteq> fst ` set (elements (MolecularFormula (elements f))) \<union> fst ` set ld"
    by (rule subtract_loss_keys)
  also have "\<dots> \<subseteq> fst ` set (elements f) \<union> fst ` set ld"
    by (auto simp: MolecularFormula_def)
  finally show ?thesis .
qed

lemma h2o_loss_formula_keys:
  "fst ` set (elements (h2o_loss_formula f)) \<subseteq> fst ` set (elements f) \<union> {''H'', ''O''}"
proof -
  let ?e0 = "elements (MolecularFormula (elements f))"
  let ?e1 = "dict_set ?e0 ''H'' (dict_get ?e0 ''H'' 0 - 2)"
  let ?e2 = "dict_set ?e1 ''O'' (dict_get ?e1 ''O'' 0 - 1)"
  have "fst ` set (elements (h2o_loss_formula f)) \<subseteq> fst ` set ?e2"
    by (auto simp: h2o_loss_formula_def Let_def MolecularFormula_def)
  also have "\<dots> \<subseteq> insert ''O'' (fst ` set ?e1)" by (rule dict_set_keys)
  also have "\<dots> \<subseteq> insert ''O'' (insert ''H'' (fst ` set ?e0))"
    using dict_set_keys [of ?e0 "''H''"] by blast
  also have "\<dots> \<subseteq> fst ` set (elements f) \<union> {''H'', ''O''}"
    by (auto simp: MolecularFormula_def)
  finally show ?thesis .
qed

text \<open>The elements of the tables of losses are elements of \<^verbatim>\<open>ATOMIC_MASSES\<close>.\<close>

lemma loss_table_keys:
  "list_all (\<lambda>(n, ld). list_all (\<lambda>(k, v). k \<in> set [''C'', ''H'', ''N'', ''O'', ''P'', ''S'']) ld)
     HEX_HEADGROUP_LOSSES"
  "list_all (\<lambda>(n, ld). list_all (\<lambda>(k, v). k \<in> set [''C'', ''H'', ''N'', ''O'', ''P'', ''S'']) ld)
     LAC_HEADGROUP_LOSSES"
  "list_all (\<lambda>(n, ld). list_all (\<lambda>(k, v). k \<in> set [''C'', ''H'', ''N'', ''O'', ''P'', ''S'']) ld)
     GB3_HEADGROUP_LOSSES"
  "list_all (\<lambda>(n, ld). list_all (\<lambda>(k, v). k \<in> set [''C'', ''H'', ''N'', ''O'', ''P'', ''S'']) ld)
     GB4_HEADGROUP_LOSSES"
  "list_all (\<lambda>(n, ld). list_all (\<lambda>(k, v). k \<in> set [''C'', ''H'', ''N'', ''O'', ''P'', ''S'']) ld)
     GA1_HEADGROUP_LOSSES"
  "list_all (\<lambda>(n, ld). list_all (\<lambda>(k, v). k \<in> set [''C'', ''H'', ''N'', ''O'', ''P'', ''S'']) ld)
     GA2_HEADGROUP_LOSSES"
  "list_all (\<lambda>(n, ld). list_all (\<lambda>(k, v). k \<in> set [''C'', ''H'', ''N'', ''O'', ''P'', ''S'']) ld)
     LC3_HEADGROUP_LOSSES"
  "list_all (\<lambda>(n, ld). list_all (\<lambda>(k, v). k \<in> set [''C'', ''H'', ''N'', ''O'', ''P'', ''S'']) ld)
     LC4_HEADGROUP_LOSSES"
  "list_all (\<lambda>(n, ld). list_all (\<lambda>(k, v). k \<in> set [''C'', ''H'', ''N'', ''O'', ''P'', ''S'']) ld)
     SM4_HEADGROUP_LOSSES"
  "list_all (\<lambda>(n, ld). list_all (\<lambda>(k, v). k \<in> set [''C'', ''H'', ''N'', ''O'', ''P'', ''S'']) ld)
     SHEX2_HEADGROUP_LOSSES"
  "list_all (\<lambda>(n, ld). list_all (\<lambda>(k, v). k \<in> set [''C'', ''H'', ''N'', ''O'', ''P'', ''S'']) ld)
     GM4_HEADGROUP_LOSSES"
  "list_all (\<lambda>(n, ld). list_all (\<lambda>(k, v). k \<in> set [''C'', ''H'', ''N'', ''O'', ''P'', ''S'']) ld)
     GM3_HEADGROUP_LOSSES"
  "list_all (\<lambda>(n, ld). list_all (\<lambda>(k, v). k \<in> set [''C'', ''H'', ''N'', ''O'', ''P'', ''S'']) ld)
     GM2_HEADGROUP_LOSSES"
  "list_all (\<lambda>(n, ld). list_all (\<lambda>(k, v). k \<in> set [''C'', ''H'', ''N'', ''O'', ''P'', ''S'']) ld)
     GM1_HEADGROUP_LOSSES"
  "list_all (\<lambda>(n, ld). list_all (\<lambda>(k, v). k \<in> set [''C'', ''H'', ''N'', ''O'', ''P'', ''S'']) ld)
     GD3_HEADGROUP_LOSSES"
  "list_all (\<lambda>(n, ld). list_all (\<lambda>(k, v). k \<in> set [''C'', ''H'', ''N'', ''O'', ''P'', ''S'']) ld)
     GD2_HEADGROUP_LOSSES"
  "list_all (\<lambda>(n, ld). list_all (\<lambda>(k, v). k \<in> set [''C'', ''H'', ''N'', ''O'', ''P'', ''S'']) ld)
     GD1_HEADGROUP_LOSSES"
  "list_all (\<lambda>(n, ld). list_all (\<lambda>(k, v). k \<in> set [''C'', ''H'', ''N'', ''O'', ''P'', ''S'']) ld)
     GT1A_HEADGROUP_LOSSES"
  "list_all (\<lambda>(n, ld). list_all (\<lambda>(k, v). k \<in> set [''C'', ''H'', ''N'', ''O'', ''P'', ''S'']) ld)
     GT1B_HEADGROUP_LOSSES"
  "list_all (\<lambda>(n, ld). list_all (\<lambda>(k, v). k \<in> set [''C'', ''H'', ''N'', ''O'', ''P'', ''S'']) ld)
     GT1C_HEADGROUP_LOSSES"
  "list_all (\<lambda>(n, ld). list_all (\<lambda>(k, v). k \<in> set [''C'', ''H'', ''N'', ''O'', ''P'', ''S'']) ld)
     GT2_HEADGROUP_LOSSES"
  "list_all (\<lambda>(n, ld). list_all (\<lambda>(k, v). k \<in> set [''C'', ''H'', ''N'', ''O'', ''P'', ''S'']) ld)
     GT3_HEADGROUP_LOSSES"
  "list_all (\<lambda>(n, ld). list_all (\<lambda>(k, v). k \<in> set [''C'', ''H'', ''N'', ''O'', ''P'', ''S'']) ld)
     GQ1_HEADGROUP_LOSSES"
  "list_all (\<lambda>(n, ld). list_all (\<lambda>(k, v). k \<in> set [''C'', ''H'', ''N'', ''O'', ''P'', ''S'']) ld)
     GP1_HEADGROUP_LOSSES"
  "list_all (\<lambda>(n, ld). list_all (\<lambda>(k, v). k \<in> set [''C'', ''H'', ''N'', ''O'', ''P'', ''S'']) ld)
     NLC10_HEADGROUP_LOSSES"
  "list_all (\<lambda>(n, ld). list_all (\<lambda>(k, v). k \<in> set [''C'', ''H'', ''N'', ''O'', ''P'', ''S'']) ld)
     NLC8_HEADGROUP_LOSSES"
  "list_all (\<lambda>(n, ld). list_all (\<lambda>(k, v). k \<in> set [''C'', ''H'', ''N'', ''O'', ''P'', ''S'']) ld)
     NLC6_HEADGROUP_LOSSES"
  by (simp_all add: HEX_HEADGROUP_LOSSES_def LAC_HEADGROUP_LOSSES_def
      GB3_HEADGROUP_LOSSES_def GB4_HEADGROUP_LOSSES_def GA1_HEADGROUP_LOSSES_def
      GA2_HEADGROUP_LOSSES_def LC3_HEADGROUP_LOSSES_def LC4_HEADGROUP_LOSSES_def
      SM4_HEADGROUP_LOSSES_def SHEX2_HEADGROUP_LOSSES_def GM4_HEADGROUP_LOSSES_def
      GM3_HEADGROUP_LOSSES_def GM2_HEADGROUP_LOSSES_def GM1_HEADGROUP_LOSSES_def
      GD3_HEADGROUP_LOSSES_def GD2_HEADGROUP_LOSSES_def GD1_HEADGROUP_LOSSES_def
      GT1A_HEADGROUP_LOSSES_def GT1B_HEADGROUP_LOSSES_def GT1C_HEADGROUP_LOSSES_def
      GT2_HEADGROUP_LOSSES_def GT3_HEADGROUP_LOSSES_def GQ1_HEADGROUP_LOSSES_def
      GP1_HEADGROUP_LOSSES_def NLC10_HEADGROUP_LOSSES_def NLC8_HEADGROUP_LOSSES_def
      NLC6_HEADGROUP_LOSSES_def)

lemma loss_tables_keys:
  "\<forall>T\<in>set HEADGROUP_LOSS_TABLES.
     list_all (\<lambda>(n, ld). list_all (\<lambda>(k, v). k \<in> set [''C'', ''H'', ''N'', ''O'', ''P'', ''S'']) ld) T"
  using loss_table_keys by (simp add: HEADGROUP_LOSS_TABLES_def)

text \<open>The loop over a table of losses returns, with tuples of three.\<close>

lemma hg_loss_fragments_returns:
  assumes f: "fst ` set (elements f) \<subseteq> set [''C'', ''H'', ''N'', ''O'', ''P'', ''S'']"
    and T: "list_all (\<lambda>(n, ld). list_all (\<lambda>(k, v). k \<in> set [''C'', ''H'', ''N'', ''O'', ''P'', ''S'']) ld) T"
  shows "\<exists>l. hg_loss_fragments T f = Inr l \<and> list_all (\<lambda>frag. positive_hg_mz frag \<noteq> Inl ValueError) l"
  using T
proof (induction T)
  case Nil
  then show ?case by (simp add: hg_loss_fragments_def)
next
  case (Cons p T)
  obtain n ld where p: "p = (n, ld)" by (cases p)
  from Cons.prems p have ld: "fst ` set ld \<subseteq> set [''C'', ''H'', ''N'', ''O'', ''P'', ''S'']"
    by (auto simp: list_all_iff)
  have "fst ` set (elements (loss_formula f ld)) \<subseteq> set [''C'', ''H'', ''N'', ''O'', ''P'', ''S'']"
    using loss_formula_keys [of f ld] f ld by blast
  then have m: "mass (loss_formula f ld) = Inr (neutral_mass (loss_formula f ld))"
    by (rule mass_of_known_elements)
  from Cons.IH Cons.prems obtain l where
    l: "hg_loss_fragments T f = Inr l" and ok: "list_all (\<lambda>frag. positive_hg_mz frag \<noteq> Inl ValueError) l"
    by auto
  have "hg_loss_fragments (p # T) f
      = Inr (Frag3 n (formula_str (loss_formula f ld)) (neutral_mass (loss_formula f ld)) # l)"
    using l by (simp add: hg_loss_fragments_def p Let_def m bindE_simps)
  with ok show ?case by simp
qed

lemma positive_hg_mz_returns:
  "positive_hg_mz frag \<noteq> Inl ValueError \<Longrightarrow> \<exists>m. positive_hg_mz frag = Inr m"
  by (cases frag rule: positive_hg_mz.cases) simp_all

lemma positive_fragments_flags:
  "list_all (\<lambda>frag. positive_hg_mz frag \<noteq> Inl ValueError) (get_headgroup_fragments_positive c)"
  by (simp add: get_headgroup_fragments_positive_def positive_chain1_def positive_chain2_def)

lemma get_headgroup_fragments_returns:
  assumes "fst ` set (elements f) \<subseteq> set [''C'', ''H'', ''N'', ''O'', ''P'', ''S'']"
  shows "\<exists>hg. get_headgroup_fragments c f = Inr hg
     \<and> list_all (\<lambda>frag. positive_hg_mz frag \<noteq> Inl ValueError) hg"
proof -
  from get_headgroup_fragments_table [of c f] obtain T where
    T: "T \<in> set HEADGROUP_LOSS_TABLES"
    and g: "get_headgroup_fragments c f = with_positive c (hg_loss_fragments T f)"
    by blast
  from hg_loss_fragments_returns [OF assms] loss_tables_keys T obtain l where
    "hg_loss_fragments T f = Inr l" "list_all (\<lambda>frag. positive_hg_mz frag \<noteq> Inl ValueError) l"
    by blast
  with g positive_fragments_flags [of c] show ?thesis
    by (auto simp: with_positive_def bindE_simps)
qed

lemma get_headgroup_fragments_negative_returns:
  assumes "fst ` set (elements f) \<subseteq> set [''C'', ''H'', ''N'', ''O'', ''P'', ''S'']"
  shows "\<exists>hg. get_headgroup_fragments_negative c (Some f) = Inr hg"
proof -
  from get_headgroup_fragments_negative_table [of c f] obtain D T where
    T: "T \<in> set HEADGROUP_LOSS_TABLES"
    and g: "get_headgroup_fragments_negative c (Some f)
         = bindE (hg_loss_fragments T f) (\<lambda>l. Inr (D @ l))"
    by blast
  from hg_loss_fragments_returns [OF assms] loss_tables_keys T obtain l where
    "hg_loss_fragments T f = Inr l" by blast
  with g show ?thesis by (simp add: bindE_simps)
qed

lemma headgroup_rows_returns:
  assumes "fst ` set (elements f) \<subseteq> set [''C'', ''H'', ''N'', ''O'', ''P'', ''S'']"
  shows "\<exists>rs. headgroup_rows c sp f a mk = Inr rs"
proof -
  from get_headgroup_fragments_returns [OF assms, of c] obtain hg where
    hg: "get_headgroup_fragments c f = Inr hg"
    and ok: "list_all (\<lambda>frag. positive_hg_mz frag \<noteq> Inl ValueError) hg"
    by blast
  have "\<exists>rs. traverse (\<lambda>frag. bindE (positive_hg_mz frag) (\<lambda>frag_mz.
                 Inr (mk (frag_name frag) (frag_formula frag)
                        (if 0 < charge a then ''[M+H]1+'' else ''[M-H]1-'') frag_mz 1))) hg = Inr rs"
  proof (rule traverse_returns)
    fix frag
    assume "frag \<in> set hg"
    with ok have "positive_hg_mz frag \<noteq> Inl ValueError" by (simp add: list_all_iff)
    from positive_hg_mz_returns [OF this] obtain m where "positive_hg_mz frag = Inr m" by blast
    then show "\<exists>y. bindE (positive_hg_mz frag) (\<lambda>frag_mz.
                 Inr (mk (frag_name frag) (frag_formula frag)
                        (if 0 < charge a then ''[M+H]1+'' else ''[M-H]1-'') frag_mz 1)) = Inr y"
      by (simp add: bindE_simps)
  qed
  moreover from get_headgroup_fragments_negative_returns [OF assms, of c] obtain hgn where
    "get_headgroup_fragments_negative c (Some f) = Inr hgn" by blast
  ultimately show ?thesis
    using hg by (auto simp: headgroup_rows_def bindE_simps)
qed

lemma water_loss_rows_returns:
  assumes "fst ` set (elements f) \<subseteq> set [''C'', ''H'', ''N'', ''O'', ''P'', ''S'']"
    and "charge a \<noteq> 0"
  shows "\<exists>w. water_loss_rows mk f a = Inr w"
proof -
  have "fst ` set (elements (h2o_loss_formula f)) \<subseteq> set [''C'', ''H'', ''N'', ''O'', ''P'', ''S'']"
    using h2o_loss_formula_keys [of f] assms(1) by auto
  then have "mass (h2o_loss_formula f) = Inr (neutral_mass (h2o_loss_formula f))"
    by (rule mass_of_known_elements)
  with assms(2) show ?thesis
    by (simp add: water_loss_rows_def Let_def bindE_simps py_div_def)
qed

lemma adduct_transitions_returns:
  assumes "fst ` set (elements f) \<subseteq> set [''C'', ''H'', ''N'', ''O'', ''P'', ''S'']"
    and "charge a \<noteq> 0"
  shows "\<exists>rs. adduct_transitions c sp f m a = Inr rs"
proof -
  let ?mk = "row c (precursor_name c sp) (formula_str f) a
               ((m + mass_delta a) / of_int \<bar>charge a\<bar>)"
  from water_loss_rows_returns [OF assms] obtain w where
    "water_loss_rows ?mk f a = Inr w" by blast
  moreover from headgroup_rows_returns [OF assms(1)] obtain h where
    "headgroup_rows c sp f a ?mk = Inr h" by blast
  ultimately show ?thesis
    using assms(2) by (simp add: adduct_transitions_def py_div_def bindE_simps Let_def)
qed

lemma species_keys:
  assumes "generate_lipid_formulas cfg c lcbs fas = Inr formulas" "(sp, f) \<in> set formulas"
  shows "fst ` set (elements f) \<subseteq> set [''C'', ''H'', ''N'', ''O'', ''P'', ''S'']"
proof -
  from assms(1) obtain lv fv hg where
    fl: "formulas_loop hg (List.product lv fv) [] = Inr formulas"
    by (auto simp: generate_lipid_formulas_def bindE_Inr_iff)
  from formulas_loop_values [OF fl assms(2)] obtain bb ff where
    ff: "final_formula hg bb = Inr ff" and f: "f = MolecularFormula ff"
    by auto
  show ?thesis
    using MolecularFormula_keys [of ff] final_formula_keys [OF ff] by (simp add: f)
qed

text \<open>When the enumeration of the species returns, so does the generator: no adduct of the
  table has the charge zero, every element of a formula or of a loss has an atomic mass, and
  no positive-mode tuple of four has a false flag.\<close>

lemma generate_transitions_returns:
  assumes F: "generate_lipid_formulas cfg c lcbs fas = Inr formulas"
  shows "\<exists>rows. generate_transitions cfg c cs ads lcbs fas = Inr rows"
proof -
  let ?A = "get_adduct_definitions cs ads"
  have "\<exists>rss. traverse (species_transitions c ?A) formulas = Inr rss"
  proof (rule traverse_returns)
    fix x
    assume x: "x \<in> set formulas"
    obtain sp f where xf: "x = (sp, f)" by (cases x)
    from species_enumerated [OF F] x xf have m: "mass f = Inr (neutral_mass f)" by blast
    from species_keys [OF F] x xf
    have k: "fst ` set (elements f) \<subseteq> set [''C'', ''H'', ''N'', ''O'', ''P'', ''S'']" by blast
    have "\<exists>rs. traverse (adduct_transitions c sp f (neutral_mass f)) ?A = Inr rs"
    proof (rule traverse_returns)
      fix a
      assume "a \<in> set ?A"
      from get_adduct_definitions_sign [OF this] have "charge a \<noteq> 0" by auto
      from adduct_transitions_returns [OF k this]
      show "\<exists>y. adduct_transitions c sp f (neutral_mass f) a = Inr y" .
    qed
    then show "\<exists>y. species_transitions c ?A x = Inr y"
      by (auto simp: species_transitions_def xf m bindE_simps)
  qed
  then show ?thesis
    by (auto simp: generate_transitions_def F bindE_simps)
qed

section \<open>The precursor rows\<close>

lemma adducts_M_plus_H:
  "get_adduct_definitions [1] (Some [''[M+H]+'']) =
     [\<lparr>name = ''[M+H]1+'', mass_delta = PROTON_MASS, charge = 1, polarity = ''positive''\<rparr>]"
  by (simp add: get_adduct_definitions_def adduct_lookup_def adduct_map_def)

text \<open>
  Claim C7. Whenever the enumeration of the species returns, \<^verbatim>\<open>generate_transitions\<close>
  returns, and the rows of its result whose Product Name is \<^verbatim>\<open>precursor\<close> are, in the
  order of the loops, one row for every enumerated species and every adduct of the
  selection: its Molecule is the name of the species, its Precursor Adduct the name of the
  adduct, its Precursor m/z and its Product m/z are both (neutral monoisotopic mass + mass
  delta of the adduct) / |charge of the adduct| rounded to 4 decimal places, and its
  Precursor Charge and its Product Charge are both the signed charge of the adduct.
\<close>

theorem precursor_rows:
  assumes "generate_lipid_formulas cfg lipid_class selected_lcbs selected_fas = Inr formulas"
  shows "\<exists>rows. generate_transitions cfg lipid_class charge_states selected_adducts
                  selected_lcbs selected_fas = Inr rows
     \<and> map (\<lambda>r. (Molecule r, Precursor_Adduct r, Precursor_mz r, Precursor_Charge r,
                  Product_mz r, Product_Charge r))
           (filter (\<lambda>r. Product_Name r = ''precursor'') rows)
       = concat (map (\<lambda>(species, formula).
          map (\<lambda>adduct.
                 (precursor_name lipid_class species, name adduct,
                  Num (round4 ((neutral_mass formula + mass_delta adduct) / of_int \<bar>charge adduct\<bar>)),
                  charge adduct,
                  Num (round4 ((neutral_mass formula + mass_delta adduct) / of_int \<bar>charge adduct\<bar>)),
                  charge adduct))
            (get_adduct_definitions charge_states selected_adducts)) formulas)"
proof -
  let ?p = "\<lambda>r. (Molecule r, Precursor_Adduct r, Precursor_mz r, Precursor_Charge r,
                  Product_mz r, Product_Charge r)"
  let ?q = "\<lambda>r. Product_Name r = ''precursor''"
  let ?t = "\<lambda>species formula adduct.
                 (precursor_name lipid_class species, name adduct,
                  Num (round4 ((neutral_mass formula + mass_delta adduct) / of_int \<bar>charge adduct\<bar>)),
                  charge adduct,
                  Num (round4 ((neutral_mass formula + mass_delta adduct) / of_int \<bar>charge adduct\<bar>)),
                  charge adduct)"
  from generate_transitions_returns [OF assms] obtain rows where
    R: "generate_transitions cfg lipid_class charge_states selected_adducts
          selected_lcbs selected_fas = Inr rows"
    by blast
  have "map ?p (filter ?q rows)
     = concat (map (\<lambda>(sp, f). concat (map (\<lambda>a. [?t sp f a])
         (get_adduct_definitions charge_states selected_adducts))) formulas)"
  proof (rule generate_transitions_collect [OF assms R])
    fix sp f a rs
    assume "adduct_transitions lipid_class sp f (neutral_mass f) a = Inr rs"
    from adduct_transitions_shape [OF this] obtain rest where
      rs: "rs = row lipid_class (precursor_name lipid_class sp) (formula_str f) a
                  ((neutral_mass f + mass_delta a) / of_int \<bar>charge a\<bar>)
                  ''precursor'' (formula_str f) (name a)
                  ((neutral_mass f + mass_delta a) / of_int \<bar>charge a\<bar>) (charge a) # rest"
      and rest: "\<forall>r\<in>set rest. Product_Name r \<noteq> ''precursor''"
      by blast
    from rest have "filter ?q rest = []" by (simp add: filter_empty_conv)
    then show "map ?p (filter ?q rs) = [?t sp f a]"
      by (simp add: rs row_fields)
  qed
  then have P: "map ?p (filter ?q rows)
     = concat (map (\<lambda>(species, formula). map (?t species formula)
         (get_adduct_definitions charge_states selected_adducts)) formulas)"
    by simp
  show ?thesis
    by (rule exI [of _ rows]) (rule conjI [OF R P])
qed

theorem precursor_rows_witness:
  "\<exists>rows. generate_transitions DEFAULT_CONFIG ''Cer'' [1] (Some [''[M+H]+''])
            (Some [''18:1;2'']) (Some [''16:0'']) = Inr rows
     \<and> map (\<lambda>r. (Molecule r, Precursor_Adduct r, Precursor_mz r, Precursor_Charge r,
                  Product_mz r, Product_Charge r))
           (filter (\<lambda>r. Product_Name r = ''precursor'') rows)
       = [(''Cer(18:1;2/16:0)'', ''[M+H]1+'', Num 538.5194, 1, Num 538.5194, 1)]"
proof -
  have m: "round4 (neutral_mass (Formula [(''C'', 34), (''H'', 67), (''N'', 1), (''O'', 3)])
                     + PROTON_MASS) = 538.5194"
    by (simp add: neutral_mass_def atomic_mass_def dict_get_def ATOMIC_MASSES_def
        PROTON_MASS_def round4_def Let_def)
  have n: "precursor_name ''Cer'' ''18:1;2/16:0'' = ''Cer(18:1;2/16:0)''"
    by (simp add: precursor_name_def is_ceramide_class_def CERAMIDE_COMPOSITIONS_def)
  from precursor_rows [OF generate_Cer_18_1_16_0, of "[1]" "Some [''[M+H]+'']"]
  show ?thesis
    unfolding adducts_M_plus_H by (simp add: m n)
qed

section \<open>Lists and texts: filtering and splitting\<close>

lemma Z2_name: "str_in ''[Z=2]'' (n @ '' [Z=2]'')"
  using str_in_suffix [of "''[Z=2]''" "n @ '' ''"] by simp

lemma filter_blocks:
  assumes "\<And>r. r \<in> set A \<Longrightarrow> \<not> q r" "\<And>r. r \<in> set B \<Longrightarrow> q r" "\<And>r. r \<in> set C \<Longrightarrow> q r"
    "\<And>r. r \<in> set D \<Longrightarrow> q r" "\<And>r. r \<in> set E \<Longrightarrow> \<not> q r" "\<And>r. r \<in> set G \<Longrightarrow> \<not> q r"
  shows "filter q (A @ B @ C @ D @ E @ G) = B @ C @ D"
proof -
  have "filter q A = []" "filter q E = []" "filter q G = []"
    using assms(1,5,6) by (simp_all add: filter_empty_conv)
  moreover have "filter q B = B" "filter q C = C" "filter q D = D"
    using assms(2,3,4) by (simp_all add: filter_id_conv)
  ultimately show ?thesis by simp
qed

lemma z2_row_fields:
  "Product_Name (z2_row (row c pn ft a pmz) frag mz) = frag_name frag @ '' [Z=2]''"
  "Product_Adduct (z2_row (row c pn ft a pmz) frag mz) = ''[M-2H]2-''"
  "Product_Charge (z2_row (row c pn ft a pmz) frag mz) = - 2"
  "Molecule (z2_row (row c pn ft a pmz) frag mz) = pn"
  "Precursor_Adduct (z2_row (row c pn ft a pmz) frag mz) = name a"
  "Precursor_Charge (z2_row (row c pn ft a pmz) frag mz) = charge a"
  by (simp_all add: z2_row_def row_fields)

lemma str_in_char: "str_in [c] s \<longleftrightarrow> c \<in> set s"
  by (induction s) auto

lemma py_split_length: "sep \<in> set s \<Longrightarrow> 1 < length (py_split sep s)"
proof (induction s)
  case Nil
  then show ?case by simp
next
  case (Cons c s)
  show ?case
  proof (cases "c = sep")
    case True
    then show ?thesis using py_split_not_Nil [of sep s] by (cases "py_split sep s") simp_all
  next
    case False
    with Cons.prems have "sep \<in> set s" by simp
    from Cons.IH [OF this] False show ?thesis by (cases "py_split sep s") simp_all
  qed
qed

section \<open>The characters of a species name\<close>

lemma dropWhile_mem: "x \<in> set xs \<Longrightarrow> P x \<or> x \<in> set (dropWhile P xs)"
  by (induction xs) auto

lemma strip_chars: "x \<in> set s \<Longrightarrow> isspace x \<or> x \<in> set (strip s)"
proof -
  assume "x \<in> set s"
  then have "isspace x \<or> x \<in> set (rev (dropWhile isspace s))"
    using dropWhile_mem [of x s isspace] by simp
  then have "isspace x \<or> x \<in> set (dropWhile isspace (rev (dropWhile isspace s)))"
    using dropWhile_mem [of x "rev (dropWhile isspace s)" isspace] by blast
  then show ?thesis by (simp add: strip_def)
qed

lemma digits_ok_chars: "digits_ok b \<Longrightarrow> x \<in> set b \<Longrightarrow> isdigit x \<or> x = CHR ''_''"
proof (induction b rule: digits_ok.induct)
  case 1
  then show ?case by simp
next
  case (2 c)
  then show ?case by simp
next
  case (3 c d r)
  show ?case
  proof (cases "isdigit c")
    case False
    with "3.prems" show ?thesis by simp
  next
    case c: True
    show ?thesis
    proof (cases "d = CHR ''_''")
      case True
      with c "3.prems" "3.IH"(1) show ?thesis by auto
    next
      case False
      with c "3.prems" "3.IH"(2) show ?thesis by auto
    qed
  qed
qed

text \<open>A text \<^verbatim>\<open>int\<close> accepts holds whitespace, signs, digits and underscores only.\<close>

lemma py_int_chars:
  assumes "py_int s = Some n" "x \<in> set s"
  shows "isspace x \<or> isdigit x \<or> x = CHR ''_'' \<or> x = CHR ''-'' \<or> x = CHR ''+''"
proof (cases "isspace x")
  case True
  then show ?thesis by simp
next
  case False
  with strip_chars [OF assms(2)] have x: "x \<in> set (strip s)" by simp
  let ?t = "strip s"
  let ?signed = "?t \<noteq> [] \<and> (hd ?t = CHR ''-'' \<or> hd ?t = CHR ''+'')"
  have ok: "digits_ok (if ?signed then tl ?t else ?t)"
  proof (rule ccontr)
    assume "\<not> digits_ok (if ?signed then tl ?t else ?t)"
    then have "py_int s = None" by (simp add: py_int_def Let_def split del: if_split)
    with assms(1) show False by simp
  qed
  show ?thesis
  proof (cases ?signed)
    case False
    with ok have "digits_ok ?t" by simp
    from digits_ok_chars [OF this x] show ?thesis by blast
  next
    case True
    with ok have d: "digits_ok (tl ?t)" by simp
    from True x have "x = hd ?t \<or> x \<in> set (tl ?t)" by (cases ?t) auto
    then show ?thesis
    proof
      assume "x = hd ?t"
      with True show ?thesis by blast
    next
      assume "x \<in> set (tl ?t)"
      from digits_ok_chars [OF d this] show ?thesis by blast
    qed
  qed
qed

lemma py_int_no_slash: "py_int s = Some n \<Longrightarrow> CHR ''/'' \<notin> set s"
  using py_int_chars [of s n "CHR ''/''"] by (auto simp: isspace_def isdigit_def)

lemma py_int_no_bracket: "py_int s = Some n \<Longrightarrow> CHR ''['' \<notin> set s"
  using py_int_chars [of s n "CHR ''[''"] by (auto simp: isspace_def isdigit_def)

lemma py_split_two:
  "py_split sep s = [a, b] \<Longrightarrow> s = a @ sep # b \<and> sep \<notin> set b"
proof (induction s arbitrary: a)
  case Nil
  then show ?case by simp
next
  case (Cons c s)
  show ?case
  proof (cases "c = sep")
    case True
    with Cons.prems have a: "a = []" and b: "py_split sep s = [b]" by simp_all
    have "sep \<notin> set s \<and> s = b"
    proof (cases "sep \<in> set s")
      case True
      from py_split_length [OF this] b show ?thesis by simp
    next
      case False
      with py_split_no_sep [OF False] b show ?thesis by simp
    qed
    with a True show ?thesis by auto
  next
    case False
    with Cons.prems obtain p where "py_split sep s = [p, b]" "a = c # p"
      by (cases "py_split sep s") (auto split: list.splits)
    with Cons.IH [of p] show ?thesis by simp
  qed
qed

lemma hd_py_split: "hd (py_split sep s) = takeWhile (\<lambda>c. c \<noteq> sep) s"
proof (induction s)
  case Nil
  then show ?case by simp
next
  case (Cons c s)
  then show ?case by (cases "py_split sep s") (simp_all add: py_split_not_Nil)
qed

lemma takeWhile_before_sep: "y \<in> set (takeWhile (\<lambda>c. c \<noteq> x) (v @ x # w)) \<Longrightarrow> y \<in> set v"
proof (induction v)
  case Nil
  then show ?case by simp
next
  case (Cons a v)
  then show ?case by (cases "a = x") auto
qed

lemma fa_match_colon: "fa_match t = Some g \<Longrightarrow> CHR '':'' \<in> set t"
proof -
  assume "fa_match t = Some g"
  then have r: "dropWhile isdigit t \<noteq> []" "hd (dropWhile isdigit t) = CHR '':''"
    by (simp_all add: fa_match_def Let_def split: if_splits)
  then have "CHR '':'' \<in> set (dropWhile isdigit t)" by (cases "dropWhile isdigit t") auto
  then show ?thesis by (rule set_dropWhileD)
qed

lemma parse_fa_chars:
  assumes "parse_fa fn = Inr (Some x)"
  shows "CHR ''/'' \<notin> set fn \<and> CHR ''['' \<notin> set fn"
proof -
  from assms obtain a b where ab: "py_split CHR '':'' fn = [a, b]"
    by (cases "py_split CHR '':'' fn" rule: list.exhaust)
      (auto simp: parse_fa_def Let_def length_Suc_conv split: if_splits)
  with assms obtain m n where "py_int a = Some m" "py_int b = Some n"
    by (auto simp: parse_fa_def Let_def split: option.splits)
  then have "CHR ''/'' \<notin> set a" "CHR ''['' \<notin> set a" "CHR ''/'' \<notin> set b" "CHR ''['' \<notin> set b"
    by (simp_all add: py_int_no_slash py_int_no_bracket)
  moreover from py_split_two [OF ab] have "fn = a @ CHR '':'' # b" by simp
  ultimately show ?thesis by simp
qed

lemma parse_lcb_shape:
  assumes "parse_lcb c lcb = Inr (Some x)"
  shows "\<exists>p0 p1. lcb = p0 @ CHR '':'' # p1 \<and> CHR ''/'' \<notin> set p0 \<and> CHR '':'' \<notin> set p1"
proof -
  from assms obtain a b where ab: "py_split CHR '':'' lcb = [a, b]"
    by (cases "py_split CHR '':'' lcb" rule: list.exhaust)
      (auto simp: parse_lcb_def Let_def length_Suc_conv split: if_splits)
  with assms obtain m where "py_int a = Some m"
    by (auto simp: parse_lcb_def Let_def split: option.splits)
  then have "CHR ''/'' \<notin> set a" by (rule py_int_no_slash)
  with py_split_two [OF ab] show ?thesis by blast
qed

text \<open>The negative-mode fatty-acid fragments of an enumerated species have names without an
  opening bracket: the text after the first \<^verbatim>\<open>/\<close> of the species name is the fatty-acid token
  when the LCB token has no \<^verbatim>\<open>/\<close>, and holds no colon otherwise.\<close>

lemma species_fa_fragments_names:
  assumes l: "parse_lcb c lcb = Inr (Some x)" and f: "parse_fa fa = Inr (Some y)"
    and frag: "frag \<in> set (get_fa_fragments_negative (py_split CHR ''/'' (species_name lcb fa) ! 1))"
  shows "table_name (frag_name frag)"
proof (cases "CHR ''/'' \<in> set lcb")
  case False
  from parse_fa_chars [OF f] have fa: "CHR ''/'' \<notin> set fa" "CHR ''['' \<notin> set fa" by simp_all
  have "py_split CHR ''/'' (species_name lcb fa) = [lcb, fa]"
    using py_split_append_sep [OF False, of fa] py_split_no_sep [OF fa(1)]
    by (simp add: species_name_def)
  with frag have "frag \<in> set (get_fa_fragments_negative fa)" by simp
  from get_fa_fragments_negative_table_name [OF fa(2) this] show ?thesis .
next
  case True
  from parse_lcb_shape [OF l] obtain p0 p1 where
    lcb: "lcb = p0 @ CHR '':'' # p1" and p0: "CHR ''/'' \<notin> set p0" and p1: "CHR '':'' \<notin> set p1"
    by blast
  from True lcb p0 have "CHR ''/'' \<in> set p1" by simp
  then obtain u v where uv: "p1 = u @ CHR ''/'' # v" and u: "CHR ''/'' \<notin> set u"
    by (auto dest: split_list_first)
  let ?a = "p0 @ CHR '':'' # u"
  have a: "CHR ''/'' \<notin> set ?a" using p0 u by simp
  have "species_name lcb fa = ?a @ CHR ''/'' # (v @ CHR ''/'' # fa)"
    by (simp add: species_name_def lcb uv)
  then have "py_split CHR ''/'' (species_name lcb fa) = ?a # py_split CHR ''/'' (v @ CHR ''/'' # fa)"
    using py_split_append_sep [OF a, of "v @ CHR ''/'' # fa"] by simp
  then have "py_split CHR ''/'' (species_name lcb fa) ! 1 = hd (py_split CHR ''/'' (v @ CHR ''/'' # fa))"
    using py_split_not_Nil [of "CHR ''/''" "v @ CHR ''/'' # fa"]
    by (simp add: hd_conv_nth)
  also have "\<dots> = takeWhile (\<lambda>c. c \<noteq> CHR ''/'') (v @ CHR ''/'' # fa)"
    by (rule hd_py_split)
  finally have "set (py_split CHR ''/'' (species_name lcb fa) ! 1) \<subseteq> set v"
    using takeWhile_before_sep [of _ "CHR ''/''" v fa] by auto
  with p1 uv have "CHR '':'' \<notin> set (py_split CHR ''/'' (species_name lcb fa) ! 1)" by auto
  then have "fa_match (py_split CHR ''/'' (species_name lcb fa) ! 1) = None"
    using fa_match_colon by (cases "fa_match (py_split CHR ''/'' (species_name lcb fa) ! 1)") auto
  with frag show ?thesis by (simp add: get_fa_fragments_negative_def)
qed

lemma species_enumerated_fa_fragments:
  assumes "generate_lipid_formulas cfg c lcbs fas = Inr formulas" "(sp, f) \<in> set formulas"
    and "frag \<in> set (get_fa_fragments_negative (py_split CHR ''/'' sp ! 1))"
  shows "table_name (frag_name frag)"
proof -
  from assms(1) obtain lv fv hg where
    lv: "chain_loop (parse_lcb c) (selection (get_lcb_list cfg c) lcbs) [] = Inr lv"
    and fv: "chain_loop parse_fa (selection (get_fatty_acid_list cfg) fas) [] = Inr fv"
    and fl: "formulas_loop hg (List.product lv fv) [] = Inr formulas"
    by (auto simp: generate_lipid_formulas_def bindE_Inr_iff)
  from formulas_loop_values [OF fl assms(2)] obtain lcb lc fa fc where
    p: "((lcb, lc), (fa, fc)) \<in> set (List.product lv fv)" and sp: "sp = species_name lcb fa"
    by auto
  from p have "(lcb, lc) \<in> set lv" "(fa, fc) \<in> set fv" by simp_all
  then have "parse_lcb c lcb = Inr (Some lc)" "parse_fa fa = Inr (Some fc)"
    using chain_loop_sound [OF lv] chain_loop_sound [OF fv] by auto
  from species_fa_fragments_names [OF this] assms(3) sp show ?thesis by simp
qed

section \<open>The rows marked as doubly charged\<close>

text \<open>Of the rows of the negative branch, the ones marked \<^verbatim>\<open>[Z=2]\<close> are the rows of the
  three deriving blocks, when the fatty-acid fragments have names without an opening bracket.\<close>

lemma negative_rows_Z2:
  assumes hg: "list_all (\<lambda>frag. table_name (frag_name frag)) hg"
    and fa: "\<forall>frag\<in>set (get_fa_fragments_negative (py_split CHR ''/'' sp ! 1)).
               table_name (frag_name frag)"
  shows "filter (\<lambda>r. str_in ''[Z=2]'' (Product_Name r))
           (negative_rows c sp a (row c pn ft a pmz) hg)
     = (if is_gsl_class c \<and> c \<in> set [''GT1a'', ''GT1b'', ''GT1c''] \<and> 2 \<le> \<bar>charge a\<bar>
        then gt1_doubly_charged (row c pn ft a pmz) hg else [])
       @ (if is_gsl_class c \<and> c = ''GP1'' \<and> 2 \<le> \<bar>charge a\<bar>
          then gp1_doubly_charged (row c pn ft a pmz) hg else [])
       @ (if is_gsl_class c \<and> c \<in> set [''nLc10'', ''nLc8''] \<and> 2 \<le> \<bar>charge a\<bar>
          then nlc_doubly_charged c (row c pn ft a pmz) hg else [])"
  unfolding negative_rows_def Let_def
proof (rule filter_blocks)
  fix r
  assume "r \<in> set (map (\<lambda>frag. row c pn ft a pmz (frag_name frag) (frag_formula frag)
                 (if 0 < charge a then ''[M+H]1+'' else ''[M-H]1-'') (negative_hg_mz frag) (- 1)) hg)"
  then obtain frag where "frag \<in> set hg" "Product_Name r = frag_name frag"
    by (auto simp: row_fields)
  with hg show "\<not> str_in ''[Z=2]'' (Product_Name r)"
    by (auto simp: list_all_iff dest: table_name_no_Z2)
next
  fix r
  assume "r \<in> set (if is_gsl_class c \<and> c \<in> set [''GT1a'', ''GT1b'', ''GT1c''] \<and> 2 \<le> \<bar>charge a\<bar>
        then gt1_doubly_charged (row c pn ft a pmz) hg else [])"
  then obtain frag mz where "r = z2_row (row c pn ft a pmz) frag mz"
    by (auto simp: gt1_doubly_charged_def split: if_splits)
  then show "str_in ''[Z=2]'' (Product_Name r)"
    by (simp add: z2_row_fields Z2_name)
next
  fix r
  assume "r \<in> set (if is_gsl_class c \<and> c = ''GP1'' \<and> 2 \<le> \<bar>charge a\<bar>
          then gp1_doubly_charged (row c pn ft a pmz) hg else [])"
  then obtain frag mz where "r = z2_row (row c pn ft a pmz) frag mz"
    by (auto simp: gp1_doubly_charged_def split: if_splits)
  then show "str_in ''[Z=2]'' (Product_Name r)"
    by (simp add: z2_row_fields Z2_name)
next
  fix r
  assume "r \<in> set (if is_gsl_class c \<and> c \<in> set [''nLc10'', ''nLc8''] \<and> 2 \<le> \<bar>charge a\<bar>
          then nlc_doubly_charged c (row c pn ft a pmz) hg else [])"
  then obtain frag mz where "r = z2_row (row c pn ft a pmz) frag mz"
    by (auto simp: nlc_doubly_charged_def split: if_splits)
  then show "str_in ''[Z=2]'' (Product_Name r)"
    by (simp add: z2_row_fields Z2_name)
next
  fix r
  assume "r \<in> set (map (\<lambda>frag. row c pn ft a pmz (frag_name frag) (frag_formula frag)
                 (if 0 < charge a then ''[M+H]1+'' else ''[M-H]1-'') (frag_mass frag)
                 (if 0 < charge a then 1 else - 1))
             (get_lcb_fragments_negative (hd (py_split CHR ''/'' sp))))"
  then obtain frag where "frag \<in> set (get_lcb_fragments_negative (hd (py_split CHR ''/'' sp)))"
    "Product_Name r = frag_name frag"
    by (auto simp: row_fields)
  with get_lcb_fragments_negative_names [of "hd (py_split CHR ''/'' sp)"]
  show "\<not> str_in ''[Z=2]'' (Product_Name r)"
    by (auto simp: list_all_iff dest: table_name_no_Z2)
next
  fix r
  assume r: "r \<in> set (if str_in ''/'' sp
            then map (\<lambda>frag. row c pn ft a pmz (frag_name frag) (frag_formula frag)
                 (if 0 < charge a then ''[M+H]1+'' else ''[M-H]1-'') (frag_mass frag)
                 (if 0 < charge a then 1 else - 1))
                   (get_fa_fragments_negative (py_split CHR ''/'' sp ! 1))
            else [])"
  show "\<not> str_in ''[Z=2]'' (Product_Name r)"
  proof (cases "str_in ''/'' sp")
    case False
    with r show ?thesis by simp
  next
    case True
    with r obtain frag where
      frag: "frag \<in> set (get_fa_fragments_negative (py_split CHR ''/'' sp ! 1))"
      and n: "Product_Name r = frag_name frag"
      by (auto simp: row_fields)
    from fa frag n have "table_name (Product_Name r)" by simp
    then show ?thesis by (simp add: table_name_no_Z2)
  qed
qed

text \<open>Every row of one species and one adduct carries the name of the species and the name
  and the signed charge of the adduct.\<close>

lemma negative_rows_fields:
  "r \<in> set (negative_rows c sp a (row c pn ft a pmz) hg) \<Longrightarrow>
     Molecule r = pn \<and> Precursor_Adduct r = name a \<and> Precursor_Charge r = charge a"
  by (auto simp: negative_rows_def Let_def gt1_doubly_charged_def gp1_doubly_charged_def
      nlc_doubly_charged_def z2_row_fields row_fields split: if_splits)

lemma headgroup_rows_fields:
  assumes "headgroup_rows c sp f a (row c pn ft a pmz) = Inr rs" "r \<in> set rs"
  shows "Molecule r = pn \<and> Precursor_Adduct r = name a \<and> Precursor_Charge r = charge a"
proof (cases "is_gsl_class c \<or> c \<in> set [''SM'', ''SM4'']")
  case False
  with assms show ?thesis by (simp add: headgroup_rows_def)
next
  case g: True
  show ?thesis
  proof (cases "polarity a = ''positive''")
    case True
    with g assms(1) obtain hg where
      t: "traverse (\<lambda>frag. bindE (positive_hg_mz frag) (\<lambda>frag_mz.
          Inr (row c pn ft a pmz (frag_name frag) (frag_formula frag)
                 (if 0 < charge a then ''[M+H]1+'' else ''[M-H]1-'') frag_mz 1))) hg = Inr rs"
      unfolding headgroup_rows_def by (simp add: bindE_Inr_iff) blast
    from traverse_Inr_set [OF t assms(2)] show ?thesis
      by (auto simp: bindE_Inr_iff row_fields)
  next
    case p: False
    show ?thesis
    proof (cases "polarity a = ''negative''")
      case True
      with g p assms(1) obtain hg where
        "rs = negative_rows c sp a (row c pn ft a pmz) hg"
        unfolding headgroup_rows_def by (simp add: bindE_Inr_iff) blast
      with assms(2) negative_rows_fields show ?thesis by blast
    next
      case False
      with g p assms show ?thesis by (simp add: headgroup_rows_def)
    qed
  qed
qed

lemma adduct_transitions_fields:
  assumes "adduct_transitions c sp f m a = Inr rs" "r \<in> set rs"
  shows "Molecule r = precursor_name c sp \<and> Precursor_Adduct r = name a
     \<and> Precursor_Charge r = charge a"
proof -
  let ?pmz = "(m + mass_delta a) / of_int \<bar>charge a\<bar>"
  let ?mk = "row c (precursor_name c sp) (formula_str f) a ?pmz"
  from assms(1) obtain w hgr where
    w: "water_loss_rows ?mk f a = Inr w"
    and h: "headgroup_rows c sp f a ?mk = Inr hgr"
    and rs: "rs = ?mk ''precursor'' (formula_str f) (name a) ?pmz (charge a) # w
        @ map (\<lambda>frag. ?mk (frag_name frag) (frag_formula frag)
                 (if 0 < charge a then ''[M+H]1+'' else ''[M-H]1-'')
                 (frag_mass frag) (if 0 < charge a then 1 else - 1))
            (positive_lcb_fragments c (hd (py_split CHR ''/'' sp)) a)
        @ hgr"
    by (auto simp: adduct_transitions_def bindE_Inr_iff py_div_Inr Let_def)
  have "\<forall>r\<in>set w. Molecule r = precursor_name c sp \<and> Precursor_Adduct r = name a
     \<and> Precursor_Charge r = charge a"
    using w by (auto simp: water_loss_rows_def Let_def bindE_Inr_iff row_fields split: if_splits)
  moreover have "\<forall>r\<in>set hgr. Molecule r = precursor_name c sp \<and> Precursor_Adduct r = name a
     \<and> Precursor_Charge r = charge a"
    using headgroup_rows_fields [OF h] by blast
  ultimately show ?thesis
    using assms(2) by (auto simp: rs row_fields)
qed

section \<open>GT1b under the adduct [M-2H]2-\<close>

lemma adducts_M_minus_2H:
  "get_adduct_definitions [2] (Some [''[M-2H]2-'']) =
     [\<lparr>name = ''[M-2H]2-'', mass_delta = - 2 * PROTON_MASS, charge = - 2, polarity = ''negative''\<rparr>]"
  by (simp add: get_adduct_definitions_def adduct_lookup_def adduct_map_def)

lemma is_gsl_class_GT1b: "is_gsl_class ''GT1b''"
  by (simp add: is_gsl_class_def GSL_HEADGROUP_COMPOSITIONS_def)

lemma precursor_name_GT1b: "precursor_name ''GT1b'' sp = ''GT1b '' @ sp"
  by (simp add: precursor_name_def is_ceramide_class_def CERAMIDE_COMPOSITIONS_def)

text \<open>Under a negative adduct the rows of a glycosphingolipid are the precursor row and the
  rows of the negative branch.\<close>

lemma adduct_transitions_negative:
  assumes "adduct_transitions c sp f m a = Inr rs" "polarity a = ''negative''" "is_gsl_class c"
  shows "\<exists>hg. get_headgroup_fragments_negative c (Some f) = Inr hg
     \<and> rs = row c (precursor_name c sp) (formula_str f) a ((m + mass_delta a) / of_int \<bar>charge a\<bar>)
              ''precursor'' (formula_str f) (name a)
              ((m + mass_delta a) / of_int \<bar>charge a\<bar>) (charge a)
            # negative_rows c sp a
                (row c (precursor_name c sp) (formula_str f) a
                   ((m + mass_delta a) / of_int \<bar>charge a\<bar>)) hg"
proof -
  let ?pmz = "(m + mass_delta a) / of_int \<bar>charge a\<bar>"
  let ?mk = "row c (precursor_name c sp) (formula_str f) a ?pmz"
  from assms(1) obtain w hgr where
    w: "water_loss_rows ?mk f a = Inr w"
    and h: "headgroup_rows c sp f a ?mk = Inr hgr"
    and rs: "rs = ?mk ''precursor'' (formula_str f) (name a) ?pmz (charge a) # w
        @ map (\<lambda>frag. ?mk (frag_name frag) (frag_formula frag)
                 (if 0 < charge a then ''[M+H]1+'' else ''[M-H]1-'')
                 (frag_mass frag) (if 0 < charge a then 1 else - 1))
            (positive_lcb_fragments c (hd (py_split CHR ''/'' sp)) a)
        @ hgr"
    by (auto simp: adduct_transitions_def bindE_Inr_iff py_div_Inr Let_def)
  from w assms(2) have w0: "w = []" by (simp add: water_loss_rows_def)
  from assms(2) have l0: "positive_lcb_fragments c (hd (py_split CHR ''/'' sp)) a = []"
    by (simp add: positive_lcb_fragments_def)
  from h assms(2,3) obtain hg where
    "get_headgroup_fragments_negative c (Some f) = Inr hg" "hgr = negative_rows c sp a ?mk hg"
    unfolding headgroup_rows_def by (simp add: bindE_Inr_iff) blast
  with rs w0 l0 show ?thesis by simp
qed

text \<open>The allowlist of the GT1 series keeps one of the negative-mode headgroup fragments of
  GT1b: the table of losses of GT1b has no entry with \<^verbatim>\<open>-Neu5Ac,291\<close>.\<close>

lemma GT1b_allowlisted:
  assumes "get_headgroup_fragments_negative ''GT1b'' (Some f) = Inr hg"
  shows "map frag_name (filter (\<lambda>frag. str_in ''-Neu5Ac,309'' (frag_name frag)
                                     \<or> str_in ''-Neu5Ac,291'' (frag_name frag)) hg)
     = [''HG(-Neu5Ac,309)'']"
proof -
  from assms obtain l where
    l: "hg_loss_fragments GT1B_HEADGROUP_LOSSES f = Inr l"
    and hg: "hg = sialo_diagnostic ''GT1b'' @ l"
    by (auto simp: get_headgroup_fragments_negative_def with_losses_def sialo_losses_def
        get_gt1b_hg_loss_fragments_def bindE_Inr_iff)
  have n: "map frag_name hg = map frag_name (sialo_diagnostic ''GT1b'') @ map fst GT1B_HEADGROUP_LOSSES"
    using hg_loss_fragments_map_names [OF l] by (simp add: hg)
  have "map frag_name (filter (\<lambda>frag. str_in ''-Neu5Ac,309'' (frag_name frag)
                                     \<or> str_in ''-Neu5Ac,291'' (frag_name frag)) hg)
      = filter (\<lambda>n. str_in ''-Neu5Ac,309'' n \<or> str_in ''-Neu5Ac,291'' n) (map frag_name hg)"
    by (simp add: filter_map comp_def)
  also have "\<dots> = [''HG(-Neu5Ac,309)'']"
    unfolding n by (simp add: sialo_diagnostic_def GT1B_HEADGROUP_LOSSES_def)
  finally show ?thesis .
qed

lemma GT1b_adduct_doubly_charged:
  assumes rs: "adduct_transitions ''GT1b'' sp f m
      \<lparr>name = ''[M-2H]2-'', mass_delta = - 2 * PROTON_MASS, charge = - 2, polarity = ''negative''\<rparr>
      = Inr rs"
    and fa: "\<forall>frag\<in>set (get_fa_fragments_negative (py_split CHR ''/'' sp ! 1)).
               table_name (frag_name frag)"
  shows "map (\<lambda>r. (Molecule r, Product_Name r, Product_Adduct r, Product_Charge r))
           (filter (\<lambda>r. str_in ''[Z=2]'' (Product_Name r)) rs)
     = [(''GT1b '' @ sp, ''HG(-Neu5Ac,309) [Z=2]'', ''[M-2H]2-'', - 2)]"
proof -
  let ?a = "\<lparr>name = ''[M-2H]2-'', mass_delta = - 2 * PROTON_MASS, charge = - 2,
              polarity = ''negative''\<rparr>"
  let ?pmz = "(m + mass_delta ?a) / of_int \<bar>charge ?a\<bar>"
  let ?mk = "row ''GT1b'' (precursor_name ''GT1b'' sp) (formula_str f) ?a ?pmz"
  let ?q = "\<lambda>r. str_in ''[Z=2]'' (Product_Name r)"
  let ?p = "\<lambda>r. (Molecule r, Product_Name r, Product_Adduct r, Product_Charge r)"
  from adduct_transitions_negative [OF rs _ is_gsl_class_GT1b] obtain hg where
    hg: "get_headgroup_fragments_negative ''GT1b'' (Some f) = Inr hg"
    and r: "rs = ?mk ''precursor'' (formula_str f) (name ?a) ?pmz (charge ?a)
              # negative_rows ''GT1b'' sp ?a ?mk hg"
    by auto
  have "filter ?q rs = filter ?q (negative_rows ''GT1b'' sp ?a ?mk hg)"
    by (simp add: r row_fields)
  also have "\<dots> = gt1_doubly_charged ?mk hg"
    using negative_rows_Z2 [OF get_headgroup_fragments_negative_names [OF hg] fa,
        of "''GT1b''" ?a "precursor_name ''GT1b'' sp" "formula_str f" ?pmz]
    by (simp add: is_gsl_class_GT1b)
  finally have "map ?p (filter ?q rs)
      = map (\<lambda>n. (''GT1b '' @ sp, n @ '' [Z=2]'', ''[M-2H]2-'', - 2))
          (map frag_name (filter (\<lambda>frag. str_in ''-Neu5Ac,309'' (frag_name frag)
                                     \<or> str_in ''-Neu5Ac,291'' (frag_name frag)) hg))"
    by (simp add: gt1_doubly_charged_def z2_row_fields precursor_name_GT1b comp_def)
  then show ?thesis by (simp add: GT1b_allowlisted [OF hg])
qed

lemma generate_GT1b_18_1_18_0:
  "generate_lipid_formulas DEFAULT_CONFIG ''GT1b'' (Some [''18:1;2'']) (Some [''18:0''])
     = Inr [(''18:1;2/18:0'', Formula [(''C'', 95), (''H'', 165), (''N'', 5), (''O'', 47)])]"
  by (simp add: generate_lipid_formulas_def selection_def parse_lcb_def parse_fa_def string_eval
      bindE_def get_lipid_composition_def GSL_HEADGROUP_COMPOSITIONS_def
      final_formula_def dict_item_def dict_get_def
      ceramide_backbone_def species_name_def MolecularFormula_def)

lemma GT1b_18_1_18_0_doubly_charged:
  "\<exists>rows. generate_transitions DEFAULT_CONFIG ''GT1b'' [2] (Some [''[M-2H]2-''])
            (Some [''18:1;2'']) (Some [''18:0'']) = Inr rows
     \<and> map (\<lambda>r. (Molecule r, Product_Name r, Product_Adduct r, Product_Charge r))
           (filter (\<lambda>r. str_in ''[Z=2]'' (Product_Name r)) rows)
       = [(''GT1b 18:1;2/18:0'', ''HG(-Neu5Ac,309) [Z=2]'', ''[M-2H]2-'', - 2)]"
proof -
  let ?q = "\<lambda>r. str_in ''[Z=2]'' (Product_Name r)"
  let ?p = "\<lambda>r. (Molecule r, Product_Name r, Product_Adduct r, Product_Charge r)"
  from generate_transitions_returns [OF generate_GT1b_18_1_18_0] obtain rows where
    R: "generate_transitions DEFAULT_CONFIG ''GT1b'' [2] (Some [''[M-2H]2-''])
            (Some [''18:1;2'']) (Some [''18:0'']) = Inr rows"
    by blast
  have "map ?p (filter ?q rows)
     = concat (map (\<lambda>(sp, f). concat (map
           (\<lambda>a. [(''GT1b '' @ sp, ''HG(-Neu5Ac,309) [Z=2]'', ''[M-2H]2-'', - 2)])
         (get_adduct_definitions [2] (Some [''[M-2H]2-''])))) 
         [(''18:1;2/18:0'', Formula [(''C'', 95), (''H'', 165), (''N'', 5), (''O'', 47)])])"
  proof (rule generate_transitions_collect [OF generate_GT1b_18_1_18_0 R])
    fix sp f a rs
    assume m: "(sp, f) \<in> set [(''18:1;2/18:0'', Formula [(''C'', 95), (''H'', 165), (''N'', 5), (''O'', 47)])]"
      and a: "a \<in> set (get_adduct_definitions [2] (Some [''[M-2H]2-'']))"
      and rs: "adduct_transitions ''GT1b'' sp f (neutral_mass f) a = Inr rs"
    from a have a2: "a = \<lparr>name = ''[M-2H]2-'', mass_delta = - 2 * PROTON_MASS, charge = - 2,
              polarity = ''negative''\<rparr>"
      by (simp add: adducts_M_minus_2H)
    from species_enumerated_fa_fragments [OF generate_GT1b_18_1_18_0 m]
    have "\<forall>frag\<in>set (get_fa_fragments_negative (py_split CHR ''/'' sp ! 1)).
               table_name (frag_name frag)" by blast
    with rs show "map ?p (filter ?q rs)
        = [(''GT1b '' @ sp, ''HG(-Neu5Ac,309) [Z=2]'', ''[M-2H]2-'', - 2)]"
      unfolding a2 by (rule GT1b_adduct_doubly_charged)
  qed
  then have P: "map ?p (filter ?q rows)
     = [(''GT1b 18:1;2/18:0'', ''HG(-Neu5Ac,309) [Z=2]'', ''[M-2H]2-'', - 2)]"
    by (simp add: adducts_M_minus_2H)
  show ?thesis
    by (rule exI [of _ rows]) (rule conjI [OF R P])
qed

text \<open>
  Claim C9. A row whose Product Name contains \<^verbatim>\<open>[Z=2]\<close> is produced only under an adduct
  of negative polarity: whenever \<^verbatim>\<open>generate_transitions\<close> returns, for every lipid class
  (GT1a, GT1b, GT1c, GP1, nLc10 and nLc8 among them), every such row carries the name and
  the signed charge of an adduct of the selection whose polarity is \<^verbatim>\<open>negative\<close> and whose
  charge is below zero. Every row carries the signed charge of the adduct it was produced
  under, and an adduct of positive polarity has a charge above zero, of any magnitude; so
  no row produced under an adduct of positive polarity contains \<^verbatim>\<open>[Z=2]\<close>.
\<close>

theorem doubly_charged_rows_only_negative:
  assumes "generate_transitions cfg lipid_class charge_states selected_adducts
             selected_lcbs selected_fas = Inr rows"
    and "r \<in> set rows"
    and "str_in ''[Z=2]'' (Product_Name r)"
  shows "Precursor_Charge r < 0
     \<and> (\<exists>adduct. adduct \<in> set (get_adduct_definitions charge_states selected_adducts)
           \<and> polarity adduct = ''negative''
           \<and> Precursor_Adduct r = name adduct \<and> Precursor_Charge r = charge adduct)"
proof -
  from generate_transitions_origin [OF assms(1,2)] obtain sp f a rs where
    a: "a \<in> set (get_adduct_definitions charge_states selected_adducts)"
    and rs: "adduct_transitions lipid_class sp f (neutral_mass f) a = Inr rs"
    and r: "r \<in> set rs"
    by blast
  from adduct_transitions_shape [OF rs] obtain rest where
    s: "rs = row lipid_class (precursor_name lipid_class sp) (formula_str f) a
                  ((neutral_mass f + mass_delta a) / of_int \<bar>charge a\<bar>)
                  ''precursor'' (formula_str f) (name a)
                  ((neutral_mass f + mass_delta a) / of_int \<bar>charge a\<bar>) (charge a) # rest"
    and p: "polarity a = ''positive'' \<longrightarrow> (\<forall>r\<in>set rest. \<not> str_in ''[Z=2]'' (Product_Name r))"
    by blast
  have "\<not> str_in ''[Z=2]'' ''precursor''" by simp
  with r s assms(3) have "r \<in> set rest" by (auto simp: row_fields)
  with p assms(3) have "polarity a \<noteq> ''positive''" by blast
  with get_adduct_definitions_sign [OF a]
  have n: "polarity a = ''negative''" "charge a < 0" by blast+
  from adduct_transitions_fields [OF rs r]
  have "Precursor_Adduct r = name a" "Precursor_Charge r = charge a" by blast+
  with a n show ?thesis by auto
qed

theorem doubly_charged_rows_only_negative_witness:
  "\<exists>rows r. generate_transitions DEFAULT_CONFIG ''GT1b'' [2] (Some [''[M-2H]2-''])
            (Some [''18:1;2'']) (Some [''18:0'']) = Inr rows
     \<and> r \<in> set rows \<and> str_in ''[Z=2]'' (Product_Name r)
     \<and> Precursor_Adduct r = ''[M-2H]2-'' \<and> Precursor_Charge r = - 2"
proof -
  from GT1b_18_1_18_0_doubly_charged obtain rows where
    RP: "generate_transitions DEFAULT_CONFIG ''GT1b'' [2] (Some [''[M-2H]2-''])
            (Some [''18:1;2'']) (Some [''18:0'']) = Inr rows
     \<and> map (\<lambda>r. (Molecule r, Product_Name r, Product_Adduct r, Product_Charge r))
           (filter (\<lambda>r. str_in ''[Z=2]'' (Product_Name r)) rows)
       = [(''GT1b 18:1;2/18:0'', ''HG(-Neu5Ac,309) [Z=2]'', ''[M-2H]2-'', - 2)]" ..
  note R = conjunct1 [OF RP] and P = conjunct2 [OF RP]
  from P have "filter (\<lambda>r. str_in ''[Z=2]'' (Product_Name r)) rows \<noteq> []" by auto
  then obtain r where "r \<in> set (filter (\<lambda>r. str_in ''[Z=2]'' (Product_Name r)) rows)"
    by (cases "filter (\<lambda>r. str_in ''[Z=2]'' (Product_Name r)) rows") auto
  then have r: "r \<in> set rows" and z: "str_in ''[Z=2]'' (Product_Name r)" by simp_all
  from doubly_charged_rows_only_negative [OF R r z]
  have F: "Precursor_Adduct r = ''[M-2H]2-'' \<and> Precursor_Charge r = - 2"
    by (auto simp: adducts_M_minus_2H)
  show ?thesis
    by (rule exI [of _ rows], rule exI [of _ r]) (use R r z F in blast)
qed

text \<open>
  Claim C1, as the code has it. For the class GT1b with the charge states \<^verbatim>\<open>[2]\<close> and
  the adduct \<^verbatim>\<open>[M-2H]2-\<close>, whenever the enumeration of the species returns,
  \<^verbatim>\<open>generate_transitions\<close> returns, and the rows of its result whose Product Name contains
  \<^verbatim>\<open>[Z=2]\<close> are, in the order of the species, exactly one row for every enumerated species:
  the row named \<^verbatim>\<open>HG(-Neu5Ac,309) [Z=2]\<close>, with the Product Adduct \<^verbatim>\<open>[M-2H]2-\<close> and the
  Product Charge -2. There is no row named \<^verbatim>\<open>HG(-Neu5Ac,291) [Z=2]\<close>: the losses of GT1b
  have no entry \<^verbatim>\<open>HG(-Neu5Ac,291)\<close>.
\<close>

theorem GT1b_doubly_charged_rows:
  assumes "generate_lipid_formulas cfg ''GT1b'' selected_lcbs selected_fas = Inr formulas"
  shows "\<exists>rows. generate_transitions cfg ''GT1b'' [2] (Some [''[M-2H]2-''])
                  selected_lcbs selected_fas = Inr rows
     \<and> map (\<lambda>r. (Molecule r, Product_Name r, Product_Adduct r, Product_Charge r))
           (filter (\<lambda>r. str_in ''[Z=2]'' (Product_Name r)) rows)
       = map (\<lambda>(species, formula).
                (''GT1b '' @ species, ''HG(-Neu5Ac,309) [Z=2]'', ''[M-2H]2-'', - 2)) formulas"
proof -
  let ?q = "\<lambda>r. str_in ''[Z=2]'' (Product_Name r)"
  let ?p = "\<lambda>r. (Molecule r, Product_Name r, Product_Adduct r, Product_Charge r)"
  from generate_transitions_returns [OF assms] obtain rows where
    R: "generate_transitions cfg ''GT1b'' [2] (Some [''[M-2H]2-''])
          selected_lcbs selected_fas = Inr rows"
    by blast
  have "map ?p (filter ?q rows)
     = concat (map (\<lambda>(sp, f). concat (map
           (\<lambda>a. [(''GT1b '' @ sp, ''HG(-Neu5Ac,309) [Z=2]'', ''[M-2H]2-'', - 2)])
         (get_adduct_definitions [2] (Some [''[M-2H]2-''])))) formulas)"
  proof (rule generate_transitions_collect [OF assms R])
    fix sp f a rs
    assume m: "(sp, f) \<in> set formulas"
      and a: "a \<in> set (get_adduct_definitions [2] (Some [''[M-2H]2-'']))"
      and rs: "adduct_transitions ''GT1b'' sp f (neutral_mass f) a = Inr rs"
    from a have a2: "a = \<lparr>name = ''[M-2H]2-'', mass_delta = - 2 * PROTON_MASS, charge = - 2,
              polarity = ''negative''\<rparr>"
      by (simp add: adducts_M_minus_2H)
    from species_enumerated_fa_fragments [OF assms m]
    have "\<forall>frag\<in>set (get_fa_fragments_negative (py_split CHR ''/'' sp ! 1)).
               table_name (frag_name frag)" by blast
    with rs show "map ?p (filter ?q rs)
        = [(''GT1b '' @ sp, ''HG(-Neu5Ac,309) [Z=2]'', ''[M-2H]2-'', - 2)]"
      unfolding a2 by (rule GT1b_adduct_doubly_charged)
  qed
  also have "\<dots> = map (\<lambda>(species, formula).
              (''GT1b '' @ species, ''HG(-Neu5Ac,309) [Z=2]'', ''[M-2H]2-'', - 2)) formulas"
    by (induction formulas) (auto simp: adducts_M_minus_2H)
  finally have P: "map ?p (filter ?q rows)
     = map (\<lambda>(species, formula).
              (''GT1b '' @ species, ''HG(-Neu5Ac,309) [Z=2]'', ''[M-2H]2-'', - 2)) formulas" .
  show ?thesis
    by (rule exI [of _ rows]) (rule conjI [OF R P])
qed

theorem GT1b_doubly_charged_rows_witness:
  "\<exists>rows. generate_transitions DEFAULT_CONFIG ''GT1b'' [2] (Some [''[M-2H]2-''])
            (Some [''18:1;2'']) (Some [''18:0'']) = Inr rows
     \<and> map (\<lambda>r. (Molecule r, Product_Name r, Product_Adduct r, Product_Charge r))
           (filter (\<lambda>r. str_in ''[Z=2]'' (Product_Name r)) rows)
       = [(''GT1b 18:1;2/18:0'', ''HG(-Neu5Ac,309) [Z=2]'', ''[M-2H]2-'', - 2)]"
  using GT1b_doubly_charged_rows [OF generate_GT1b_18_1_18_0] by simp

theorem GT1b_doubly_charged_rows_counterexample:
  "map_sum id (map Product_Name \<circ> filter (str_in ''[Z=2]'' \<circ> Product_Name))
     (generate_transitions DEFAULT_CONFIG ''GT1b'' [2] (Some [''[M-2H]2-''])
        (Some [''18:1;2'']) (Some [''18:0'']))
   = Inr [''HG(-Neu5Ac,309) [Z=2]'']"
proof -
  from GT1b_18_1_18_0_doubly_charged obtain rows where
    RP: "generate_transitions DEFAULT_CONFIG ''GT1b'' [2] (Some [''[M-2H]2-''])
            (Some [''18:1;2'']) (Some [''18:0'']) = Inr rows
     \<and> map (\<lambda>r. (Molecule r, Product_Name r, Product_Adduct r, Product_Charge r))
           (filter (\<lambda>r. str_in ''[Z=2]'' (Product_Name r)) rows)
       = [(''GT1b 18:1;2/18:0'', ''HG(-Neu5Ac,309) [Z=2]'', ''[M-2H]2-'', - 2)]" ..
  note R = conjunct1 [OF RP] and P = conjunct2 [OF RP]
  have "map Product_Name (filter (\<lambda>r. str_in ''[Z=2]'' (Product_Name r)) rows)
      = map (\<lambda>t. fst (snd t))
          (map (\<lambda>r. (Molecule r, Product_Name r, Product_Adduct r, Product_Charge r))
             (filter (\<lambda>r. str_in ''[Z=2]'' (Product_Name r)) rows))"
    by (simp add: comp_def)
  also have "\<dots> = [''HG(-Neu5Ac,309) [Z=2]'']"
    unfolding P by simp
  finally show ?thesis by (simp add: R comp_def)
qed

section \<open>The species enumeration returns\<close>











section \<open>Empty selections\<close>










end
